(* ===== verification/Prelude.thy ===== *)
theory Prelude
  imports Main "HOL-Library.Word"
begin

text \<open>
  Shared vocabulary of the development. The decoder reads one immutable byte buffer
  (a Python \<open>bytes\<close> object), so a buffer is a list of 8-bit words and every offset is a
  natural number (Python's offsets are unbounded non-negative ints here). Every exception
  the decoder can raise is a constructor of \<open>error\<close>, and a computation that may raise
  returns \<open>error + 'a\<close>, \<open>Inl\<close> carrying the exception. \<open>bindE\<close> sequences two such
  computations the way Python statements follow each other: the first exception aborts
  the rest. \<open>py_slice\<close> is Python's \<open>data[a:b]\<close> on non-negative bounds, which clamps and
  never raises.
\<close>

type_synonym byte = "8 word"
type_synonym buffer = "byte list"

datatype error =
    StructError
    \<comment> \<open>\<open>struct.error\<close>: a read past the end of the buffer\<close>
  | MagicError int int
    \<comment> \<open>\<open>ValueError('Incorrect magic number ...')\<close>: expected and found value\<close>
  | UnicodeDecodeError
    \<comment> \<open>\<open>bytes.decode('utf-8')\<close> on an ill-formed byte sequence\<close>
  | ZlibError
    \<comment> \<open>\<open>zlib.error\<close> raised by \<open>zlib.decompress\<close>\<close>
  | UnpackArityError
    \<comment> \<open>\<open>ValueError\<close>: a tuple assignment with the wrong number of values\<close>
  | TypeError
  | AttributeError
    \<comment> \<open>setting an attribute on an object that has none, such as a \<open>dict\<close>\<close>
  | IndexError
  | KeyError

type_synonym 'a result = "error + 'a"

definition bindE :: "'a result \<Rightarrow> ('a \<Rightarrow> 'b result) \<Rightarrow> 'b result" where
  "bindE m f = (case m of Inl e \<Rightarrow> Inl e | Inr a \<Rightarrow> f a)"

definition py_slice :: "'a list \<Rightarrow> nat \<Rightarrow> nat \<Rightarrow> 'a list" where
  "py_slice xs a b = take (b - a) (drop a xs)"

text \<open>
  \<open>data[a:b:s]\<close> with a positive step: the elements at \<open>a, a + s, \<dots>\<close> below \<open>b\<close> and below
  the length of the list.
\<close>

definition py_slice_step :: "'a list \<Rightarrow> nat \<Rightarrow> nat \<Rightarrow> nat \<Rightarrow> 'a list" where
  "py_slice_step xs a b s =
     map (\<lambda>k. xs ! k) (filter (\<lambda>k. (k - a) mod s = 0) [a..<min b (length xs)])"

text \<open>
  Python values of the three kinds the code mixes: ints, strings (a format string held
  in a class attribute) and tuples (what \<open>Struct.unpack_from\<close> returns). \<open>==\<close>
  between values of different types is \<open>False\<close>, never an error; \<open>range(x)\<close> and
  \<open>x + y\<close> raise \<open>TypeError\<close> unless the operands have the types the operation
  takes. \<open>py_range\<close> returns the stop value of \<open>range(stop)\<close>, which runs the loop
  \<open>nat stop\<close> times.
\<close>

datatype pyval = PyInt int | PyStr string | PyTuple "pyval list"

fun py_eq :: "pyval \<Rightarrow> pyval \<Rightarrow> bool" where
  "py_eq (PyInt a) (PyInt b) = (a = b)"
| "py_eq (PyStr a) (PyStr b) = (a = b)"
| "py_eq (PyTuple a) (PyTuple b) = (a = b)"
| "py_eq _ _ = False"

fun py_range :: "pyval \<Rightarrow> int result" where
  "py_range (PyInt stop) = Inr stop"
| "py_range _ = Inl TypeError"

fun py_add :: "pyval \<Rightarrow> pyval \<Rightarrow> pyval result" where
  "py_add (PyInt a) (PyInt b) = Inr (PyInt (a + b))"
| "py_add (PyStr a) (PyStr b) = Inr (PyStr (a @ b))"
| "py_add (PyTuple a) (PyTuple b) = Inr (PyTuple (a @ b))"
| "py_add _ _ = Inl TypeError"

definition py_tuple :: "int list \<Rightarrow> pyval" where
  "py_tuple vs = PyTuple (map PyInt vs)"

named_theorems codec_simps "unfolding rules for the chunk and header codecs"
named_theorems layout "sizes of the struct formats the codecs use"

lemma py_range_py_tuple [simp]: "py_range (py_tuple vs) = Inl TypeError"
  by (simp add: py_tuple_def)

lemma bindE_simps [simp]:
  "bindE (Inl e) f = Inl e"
  "bindE (Inr a) f = f a"
  by (simp_all add: bindE_def)

lemma bindE_assoc: "bindE (bindE m f) g = bindE m (\<lambda>x. bindE (f x) g)"
  by (cases m) simp_all

lemma bindE_Inr_iff:
  "bindE m f = Inr b \<longleftrightarrow> (\<exists>a. m = Inr a \<and> f a = Inr b)"
  by (cases m) simp_all

lemma bindE_Inl_iff:
  "bindE m f = Inl e \<longleftrightarrow> m = Inl e \<or> (\<exists>a. m = Inr a \<and> f a = Inl e)"
  by (cases m) simp_all

lemma bindE_cong [fundef_cong]:
  "m = m' \<Longrightarrow> (\<And>a. m' = Inr a \<Longrightarrow> f a = g a) \<Longrightarrow> bindE m f = bindE m' g"
  by (cases m') simp_all

lemma unat_byte_less [simp]: "unat (b :: byte) < 256"
  using unsigned_less [of b, where ?'a = nat] by simp

lemma unat_of_nat_byte [simp]: "n < 256 \<Longrightarrow> unat (of_nat n :: byte) = n"
  by (simp add: unat_of_nat)

lemma length_py_slice [simp]: "length (py_slice xs a b) = min (b - a) (length xs - a)"
  by (simp add: py_slice_def)

lemma py_slice_append_exact:
  "py_slice (pre @ ys @ post) (length pre) (length pre + length ys) = ys"
  by (simp add: py_slice_def)

lemma py_slice_step_empty [simp]: "py_slice_step xs a a s = []"
  by (simp add: py_slice_step_def)

lemma take_drop_append_exact [simp]:
  "take (length ys) (drop (length pre) (pre @ ys @ post)) = ys"
  by simp


lemma case_single_Inr [simp]:
  "((case ws of [t] \<Rightarrow> f t | _ \<Rightarrow> Inl e) = Inr r) \<longleftrightarrow> (\<exists>t. ws = [t] \<and> f t = Inr r)"
  by (cases ws rule: remdups_adj.cases) auto


lemma case_sum_InrD:
  "(case r of Inl _ \<Rightarrow> False | Inr a \<Rightarrow> P a) \<Longrightarrow> \<exists>a. r = Inr a \<and> P a"
  by (cases r) auto


lemma map_sum_bindE:
  "map_sum id f (bindE m g) = bindE m (\<lambda>a. map_sum id f (g a))"
  by (cases m) simp_all

lemma bindE_map_sum:
  "bindE (map_sum id f m) g = bindE m (\<lambda>a. g (f a))"
  by (cases m) simp_all


lemma concat_map_Nil [simp]: "concat (map (\<lambda>_. []) xs) = []"
  by (induction xs) simp_all

lemma concat_map_single [simp]: "concat (map (\<lambda>x. [f x]) xs) = map f xs"
  by (induction xs) simp_all

lemma upt_append_upt: "i \<le> j \<Longrightarrow> j \<le> k \<Longrightarrow> [i..<j] @ [j..<k] = [i..<k]"
  by (metis le_add_diff_inverse upt_add_eq_append)

end
