(* ===== verification/Struct.thy ===== *)
theory Struct
  imports Prelude
begin

text \<open>
  Python's \<open>struct\<close> module as the decoder uses it: little-endian formats (\<open>'<'\<close>, no
  alignment) made of pad bytes \<open>x\<close>, unsigned fields \<open>B\<close>, \<open>H\<close>, \<open>I\<close>, \<open>L\<close> and
  signed fields \<open>h\<close>, \<open>i\<close>. A format is a list of \<open>fmt_field\<close>s; \<open>calcsize\<close> is
  \<open>Struct(fmt).size\<close>; \<open>unpack_from\<close> is \<open>Struct(fmt).unpack_from(data, offset)\<close>, which
  raises \<open>struct.error\<close> unless the whole record lies inside the buffer and returns the
  values as Python ints; \<open>unpack_exact\<close> is \<open>struct.unpack(fmt, data)\<close>, which needs the
  buffer to have exactly the format's size; \<open>unpack_bytes\<close> is the \<open>'<Ns'\<close> format.
  The encoder \<open>le_bytes\<close> / \<open>pack_fields\<close> is \<open>struct.pack\<close>; the library only decodes,
  so it serves to state the round trips.
\<close>

datatype fmt_field =
    Pad nat   \<comment> \<open>\<open>'Nx'\<close>: N pad bytes, no value\<close>
  | UInt nat  \<comment> \<open>\<open>'B'\<close>, \<open>'H'\<close>, \<open>'I'\<close>/\<open>'L'\<close>: unsigned, 1, 2 or 4 bytes\<close>
  | SInt nat  \<comment> \<open>\<open>'h'\<close>, \<open>'i'\<close>: two's complement, 2 or 4 bytes\<close>

fun field_size :: "fmt_field \<Rightarrow> nat" where
  "field_size (Pad n) = n"
| "field_size (UInt n) = n"
| "field_size (SInt n) = n"

definition calcsize :: "fmt_field list \<Rightarrow> nat" where
  "calcsize fs = sum_list (map field_size fs)"

fun le_uint :: "byte list \<Rightarrow> nat" where
  "le_uint [] = 0"
| "le_uint (b # bs) = unat b + 256 * le_uint bs"

definition to_signed :: "nat \<Rightarrow> nat \<Rightarrow> int" where
  "to_signed n v = (if v < 2 ^ (8 * n - 1) then int v else int v - 2 ^ (8 * n))"

fun unpack_fields :: "fmt_field list \<Rightarrow> byte list \<Rightarrow> int list" where
  "unpack_fields [] bs = []"
| "unpack_fields (Pad n # fs) bs = unpack_fields fs (drop n bs)"
| "unpack_fields (UInt n # fs) bs = int (le_uint (take n bs)) # unpack_fields fs (drop n bs)"
| "unpack_fields (SInt n # fs) bs =
     to_signed n (le_uint (take n bs)) # unpack_fields fs (drop n bs)"

definition unpack_from :: "fmt_field list \<Rightarrow> buffer \<Rightarrow> nat \<Rightarrow> int list result" where
  "unpack_from fs bs off =
     (if off + calcsize fs \<le> length bs then Inr (unpack_fields fs (drop off bs))
      else Inl StructError)"

definition unpack_exact :: "fmt_field list \<Rightarrow> buffer \<Rightarrow> int list result" where
  "unpack_exact fs bs =
     (if length bs = calcsize fs then Inr (unpack_fields fs bs) else Inl StructError)"

definition unpack_bytes :: "nat \<Rightarrow> buffer \<Rightarrow> nat \<Rightarrow> byte list result" where
  "unpack_bytes n bs off =
     (if off + n \<le> length bs then Inr (take n (drop off bs)) else Inl StructError)"

subsection \<open>Encoding, for the round trips\<close>

fun le_bytes :: "nat \<Rightarrow> nat \<Rightarrow> byte list" where
  "le_bytes 0 v = []"
| "le_bytes (Suc n) v = of_nat (v mod 256) # le_bytes n (v div 256)"

fun field_fits :: "fmt_field \<Rightarrow> int \<Rightarrow> bool" where
  "field_fits (Pad n) v = False"
| "field_fits (UInt n) v = (0 \<le> v \<and> v < 2 ^ (8 * n))"
| "field_fits (SInt n) v = (- (2 ^ (8 * n - 1)) \<le> v \<and> v < 2 ^ (8 * n - 1))"

fun is_value_field :: "fmt_field \<Rightarrow> bool" where
  "is_value_field (Pad n) = False"
| "is_value_field (UInt n) = True"
| "is_value_field (SInt n) = True"

definition value_fields :: "fmt_field list \<Rightarrow> fmt_field list" where
  "value_fields fs = filter is_value_field fs"

definition fits :: "fmt_field list \<Rightarrow> int list \<Rightarrow> bool" where
  "fits fs vs = list_all2 field_fits (value_fields fs) vs"

fun wf_field :: "fmt_field \<Rightarrow> bool" where
  "wf_field (Pad n) = True"
| "wf_field (UInt n) = (0 < n)"
| "wf_field (SInt n) = (0 < n)"

fun pack_fields :: "fmt_field list \<Rightarrow> int list \<Rightarrow> byte list" where
  "pack_fields [] vs = []"
| "pack_fields (Pad n # fs) vs = replicate n 0 @ pack_fields fs vs"
| "pack_fields (UInt n # fs) vs =
     (case vs of [] \<Rightarrow> [] | v # vs' \<Rightarrow> le_bytes n (nat v) @ pack_fields fs vs')"
| "pack_fields (SInt n # fs) vs =
     (case vs of [] \<Rightarrow> [] | v # vs' \<Rightarrow> le_bytes n (nat (v mod 2 ^ (8 * n))) @ pack_fields fs vs')"

subsection \<open>Little-endian integers\<close>

lemma le_uint_bound: "le_uint bs < 256 ^ length bs"
proof (induction bs)
  case Nil
  then show ?case by simp
next
  case (Cons b bs)
  have "256 + 256 * le_uint bs \<le> 256 * 256 ^ length bs"
    using Cons.IH by simp
  moreover have "unat b < 256" by simp
  ultimately have "unat b + 256 * le_uint bs < 256 * 256 ^ length bs" by linarith
  then show ?case by simp
qed

lemma length_le_bytes [simp]: "length (le_bytes n v) = n"
  by (induction n arbitrary: v) simp_all

lemma le_uint_le_bytes: "le_uint (le_bytes n v) = v mod 256 ^ n"
proof (induction n arbitrary: v)
  case 0
  then show ?case by simp
next
  case (Suc n)
  have "unat (of_nat (v mod 256) :: byte) = v mod 256"
    by (simp add: unat_of_nat)
  then have "le_uint (le_bytes (Suc n) v) = v mod 256 + 256 * (v div 256 mod 256 ^ n)"
    by (simp add: Suc.IH)
  also have "\<dots> = v mod 256 ^ Suc n"
    by (simp add: mod_mult2_eq ac_simps)
  finally show ?case .
qed

lemma le_bytes_le_uint: "le_bytes (length bs) (le_uint bs) = bs"
proof (induction bs)
  case Nil
  then show ?case by simp
next
  case (Cons b bs)
  have lo: "(unat b + 256 * le_uint bs) mod 256 = unat b"
    by simp
  have hi: "(unat b + 256 * le_uint bs) div 256 = le_uint bs"
    by simp
  show ?case by (simp add: lo hi Cons.IH)
qed

lemma le_uint_replicate_0 [simp]: "le_uint (replicate n 0) = 0"
  by (induction n) simp_all

lemma le_uint_inject:
  "length bs = length cs \<Longrightarrow> le_uint bs = le_uint cs \<Longrightarrow> bs = cs"
  by (metis le_bytes_le_uint)

lemma pow_256_eq: "(256::nat) ^ n = 2 ^ (8 * n)"
  by (simp add: power_mult)

lemma pow_split: "0 < n \<Longrightarrow> (2::int) ^ (8 * n) = 2 * 2 ^ (8 * n - 1)"
proof -
  assume "0 < n"
  then have "8 * n = Suc (8 * n - 1)" by simp
  then show ?thesis by (metis power_Suc)
qed

lemma int_less_pow: "v < 2 ^ k \<Longrightarrow> int v < 2 ^ k"
  by (metis of_nat_less_iff of_nat_numeral of_nat_power)

lemma to_signed_bounds:
  assumes "0 < n" and "v < 2 ^ (8 * n)"
  shows "- (2 ^ (8 * n - 1)) \<le> to_signed n v \<and> to_signed n v < 2 ^ (8 * n - 1)"
proof -
  have split: "(2::int) ^ (8 * n) = 2 * 2 ^ (8 * n - 1)"
    using assms(1) by (rule pow_split)
  have "int v < 2 ^ (8 * n)"
    using assms(2) by (rule int_less_pow)
  with split show ?thesis
    by (auto simp add: to_signed_def not_less)
qed

lemma to_signed_mod:
  assumes "0 < n" and "- (2 ^ (8 * n - 1)) \<le> v" and "v < 2 ^ (8 * n - 1)"
  shows "to_signed n (nat (v mod 2 ^ (8 * n))) = v"
proof -
  define M :: int where "M = 2 ^ (8 * n - 1)"
  define r where "r = v mod 2 ^ (8 * n)"
  have split: "(2::int) ^ (8 * n) = 2 * M"
    using pow_split [OF assms(1)] by (simp add: M_def)
  have "0 < M" by (simp add: M_def)
  have r0: "0 \<le> r" by (simp add: r_def)
  have cond: "nat r < 2 ^ (8 * n - 1) \<longleftrightarrow> r < M"
    using r0 by (simp add: nat_less_iff M_def)
  have ts: "to_signed n (nat r) = (if r < M then r else r - 2 * M)"
    using r0 cond split by (simp add: to_signed_def)
  show ?thesis
  proof (cases "0 \<le> v")
    case True
    with assms(3) \<open>0 < M\<close> have "r = v"
      by (simp add: r_def split M_def)
    with True assms(3) ts show ?thesis
      by (simp add: r_def M_def)
  next
    case False
    have "(v + 2 * M) mod (2 * M) = v mod (2 * M)" by simp
    moreover have "- M \<le> v" using assms(2) by (simp add: M_def)
    then have "(v + 2 * M) mod (2 * M) = v + 2 * M"
      using False \<open>0 < M\<close> by (intro mod_pos_pos_trivial) linarith+
    ultimately have "r = v + 2 * M" by (simp add: r_def split)
    with False assms(2) ts show ?thesis
      by (simp add: r_def M_def)
  qed
qed

subsection \<open>Unpacking: arity, bounds, round trip\<close>

lemma length_unpack_fields: "length (unpack_fields fs bs) = length (value_fields fs)"
  by (induction fs bs rule: unpack_fields.induct) (simp_all add: value_fields_def)

lemma le_uint_take_bound: "le_uint (take n bs) < 2 ^ (8 * n)"
proof -
  have "le_uint (take n bs) < 256 ^ length (take n bs)" by (rule le_uint_bound)
  also have "\<dots> \<le> 256 ^ n" by (simp add: power_increasing)
  finally show ?thesis by (simp add: pow_256_eq)
qed

lemma unpack_fields_fits:
  "list_all wf_field fs \<Longrightarrow> fits fs (unpack_fields fs bs)"
proof (induction fs bs rule: unpack_fields.induct)
  case (3 n fs bs)
  have "int (le_uint (take n bs)) < 2 ^ (8 * n)"
    using le_uint_take_bound [of n bs] by (rule int_less_pow)
  with 3 show ?case by (simp add: fits_def value_fields_def)
next
  case (4 n fs bs)
  then have "0 < n" by simp
  with to_signed_bounds [OF this le_uint_take_bound] 4 show ?case
    by (simp add: fits_def value_fields_def)
qed (simp_all add: fits_def value_fields_def)

lemma length_pack_fields:
  "fits fs vs \<Longrightarrow> length (pack_fields fs vs) = calcsize fs"
proof (induction fs vs rule: pack_fields.induct)
  case (3 n fs vs)
  then show ?case by (cases vs) (simp_all add: fits_def value_fields_def calcsize_def)
next
  case (4 n fs vs)
  then show ?case by (cases vs) (simp_all add: fits_def value_fields_def calcsize_def)
qed (simp_all add: fits_def value_fields_def calcsize_def)

lemma le_uint_le_bytes_fits:
  "0 \<le> v \<Longrightarrow> v < 2 ^ (8 * n) \<Longrightarrow> int (le_uint (le_bytes n (nat v))) = v"
  by (simp add: le_uint_le_bytes pow_256_eq nat_less_iff)

lemma unpack_pack_fields:
  "list_all wf_field fs \<Longrightarrow> fits fs vs \<Longrightarrow> unpack_fields fs (pack_fields fs vs @ rest) = vs"
proof (induction fs vs rule: pack_fields.induct)
  case (3 n fs vs)
  then obtain v vs' where vs: "vs = v # vs'"
    by (cases vs) (simp_all add: fits_def value_fields_def)
  with 3 show ?case
    by (simp add: fits_def value_fields_def le_uint_le_bytes_fits)
next
  case (4 n fs vs)
  then obtain v vs' where vs: "vs = v # vs'"
    by (cases vs) (simp_all add: fits_def value_fields_def)
  have "0 \<le> v mod 2 ^ (8 * n)" "v mod 2 ^ (8 * n) < 2 ^ (8 * n)" by simp_all
  then have "le_uint (le_bytes n (nat (v mod 2 ^ (8 * n)))) = nat (v mod 2 ^ (8 * n))"
    by (simp add: le_uint_le_bytes pow_256_eq nat_less_iff)
  with 4 vs show ?case
    by (simp add: fits_def value_fields_def to_signed_mod)
qed (simp_all add: fits_def value_fields_def)

theorem unpack_from_pack:
  assumes "list_all wf_field fs" and "fits fs vs"
  shows "unpack_from fs (pre @ pack_fields fs vs @ post) (length pre) = Inr vs"
  using assms by (simp add: unpack_from_def length_pack_fields unpack_pack_fields)

theorem unpack_from_bounds:
  "list_all wf_field fs \<Longrightarrow> unpack_from fs bs off = Inr vs \<Longrightarrow> fits fs vs"
  by (auto simp add: unpack_from_def unpack_fields_fits split: if_splits)

lemma unpack_from_length:
  "unpack_from fs bs off = Inr vs \<Longrightarrow> length vs = length (value_fields fs)"
  by (auto simp add: unpack_from_def length_unpack_fields split: if_splits)

lemma unpack_from_error:
  "unpack_from fs bs off = Inl e \<longleftrightarrow> e = StructError \<and> length bs < off + calcsize fs"
  by (auto simp add: unpack_from_def)

lemma unpack_bytes_append:
  "unpack_bytes (length ys) (pre @ ys @ post) (length pre) = Inr ys"
  by (simp add: unpack_bytes_def)


lemma value_fields_simps [simp]:
  "value_fields [] = []"
  "value_fields (f # fs) = (if is_value_field f then f # value_fields fs else value_fields fs)"
  by (simp_all add: value_fields_def)


lemma unpack_from_Inr_length:
  "unpack_from fs bs off = Inr vs \<Longrightarrow> off + calcsize fs \<le> length bs"
  by (simp add: unpack_from_def split: if_splits)

end
