(* ===== verification/Strings.thy ===== *)
theory Strings
  imports Struct
begin

text \<open>
  Strings of the format (\<open>parse_string\<close>, \<open>src/src/aseprite/chunks.py\<close>): a 2-byte
  little-endian length followed by that many bytes, decoded by Python's strict UTF-8
  codec. A Python \<open>str\<close> is a sequence of code points, so a decoded string is a
  \<open>nat list\<close>. \<open>utf8_char\<close> decodes the first character of a byte sequence the way
  CPython's decoder does (shortest form only, no surrogates, nothing above U+10FFFF,
  continuation bytes 0x80--0xBF with the narrower second-byte ranges after E0, ED, F0 and
  F4); \<open>utf8_decode\<close> repeats it and fails, as \<open>UnicodeDecodeError\<close>, on the first
  ill-formed character. \<open>utf8_encode\<close> is \<open>str.encode('utf-8')\<close>, used for the round
  trips in both directions.
\<close>

type_synonym pystr = "nat list"

definition in_range :: "nat \<Rightarrow> nat \<Rightarrow> byte \<Rightarrow> bool" where
  "in_range lo hi b \<longleftrightarrow> lo \<le> unat b \<and> unat b \<le> hi"

definition utf8_char :: "byte list \<Rightarrow> (nat \<times> nat) option" where
  "utf8_char bs =
     (case bs of
        [] \<Rightarrow> None
      | b0 # r \<Rightarrow>
          (let c0 = unat b0 in
           if c0 < 0x80 then Some (c0, 1)
           else if c0 < 0xC2 then None
           else if c0 < 0xE0 then
             (case r of
                b1 # _ \<Rightarrow>
                  if in_range 0x80 0xBF b1
                  then Some ((c0 - 0xC0) * 64 + (unat b1 - 0x80), 2) else None
              | _ \<Rightarrow> None)
           else if c0 < 0xF0 then
             (case r of
                b1 # b2 # _ \<Rightarrow>
                  if in_range (if c0 = 0xE0 then 0xA0 else 0x80)
                              (if c0 = 0xED then 0x9F else 0xBF) b1
                     \<and> in_range 0x80 0xBF b2
                  then Some ((c0 - 0xE0) * 4096 + (unat b1 - 0x80) * 64 + (unat b2 - 0x80), 3)
                  else None
              | _ \<Rightarrow> None)
           else if c0 < 0xF5 then
             (case r of
                b1 # b2 # b3 # _ \<Rightarrow>
                  if in_range (if c0 = 0xF0 then 0x90 else 0x80)
                              (if c0 = 0xF4 then 0x8F else 0xBF) b1
                     \<and> in_range 0x80 0xBF b2 \<and> in_range 0x80 0xBF b3
                  then Some ((c0 - 0xF0) * 262144 + (unat b1 - 0x80) * 4096
                             + (unat b2 - 0x80) * 64 + (unat b3 - 0x80), 4)
                  else None
              | _ \<Rightarrow> None)
           else None))"

function utf8_decode :: "byte list \<Rightarrow> pystr option" where
  "utf8_decode bs =
     (if bs = [] then Some []
      else case utf8_char bs of
             None \<Rightarrow> None
           | Some (c, n) \<Rightarrow> map_option (Cons c) (utf8_decode (drop n bs)))"
  by pat_completeness auto
termination
  by (relation "measure length")
     (auto simp add: utf8_char_def Let_def split: list.splits if_splits)

declare utf8_decode.simps [simp del]

definition byte_of :: "nat \<Rightarrow> byte" where
  "byte_of n = of_nat n"

definition utf8_encode_char :: "nat \<Rightarrow> byte list" where
  "utf8_encode_char c =
     (if c < 0x80 then [byte_of c]
      else if c < 0x800 then [byte_of (0xC0 + c div 64), byte_of (0x80 + c mod 64)]
      else if c < 0x10000 then
        [byte_of (0xE0 + c div 4096), byte_of (0x80 + c div 64 mod 64), byte_of (0x80 + c mod 64)]
      else
        [byte_of (0xF0 + c div 262144), byte_of (0x80 + c div 4096 mod 64),
         byte_of (0x80 + c div 64 mod 64), byte_of (0x80 + c mod 64)])"

definition utf8_encode :: "pystr \<Rightarrow> byte list" where
  "utf8_encode cs = concat (map utf8_encode_char cs)"

definition scalar_value :: "nat \<Rightarrow> bool" where
  "scalar_value c \<longleftrightarrow> c < 0x110000 \<and> \<not> (0xD800 \<le> c \<and> c < 0xE000)"

definition encode_string :: "pystr \<Rightarrow> byte list" where
  "encode_string s = le_bytes 2 (length (utf8_encode s)) @ utf8_encode s"

definition py_decode_utf8 :: "byte list \<Rightarrow> pystr result" where
  "py_decode_utf8 raw = (case utf8_decode raw of None \<Rightarrow> Inl UnicodeDecodeError | Some s \<Rightarrow> Inr s)"

text \<open>\<open>parse_string(data, string_offset)\<close>: returns the number of bytes the string
  occupies (length field included) and the decoded text.\<close>

definition parse_string :: "buffer \<Rightarrow> nat \<Rightarrow> (nat \<times> pystr) result" where
  "parse_string bs string_offset =
     bindE (unpack_from [UInt 2] bs string_offset) (\<lambda>vs.
       case vs of
         [string_length] \<Rightarrow>
           bindE (unpack_bytes (nat string_length) bs (string_offset + 2)) (\<lambda>string_name.
             bindE (py_decode_utf8 string_name) (\<lambda>s. Inr (nat string_length + 2, s)))
       | _ \<Rightarrow> Inl UnpackArityError)"

subsection \<open>UTF-8: one character in both directions\<close>

lemma unat_byte_of [simp]: "n < 256 \<Longrightarrow> unat (byte_of n) = n"
  by (simp add: byte_of_def)

lemma byte_of_unat [simp]: "byte_of (unat b) = b"
  by (simp add: byte_of_def)

lemma utf8_char_length:
  "utf8_char bs = Some (c, n) \<Longrightarrow> 0 < n \<and> n \<le> length bs"
  by (auto simp add: utf8_char_def Let_def split: list.splits if_splits)

lemma div_mod_64 [simp]:
  "d < 64 \<Longrightarrow> (x * 64 + d) div 64 = x" "d < 64 \<Longrightarrow> (x * 64 + d) mod 64 = (d::nat)"
  by simp_all

lemma div_4096: "(n::nat) div 4096 = n div 64 div 64"
  by (simp add: div_mult2_eq [symmetric])

lemma div_262144: "(n::nat) div 262144 = n div 64 div 64 div 64"
  by (simp add: div_mult2_eq [symmetric])

lemma utf8_encode_char_2:
  assumes "d < 64" and c: "c = a * 64 + d" and "128 \<le> c" and "c < 2048"
  shows "utf8_encode_char c = [byte_of (0xC0 + a), byte_of (0x80 + d)]"
proof -
  have "c div 64 = a" "c mod 64 = d" using assms(1) c by simp_all
  with assms(3,4) show ?thesis by (simp add: utf8_encode_char_def)
qed

lemma utf8_encode_char_3:
  assumes "b < 64" and "d < 64" and c: "c = (a * 64 + b) * 64 + d"
    and "2048 \<le> c" and "c < 65536"
  shows "utf8_encode_char c = [byte_of (0xE0 + a), byte_of (0x80 + b), byte_of (0x80 + d)]"
proof -
  define x where "x = a * 64 + b"
  have c': "c = x * 64 + d" using c by (simp add: x_def)
  have "c div 64 = x" "c mod 64 = d" using assms(2) unfolding c' by simp_all
  moreover have "x div 64 = a" "x mod 64 = b" using assms(1) by (simp_all add: x_def)
  ultimately show ?thesis using assms(4,5) by (simp add: utf8_encode_char_def div_4096)
qed

lemma utf8_encode_char_4:
  assumes "b < 64" and "e < 64" and "d < 64" and c: "c = ((a * 64 + b) * 64 + e) * 64 + d"
    and "65536 \<le> c"
  shows "utf8_encode_char c =
           [byte_of (0xF0 + a), byte_of (0x80 + b), byte_of (0x80 + e), byte_of (0x80 + d)]"
proof -
  define x y where "x = a * 64 + b" and "y = x * 64 + e"
  have c': "c = y * 64 + d" using c by (simp add: x_def y_def)
  have "c div 64 = y" "c mod 64 = d" using assms(3) unfolding c' by simp_all
  moreover have "y div 64 = x" "y mod 64 = e" using assms(2) by (simp_all add: y_def)
  moreover have "x div 64 = a" "x mod 64 = b" using assms(1) by (simp_all add: x_def)
  ultimately show ?thesis using assms(5) by (simp add: utf8_encode_char_def div_4096 div_262144)
qed

lemma digits_3: "c = (c div 4096 * 64 + c div 64 mod 64) * 64 + c mod (64::nat)"
proof -
  have "c div 64 = c div 4096 * 64 + c div 64 mod 64" by (simp add: div_4096)
  moreover have "c = (c div 64) * 64 + c mod 64" by simp
  ultimately show ?thesis by simp
qed

lemma digits_4:
  "c = ((c div 262144 * 64 + c div 4096 mod 64) * 64 + c div 64 mod 64) * 64 + c mod (64::nat)"
proof -
  have "c div 4096 = c div 262144 * 64 + c div 4096 mod 64" by (simp add: div_4096 div_262144)
  then have "c div 64 = (c div 262144 * 64 + c div 4096 mod 64) * 64 + c div 64 mod 64"
    by (simp add: div_4096)
  moreover have "c = (c div 64) * 64 + c mod 64" by simp
  ultimately show ?thesis by simp
qed

lemma utf8_char_enc1:
  "c < 0x80 \<Longrightarrow> utf8_char (utf8_encode_char c @ rest) = Some (c, 1)"
  by (simp add: utf8_encode_char_def utf8_char_def)

lemma utf8_char_enc2:
  assumes "0x80 \<le> c" and "c < 0x800"
  shows "utf8_char (utf8_encode_char c @ rest) = Some (c, 2)"
proof -
  define a d where "a = c div 64" and "d = c mod 64"
  have dec: "c = a * 64 + d" and "d < 64" by (simp_all add: a_def d_def)
  have a: "2 \<le> a" "a < 32" using assms dec \<open>d < 64\<close> by linarith+
  have e: "utf8_encode_char c = [byte_of (0xC0 + a), byte_of (0x80 + d)]"
    using \<open>d < 64\<close> dec assms by (rule utf8_encode_char_2)
  show ?thesis
    using a \<open>d < 64\<close> by (simp add: e utf8_char_def in_range_def Let_def dec [symmetric])
qed

lemma utf8_char_enc3:
  assumes "0x800 \<le> c" and "c < 0x10000" and "\<not> (0xD800 \<le> c \<and> c < 0xE000)"
  shows "utf8_char (utf8_encode_char c @ rest) = Some (c, 3)"
proof -
  define a b d where "a = c div 4096" and "b = c div 64 mod 64" and "d = c mod 64"
  have dec: "c = (a * 64 + b) * 64 + d" unfolding a_def b_def d_def by (rule digits_3)
  have "b < 64" "d < 64" by (simp_all add: b_def d_def)
  have lin: "c = a * 4096 + b * 64 + d" using dec by simp
  have a: "a < 16" using assms(2) lin by linarith
  have lo: "a = 0 \<Longrightarrow> 32 \<le> b" using assms(1) lin \<open>d < 64\<close> by linarith
  have hi: "a = 13 \<Longrightarrow> b < 32" using assms(3) lin \<open>b < 64\<close> \<open>d < 64\<close> by linarith
  have e: "utf8_encode_char c = [byte_of (0xE0 + a), byte_of (0x80 + b), byte_of (0x80 + d)]"
    using \<open>b < 64\<close> \<open>d < 64\<close> dec assms(1,2) by (rule utf8_encode_char_3)
  have "utf8_char (utf8_encode_char c @ rest) = Some (a * 4096 + b * 64 + d, 3)"
    using a lo hi \<open>b < 64\<close> \<open>d < 64\<close>
    by (auto simp add: e utf8_char_def in_range_def Let_def)
  with lin show ?thesis by simp
qed

lemma utf8_char_enc4:
  assumes "0x10000 \<le> c" and "c < 0x110000"
  shows "utf8_char (utf8_encode_char c @ rest) = Some (c, 4)"
proof -
  define a b e d where "a = c div 262144" and "b = c div 4096 mod 64"
    and "e = c div 64 mod 64" and "d = c mod 64"
  have dec: "c = ((a * 64 + b) * 64 + e) * 64 + d"
    unfolding a_def b_def e_def d_def by (rule digits_4)
  have "b < 64" "e < 64" "d < 64" by (simp_all add: b_def e_def d_def)
  have lin: "c = a * 262144 + b * 4096 + e * 64 + d" using dec by simp
  have a: "a < 5" using assms(2) lin by linarith
  have lo: "a = 0 \<Longrightarrow> 16 \<le> b" using assms(1) lin \<open>e < 64\<close> \<open>d < 64\<close> by linarith
  have hi: "a = 4 \<Longrightarrow> b < 16" using assms(2) lin by linarith
  have enc: "utf8_encode_char c =
      [byte_of (0xF0 + a), byte_of (0x80 + b), byte_of (0x80 + e), byte_of (0x80 + d)]"
    using \<open>b < 64\<close> \<open>e < 64\<close> \<open>d < 64\<close> dec assms(1) by (rule utf8_encode_char_4)
  have "utf8_char (utf8_encode_char c @ rest) = Some (a * 262144 + b * 4096 + e * 64 + d, 4)"
    using a lo hi \<open>b < 64\<close> \<open>e < 64\<close> \<open>d < 64\<close>
    by (auto simp add: enc utf8_char_def in_range_def Let_def)
  with lin show ?thesis by simp
qed

lemma length_utf8_encode_char:
  "length (utf8_encode_char c) = (if c < 0x80 then 1 else if c < 0x800 then 2 else if c < 0x10000 then 3 else 4)"
  by (simp add: utf8_encode_char_def)

lemma utf8_char_encode:
  assumes "scalar_value c"
  shows "utf8_char (utf8_encode_char c @ rest) = Some (c, length (utf8_encode_char c))"
proof -
  consider "c < 0x80" | "0x80 \<le> c" "c < 0x800" | "0x800 \<le> c" "c < 0x10000"
    | "0x10000 \<le> c" by linarith
  then show ?thesis
  proof cases
    case 1
    then show ?thesis using utf8_char_enc1 [of c rest] by (simp add: length_utf8_encode_char)
  next
    case 2
    then show ?thesis using utf8_char_enc2 [of c rest] by (simp add: length_utf8_encode_char)
  next
    case 3
    with assms show ?thesis using utf8_char_enc3 [of c rest]
      by (simp add: length_utf8_encode_char scalar_value_def)
  next
    case 4
    with assms show ?thesis using utf8_char_enc4 [of c rest]
      by (simp add: length_utf8_encode_char scalar_value_def)
  qed
qed

lemma utf8_encode_char_nonempty: "utf8_encode_char c \<noteq> []"
  by (simp add: utf8_encode_char_def)

theorem utf8_decode_encode:
  "list_all scalar_value cs \<Longrightarrow> utf8_decode (utf8_encode cs) = Some cs"
proof (induction cs)
  case Nil
  then show ?case by (simp add: utf8_encode_def utf8_decode.simps)
next
  case (Cons c cs)
  have ch: "utf8_char (utf8_encode_char c @ utf8_encode cs) = Some (c, length (utf8_encode_char c))"
    using Cons.prems by (simp add: utf8_char_encode)
  have "utf8_encode (c # cs) = utf8_encode_char c @ utf8_encode cs"
    by (simp add: utf8_encode_def)
  with ch Cons show ?case
    by (simp add: utf8_decode.simps [of "utf8_encode_char c @ utf8_encode cs"] utf8_encode_char_nonempty)
qed

lemma utf8_char_dec2:
  assumes "194 \<le> unat b0" and "unat b0 < 224" and "in_range 128 191 b1"
  defines "c \<equiv> (unat b0 - 192) * 64 + (unat b1 - 128)"
  shows "scalar_value c \<and> utf8_encode_char c = [b0, b1]"
proof -
  define a d where "a = unat b0 - 192" and "d = unat b1 - 128"
  have "128 \<le> unat b1" "unat b1 \<le> 191" using assms(3) by (simp_all add: in_range_def)
  then have "d < 64" "2 \<le> a" "a < 32" using assms(1,2) unfolding a_def d_def by linarith+
  have dec: "c = a * 64 + d" by (simp add: c_def a_def d_def)
  then have r: "128 \<le> c" "c < 2048" using \<open>d < 64\<close> \<open>2 \<le> a\<close> \<open>a < 32\<close> by linarith+
  have "utf8_encode_char c = [byte_of (0xC0 + a), byte_of (0x80 + d)]"
    using \<open>d < 64\<close> dec r by (rule utf8_encode_char_2)
  moreover have "0xC0 + a = unat b0" "0x80 + d = unat b1"
    using assms(1,3) by (simp_all add: a_def d_def in_range_def)
  ultimately show ?thesis using r by (simp add: scalar_value_def)
qed

lemma utf8_char_dec3:
  assumes "224 \<le> unat b0" and "unat b0 < 240"
    and "in_range (if unat b0 = 224 then 160 else 128) (if unat b0 = 237 then 159 else 191) b1"
    and "in_range 128 191 b2"
  defines "c \<equiv> (unat b0 - 224) * 4096 + (unat b1 - 128) * 64 + (unat b2 - 128)"
  shows "scalar_value c \<and> utf8_encode_char c = [b0, b1, b2]"
proof -
  define a b d where "a = unat b0 - 224" and "b = unat b1 - 128" and "d = unat b2 - 128"
  have "128 \<le> unat b1" "unat b1 \<le> 191" "128 \<le> unat b2" "unat b2 \<le> 191"
    using assms(3,4) by (auto simp add: in_range_def split: if_splits)
  then have "b < 64" "d < 64" "a < 16" using assms(2) unfolding a_def b_def d_def by linarith+
  have lo: "a = 0 \<Longrightarrow> 32 \<le> b" and hi: "a = 13 \<Longrightarrow> b < 32"
    using assms(1,3) by (auto simp add: a_def b_def in_range_def split: if_splits)
  have lin: "c = a * 4096 + b * 64 + d" by (simp add: c_def a_def b_def d_def)
  then have r: "2048 \<le> c" "c < 65536" "\<not> (0xD800 \<le> c \<and> c < 0xE000)"
    using \<open>b < 64\<close> \<open>d < 64\<close> \<open>a < 16\<close> lo hi by (cases "a = 0"; cases "a = 13"; linarith)+
  have "utf8_encode_char c = [byte_of (0xE0 + a), byte_of (0x80 + b), byte_of (0x80 + d)]"
    using \<open>b < 64\<close> \<open>d < 64\<close> _ r(1,2) by (rule utf8_encode_char_3) (simp add: lin)
  moreover have "0xE0 + a = unat b0" "0x80 + b = unat b1" "0x80 + d = unat b2"
    using assms(1,3,4) by (auto simp add: a_def b_def d_def in_range_def split: if_splits)
  ultimately show ?thesis using r by (simp add: scalar_value_def)
qed

lemma utf8_char_dec4:
  assumes "240 \<le> unat b0" and "unat b0 < 245"
    and "in_range (if unat b0 = 240 then 144 else 128) (if unat b0 = 244 then 143 else 191) b1"
    and "in_range 128 191 b2" and "in_range 128 191 b3"
  defines "c \<equiv> (unat b0 - 240) * 262144 + (unat b1 - 128) * 4096 + (unat b2 - 128) * 64
               + (unat b3 - 128)"
  shows "scalar_value c \<and> utf8_encode_char c = [b0, b1, b2, b3]"
proof -
  define a b e d where "a = unat b0 - 240" and "b = unat b1 - 128"
    and "e = unat b2 - 128" and "d = unat b3 - 128"
  have "128 \<le> unat b1" "unat b1 \<le> 191" "128 \<le> unat b2" "unat b2 \<le> 191"
    "128 \<le> unat b3" "unat b3 \<le> 191"
    using assms(3,4,5) by (auto simp add: in_range_def split: if_splits)
  then have "b < 64" "e < 64" "d < 64" "a < 5"
    using assms(2) unfolding a_def b_def e_def d_def by linarith+
  have lo: "a = 0 \<Longrightarrow> 16 \<le> b" and hi: "a = 4 \<Longrightarrow> b < 16"
    using assms(1,3) by (auto simp add: a_def b_def in_range_def split: if_splits)
  have lin: "c = a * 262144 + b * 4096 + e * 64 + d" by (simp add: c_def a_def b_def e_def d_def)
  then have r: "65536 \<le> c" "c < 1114112"
    using \<open>b < 64\<close> \<open>e < 64\<close> \<open>d < 64\<close> \<open>a < 5\<close> lo hi by (cases "a = 0"; cases "a = 4"; linarith)+
  have "utf8_encode_char c =
      [byte_of (0xF0 + a), byte_of (0x80 + b), byte_of (0x80 + e), byte_of (0x80 + d)]"
    using \<open>b < 64\<close> \<open>e < 64\<close> \<open>d < 64\<close> _ r(1) by (rule utf8_encode_char_4) (simp add: lin)
  moreover have "0xF0 + a = unat b0" "0x80 + b = unat b1" "0x80 + e = unat b2" "0x80 + d = unat b3"
    using assms(1,3,4,5) by (auto simp add: a_def b_def e_def d_def in_range_def split: if_splits)
  ultimately show ?thesis using r by (simp add: scalar_value_def)
qed

lemma utf8_char_Some:
  assumes "utf8_char bs = Some (c, n)"
  shows "scalar_value c \<and> take n bs = utf8_encode_char c"
proof -
  obtain b0 r where bs: "bs = b0 # r"
    using assms by (cases bs) (simp_all add: utf8_char_def)
  consider (one) "unat b0 < 128" | (two) "194 \<le> unat b0" "unat b0 < 224"
    | (three) "224 \<le> unat b0" "unat b0 < 240" | (four) "240 \<le> unat b0" "unat b0 < 245"
    using assms bs by (fastforce simp add: utf8_char_def Let_def split: if_splits)
  then show ?thesis
  proof cases
    case one
    with assms bs have "c = unat b0" "n = 1" by (simp_all add: utf8_char_def)
    with one bs show ?thesis by (simp add: utf8_encode_char_def scalar_value_def)
  next
    case two
    with assms bs obtain b1 r' where "r = b1 # r'" "in_range 128 191 b1"
      "c = (unat b0 - 192) * 64 + (unat b1 - 128)" "n = 2"
      by (auto simp add: utf8_char_def Let_def split: list.splits if_splits)
    with two utf8_char_dec2 [of b0 b1] bs show ?thesis by simp
  next
    case three
    with assms bs obtain b1 b2 r' where "r = b1 # b2 # r'"
      "in_range (if unat b0 = 224 then 160 else 128) (if unat b0 = 237 then 159 else 191) b1"
      "in_range 128 191 b2"
      "c = (unat b0 - 224) * 4096 + (unat b1 - 128) * 64 + (unat b2 - 128)" "n = 3"
      by (auto simp add: utf8_char_def Let_def split: list.splits if_splits)
    with three utf8_char_dec3 [of b0 b1 b2] bs show ?thesis by simp
  next
    case four
    with assms bs obtain b1 b2 b3 r' where "r = b1 # b2 # b3 # r'"
      "in_range (if unat b0 = 240 then 144 else 128) (if unat b0 = 244 then 143 else 191) b1"
      "in_range 128 191 b2" "in_range 128 191 b3"
      "c = (unat b0 - 240) * 262144 + (unat b1 - 128) * 4096 + (unat b2 - 128) * 64
           + (unat b3 - 128)" "n = 4"
      by (auto simp add: utf8_char_def Let_def split: list.splits if_splits)
    with four utf8_char_dec4 [of b0 b1 b2 b3] bs show ?thesis by simp
  qed
qed

theorem utf8_encode_decode:
  "utf8_decode bs = Some cs \<Longrightarrow> list_all scalar_value cs \<and> utf8_encode cs = bs"
proof (induction bs arbitrary: cs rule: utf8_decode.induct)
  case (1 bs)
  show ?case
  proof (cases "bs = []")
    case True
    with "1.prems" show ?thesis by (simp add: utf8_decode.simps utf8_encode_def)
  next
    case False
    with "1.prems" obtain c n cs' where ch: "utf8_char bs = Some (c, n)"
      and rest: "utf8_decode (drop n bs) = Some cs'" and cs: "cs = c # cs'"
      by (auto simp add: utf8_decode.simps [of bs] split: option.splits)
    from "1.IH" [OF False ch refl rest] have "list_all scalar_value cs' \<and> utf8_encode cs' = drop n bs" .
    moreover from ch have "scalar_value c \<and> take n bs = utf8_encode_char c" by (rule utf8_char_Some)
    ultimately show ?thesis using cs by (simp add: utf8_encode_def) (metis append_take_drop_id)
  qed
qed

subsection \<open>Length-prefixed strings\<close>

lemma py_decode_utf8_encode:
  "list_all scalar_value s \<Longrightarrow> py_decode_utf8 (utf8_encode s) = Inr s"
  by (simp add: py_decode_utf8_def utf8_decode_encode)

lemma py_decode_utf8_Inr:
  "py_decode_utf8 raw = Inr s \<Longrightarrow> list_all scalar_value s \<and> utf8_encode s = raw"
  by (auto simp add: py_decode_utf8_def utf8_encode_decode split: option.splits)

lemma parse_string_length_field:
  "L < 65536 \<Longrightarrow> unpack_from [UInt 2] (pre @ le_bytes 2 L @ post) (length pre) = Inr [int L]"
  using unpack_from_pack [of "[UInt 2]" "[int L]" pre post]
  by (simp add: fits_def value_fields_def)

lemma length_encode_string [simp]: "length (encode_string s) = length (utf8_encode s) + 2"
  by (simp add: encode_string_def)

lemma parse_string_encode_string:
  assumes "list_all scalar_value s" and "length (utf8_encode s) < 65536"
  shows "parse_string (pre @ encode_string s @ post) (length pre) = Inr (length (encode_string s), s)"
proof -
  let ?raw = "utf8_encode s"
  have len: "unpack_from [UInt 2] (pre @ encode_string s @ post) (length pre) = Inr [int (length ?raw)]"
    using parse_string_length_field [OF assms(2), of pre "?raw @ post"]
    by (simp add: encode_string_def)
  have raw: "unpack_bytes (length ?raw) (pre @ encode_string s @ post) (length pre + 2) = Inr ?raw"
    using unpack_bytes_append [of ?raw "pre @ le_bytes 2 (length ?raw)" post]
    by (simp add: encode_string_def)
  show ?thesis
    using len raw py_decode_utf8_encode [OF assms(1)] by (simp add: parse_string_def)
qed

text \<open>C3. Encoding then decoding a length-prefixed string gives it back: for any text of
  Unicode scalar values whose UTF-8 form is shorter than 65536 bytes, \<open>parse_string\<close> at
  the start of its encoding, whatever surrounds it, returns the text and the number of
  bytes it occupies.\<close>

theorem parse_string_roundtrip:
  assumes "list_all scalar_value s" and "length (utf8_encode s) < 65536"
  shows "parse_string (pre @ encode_string s @ post) (length pre) = Inr (length (encode_string s), s)"
  using assms by (rule parse_string_encode_string)

text \<open>C4. Decoding then encoding gives the bytes back: whenever \<open>parse_string\<close>
  succeeds, the bytes it reports as consumed lie inside the buffer and are exactly the
  length-prefixed UTF-8 encoding of the text it returns, which is made of scalar values.\<close>

theorem parse_string_consumed:
  assumes "parse_string bs off = Inr (k, s)"
  shows "off + k \<le> length bs \<and> py_slice bs off (off + k) = encode_string s
         \<and> list_all scalar_value s"
proof -
  let ?lb = "take 2 (drop off bs)"
  have "unpack_from [UInt 2] bs off = Inr [int (le_uint ?lb)]" and "off + 2 \<le> length bs"
    using assms by (auto simp add: parse_string_def unpack_from_def calcsize_def
        split: if_splits list.splits)
  moreover
  define L where "L = le_uint ?lb"
  ultimately have raw: "unpack_bytes L bs (off + 2) = Inr (take L (drop (off + 2) bs))"
    and fin: "py_decode_utf8 (take L (drop (off + 2) bs)) = Inr s" and k: "k = L + 2"
    using assms by (auto simp add: parse_string_def unpack_bytes_def bindE_Inr_iff
        split: if_splits sum.splits)
  from raw have room: "off + 2 + L \<le> length bs"
    by (simp add: unpack_bytes_def split: if_splits)
  from fin have s: "list_all scalar_value s" "utf8_encode s = take L (drop (off + 2) bs)"
    by (simp_all add: py_decode_utf8_Inr)
  have "length ?lb = 2" using \<open>off + 2 \<le> length bs\<close> by simp
  then have lb: "le_bytes 2 L = ?lb" unfolding L_def by (metis le_bytes_le_uint)
  have "length (utf8_encode s) = L" using s(2) room by simp
  then have "encode_string s = ?lb @ take L (drop (off + 2) bs)"
    using lb s(2) by (simp add: encode_string_def)
  also have "\<dots> = take (2 + L) (drop off bs)"
    by (simp only: take_add drop_drop add.commute [of off])
  finally show ?thesis using k room s(1) by (simp add: py_slice_def add.commute [of L])
qed

theorem parse_string_errors:
  "parse_string bs off = Inl e \<Longrightarrow> e = StructError \<or> e = UnicodeDecodeError"
  by (auto simp add: parse_string_def unpack_from_def unpack_bytes_def py_decode_utf8_def
      bindE_def split: if_splits sum.splits option.splits list.splits)

theorem parse_string_roundtrip_witness:
  "parse_string ([7] @ encode_string [104, 0xE9, 0x20AC, 0x1F600] @ [9]) 1 =
     Inr (12, [104, 0xE9, 0x20AC, 0x1F600])"
  using parse_string_roundtrip [of "[104, 0xE9, 0x20AC, 0x1F600]" "[7]" "[9]"]
  by (simp add: scalar_value_def utf8_encode_def utf8_encode_char_def)

theorem parse_string_consumed_witness:
  "parse_string [2, 0, 104, 105] 0 = Inr (4, [104, 105]) \<and>
   py_slice [2, 0, 104, 105] 0 4 = encode_string [104, 105]"
proof -
  have run: "parse_string [2, 0, 104, 105] 0 = Inr (4, [104, 105])"
    by code_simp
  show ?thesis using parse_string_consumed [OF run] run by simp
qed

end
