(* ===== verification/Chunks_Basic.thy ===== *)
theory Chunks_Basic
  imports Strings
begin

unbundle bit_operations_syntax

text \<open>
  The first half of the chunk codecs of \<open>src/src/aseprite/chunks.py\<close>: the chunk
  preamble (class \<open>Chunk\<close>), the two legacy palettes, the layer and layer-group chunks,
  the cel chunk with its four payload kinds and the tile accessor \<open>unpack_tiles\<close>, the
  cel-extra chunk and the colour-profile chunk. Each class is a record of its attributes;
  a class that calls \<open>Chunk.__init__\<close> extends the record \<open>chunk_hdr\<close>, as it inherits
  the attributes \<open>chunk_size\<close> and \<open>chunk_type\<close>. Each constructor is a function from
  the buffer and the chunk's offset to the record or an exception. \<open>zlib.decompress\<close>
  is the parameter \<open>inflate\<close> (\<open>None\<close> is \<open>zlib.error\<close>): the codecs are proved
  for every decompressor. What a codec prints is returned as a list of \<open>diag\<close>s.
\<close>

type_synonym inflate = "byte list \<Rightarrow> byte list option"

datatype diag =
    ChunkVars int int     \<comment> \<open>\<open>print(vars(chunk))\<close> of a preamble: size and type\<close>
  | Skipped int           \<comment> \<open>\<open>"Skipped 0x...."\<close>: unknown chunk type\<close>
  | SkippedLayer int      \<comment> \<open>unsupported layer type\<close>
  | UnsupportedCel int    \<comment> \<open>unsupported cel type\<close>
  | PropertyMapSkipped    \<comment> \<open>user data with a property map\<close>

record chunk_hdr =
  chunk_size :: int
  chunk_type :: int

definition chunk_format :: "fmt_field list" where
  "chunk_format = [UInt 4, UInt 2]"

definition Chunk :: "buffer \<Rightarrow> nat \<Rightarrow> chunk_hdr result" where
  "Chunk bs data_offset =
     bindE (unpack_from chunk_format bs data_offset) (\<lambda>vs.
       case vs of
         [s, t] \<Rightarrow> Inr \<lparr>chunk_size = s, chunk_type = t\<rparr>
       | _ \<Rightarrow> Inl UnpackArityError)"

subsection \<open>Legacy palettes (0x0004, 0x0011)\<close>

record old_packet =
  previous_packet_skip :: int
  packet_colors :: "int list list"

record old_palette = chunk_hdr +
  num_packets :: int
  packets :: "old_packet list"

fun old_palette_colors :: "buffer \<Rightarrow> nat \<Rightarrow> nat \<Rightarrow> (int list list \<times> nat) result" where
  "old_palette_colors bs 0 packet_offset = Inr ([], packet_offset)"
| "old_palette_colors bs (Suc k) packet_offset =
     bindE (unpack_from [UInt 1, UInt 1, UInt 1] bs packet_offset) (\<lambda>vs.
       case vs of
         [red, blue, green] \<Rightarrow>
           bindE (old_palette_colors bs k (packet_offset + 3)) (\<lambda>(cs, off).
             Inr ([red, blue, green] # cs, off))
       | _ \<Rightarrow> Inl UnpackArityError)"

fun old_palette_packets :: "buffer \<Rightarrow> nat \<Rightarrow> nat \<Rightarrow> (old_packet list \<times> nat) result" where
  "old_palette_packets bs 0 packet_offset = Inr ([], packet_offset)"
| "old_palette_packets bs (Suc k) packet_offset =
     bindE (unpack_from [UInt 1, UInt 1] bs packet_offset) (\<lambda>vs.
       case vs of
         [skip, num_colors] \<Rightarrow>
           bindE (old_palette_colors bs (nat num_colors) (packet_offset + 2)) (\<lambda>(cs, off).
             bindE (old_palette_packets bs k off) (\<lambda>(ps, off').
               Inr (\<lparr>previous_packet_skip = skip, packet_colors = cs\<rparr> # ps, off')))
       | _ \<Rightarrow> Inl UnpackArityError)"

definition OldPaleteChunk_0x0004 :: "buffer \<Rightarrow> nat \<Rightarrow> old_palette result" where
  "OldPaleteChunk_0x0004 bs data_offset =
     bindE (Chunk bs data_offset) (\<lambda>h.
       bindE (unpack_from [UInt 2] bs (data_offset + 6)) (\<lambda>vs.
         case vs of
           [n] \<Rightarrow>
             bindE (old_palette_packets bs (nat n) (data_offset + 8)) (\<lambda>(ps, _).
               Inr \<lparr>chunk_size = chunk_size h, chunk_type = chunk_type h,
                    num_packets = n, packets = ps\<rparr>)
         | _ \<Rightarrow> Inl UnpackArityError))"

text \<open>
  The 0x0011 constructor stores in \<open>num_packets\<close> the whole 1-tuple that
  \<open>unpack_from\<close> returns (read at the chunk's own offset, not after the preamble) and
  loops over \<open>range(self.num_packets)\<close>. Each packet is a \<open>dict\<close>, and the tuple
  assignment to \<open>packet.previous_packet_skip\<close> sets an attribute on it, which raises
  \<open>AttributeError\<close> before \<open>num_colors\<close> is bound; the colour loop is never reached.
  Were \<open>range\<close> given an int, \<open>num_packets\<close> would be that int.
\<close>

fun old_palette_packets_0x0011 ::
  "buffer \<Rightarrow> nat \<Rightarrow> nat \<Rightarrow> (old_packet list \<times> nat) result" where
  "old_palette_packets_0x0011 bs 0 packet_offset = Inr ([], packet_offset)"
| "old_palette_packets_0x0011 bs (Suc k) packet_offset =
     bindE (unpack_from [UInt 1, UInt 1] bs packet_offset) (\<lambda>vs.
       case vs of
         [skip, ncolors] \<Rightarrow> Inl AttributeError
       | _ \<Rightarrow> Inl UnpackArityError)"

definition OldPaleteChunk_0x0011 :: "buffer \<Rightarrow> nat \<Rightarrow> old_palette result" where
  "OldPaleteChunk_0x0011 bs data_offset =
     bindE (Chunk bs data_offset) (\<lambda>h.
       bindE (unpack_from [UInt 2] bs data_offset) (\<lambda>vs.
         (let num_packets = py_tuple vs;
              packet_offset = data_offset + 6
          in bindE (py_range num_packets) (\<lambda>n.
               bindE (old_palette_packets_0x0011 bs (nat n) packet_offset) (\<lambda>(ps, _).
                 Inr \<lparr>chunk_size = chunk_size h, chunk_type = chunk_type h,
                      num_packets = n, packets = ps\<rparr>)))))"

subsection \<open>Layers\<close>

record layer_attrs =
  lflags :: int
  layer_type :: int
  layer_child_level :: int
  default_width :: int
  default_height :: int
  blend_mode :: int
  lopacity :: int
  lname :: pystr
  layer_index :: nat

record layer_chunk = chunk_hdr +
  attrs :: layer_attrs
  tileset_index :: "int option"

definition layer_format :: "fmt_field list" where
  "layer_format = [UInt 2, UInt 2, UInt 2, UInt 2, UInt 2, UInt 2, UInt 1, Pad 3]"

definition layer_tileset_index_format :: "fmt_field list" where
  "layer_tileset_index_format = [UInt 4]"

definition LayerChunk :: "buffer \<Rightarrow> nat \<Rightarrow> nat \<Rightarrow> layer_chunk result" where
  "LayerChunk bs layer_index_arg data_offset =
     bindE (Chunk bs data_offset) (\<lambda>h.
       bindE (unpack_from layer_format bs (data_offset + 6)) (\<lambda>vs.
         case vs of
           [fl, lt, lvl, dw, dh, bm, op] \<Rightarrow>
             bindE (parse_string bs (data_offset + 6 + calcsize layer_format))
               (\<lambda>(name_data_length, nm).
                 let a = \<lparr>lflags = fl, layer_type = lt, layer_child_level = lvl,
                          default_width = dw, default_height = dh, blend_mode = bm,
                          lopacity = op, lname = nm, layer_index = layer_index_arg\<rparr>
                 in if lt = 2 then
                      bindE (unpack_from layer_tileset_index_format bs
                               (data_offset + 6 + calcsize layer_format + name_data_length))
                        (\<lambda>ws. case ws of
                                [ti] \<Rightarrow> Inr \<lparr>chunk_size = chunk_size h,
                                           chunk_type = chunk_type h, attrs = a,
                                           tileset_index = Some ti\<rparr>
                              | _ \<Rightarrow> Inl UnpackArityError)
                    else Inr \<lparr>chunk_size = chunk_size h, chunk_type = chunk_type h,
                              attrs = a, tileset_index = None\<rparr>)
         | _ \<Rightarrow> Inl UnpackArityError))"

text \<open>
  \<open>LayerGroupChunk(base_layer)\<close> copies the nine layer attributes and nothing else
  (neither the preamble fields nor \<open>tileset_index\<close>); its \<open>children\<close> list starts
  empty and is filled by \<open>build_layer_tree\<close> (theory \<open>Layer_Tree\<close>).
\<close>

definition LayerGroupChunk :: "layer_chunk \<Rightarrow> layer_attrs" where
  "LayerGroupChunk base_layer =
     \<lparr>lflags = lflags (attrs base_layer), layer_type = layer_type (attrs base_layer),
      layer_child_level = layer_child_level (attrs base_layer),
      default_width = default_width (attrs base_layer),
      default_height = default_height (attrs base_layer),
      blend_mode = blend_mode (attrs base_layer), lopacity = lopacity (attrs base_layer),
      lname = lname (attrs base_layer), layer_index = layer_index (attrs base_layer)\<rparr>"

subsection \<open>Cels\<close>

text \<open>
  The payload dictionary \<open>self.data\<close> of a cel has one of four shapes: empty, pixels
  (\<open>width\<close>, \<open>height\<close>, \<open>data\<close>; sub-types 0 and 2), a link (the 1-tuple that
  \<open>unpack_from\<close> returns) or a tilemap (seven header fields and the inflated tile bytes).
\<close>

datatype cel_data =
    CelNoData
  | CelPixels int int "byte list"
  | CelLink "int list"
  | CelTilemap int int int int int int int "byte list"

record cel = chunk_hdr +
  cel_layer_index :: int
  x_pos :: int
  y_pos :: int
  cel_opacity :: int
  cel_type :: int
  cel_data :: cel_data

definition cel_format :: "fmt_field list" where
  "cel_format = [UInt 2, SInt 2, SInt 2, UInt 1, UInt 2, Pad 7]"

definition cel_type_format :: "fmt_field list" where
  "cel_type_format = [UInt 2, UInt 2]"

definition cel_tilemap_format :: "fmt_field list" where
  "cel_tilemap_format = [UInt 2, UInt 2, UInt 2, UInt 4, UInt 4, UInt 4, UInt 4, Pad 10]"

definition py_inflate :: "inflate \<Rightarrow> byte list \<Rightarrow> byte list result" where
  "py_inflate decompress raw = (case decompress raw of None \<Rightarrow> Inl ZlibError | Some d \<Rightarrow> Inr d)"

text \<open>
  Sub-type 0 reads width and height with \<open>cel_type_struct\<close> (4 bytes) but starts the
  pixel data \<open>cel_struct.size\<close> (16) bytes after them; sub-type 2 unpacks the 16-byte
  \<open>cel_struct\<close> (five values) into the two names \<open>width\<close>, \<open>height\<close>, which raises
  \<open>ValueError\<close>. Both are modelled as written.
\<close>

definition CelChunk :: "inflate \<Rightarrow> buffer \<Rightarrow> nat \<Rightarrow> (cel \<times> diag list) result" where
  "CelChunk decompress bs data_offset =
     bindE (Chunk bs data_offset) (\<lambda>h.
       bindE (unpack_from cel_format bs (data_offset + 6)) (\<lambda>vs.
         case vs of
           [li, x, y, op, ct] \<Rightarrow>
             (let cel_end_offset = data_offset + calcsize cel_format + 6;
                  end_range = data_offset + nat (chunk_size h);
                  mk = (\<lambda>d. \<lparr>chunk_size = chunk_size h, chunk_type = chunk_type h,
                             cel_layer_index = li, x_pos = x, y_pos = y, cel_opacity = op,
                             cel_type = ct, cel_data = d\<rparr>)
              in if ct = 0 then
                   bindE (unpack_from cel_type_format bs cel_end_offset) (\<lambda>ws.
                     case ws of
                       [w, hh] \<Rightarrow>
                         (let start_range = cel_end_offset + calcsize cel_format
                          in Inr (mk (CelPixels w hh (py_slice bs start_range end_range)), []))
                     | _ \<Rightarrow> Inl UnpackArityError)
                 else if ct = 1 then
                   bindE (unpack_from [UInt 2] bs cel_end_offset) (\<lambda>link.
                     Inr (mk (CelLink link), []))
                 else if ct = 2 then
                   bindE (unpack_from cel_format bs cel_end_offset) (\<lambda>ws.
                     case ws of
                       [w, hh] \<Rightarrow>
                         (let start_range = cel_end_offset + calcsize cel_format
                          in bindE (py_inflate decompress (py_slice bs start_range end_range)) (\<lambda>d.
                               Inr (mk (CelPixels w hh d), [])))
                     | _ \<Rightarrow> Inl UnpackArityError)
                 else if ct = 3 then
                   bindE (unpack_from cel_tilemap_format bs cel_end_offset) (\<lambda>ws.
                     case ws of
                       [w, hh, bpt, idm, fx, fy, fd] \<Rightarrow>
                         (let start_range = cel_end_offset + calcsize cel_tilemap_format
                          in bindE (py_inflate decompress (py_slice bs start_range end_range)) (\<lambda>d.
                               Inr (mk (CelTilemap w hh bpt idm fx fy fd d), [])))
                     | _ \<Rightarrow> Inl UnpackArityError)
                 else Inr (mk CelNoData, [UnsupportedCel ct]))
         | _ \<Rightarrow> Inl UnpackArityError))"

text \<open>
  \<open>unpack_tiles\<close> reads the tile ids of a tilemap payload as little-endian integers of
  \<open>bits_per_tile\<close> bits, with \<open>struct.unpack\<close>, which needs the byte count to be an
  exact multiple of the width. Its guard tests sub-type 2, and the dictionary lookup
  \<open>self.data['bits_per_tile']\<close> raises \<open>KeyError\<close> on a payload without that key.
  The result \<open>Inr None\<close> is Python's \<open>None\<close>.
\<close>

definition unpack_tile_ids :: "nat \<Rightarrow> byte list \<Rightarrow> int list result" where
  "unpack_tile_ids w d = unpack_exact (replicate (length d div w) (UInt w)) d"

definition unpack_tiles :: "cel \<Rightarrow> int list option result" where
  "unpack_tiles c =
     (if cel_type c \<noteq> 2 then Inr None
      else case cel_data c of
             CelTilemap w h bpt idm fx fy fd d \<Rightarrow>
               if bpt = 32 then bindE (unpack_tile_ids 4 d) (\<lambda>t. Inr (Some t))
               else if bpt = 16 then bindE (unpack_tile_ids 2 d) (\<lambda>t. Inr (Some t))
               else if bpt = 8 then bindE (unpack_tile_ids 1 d) (\<lambda>t. Inr (Some t))
               else Inr None
           | _ \<Rightarrow> Inl KeyError)"

subsection \<open>Cel extra and colour profile\<close>

record cel_extra = chunk_hdr +
  ce_flags :: int
  precise_x_pos :: int
  precise_y_pos :: int
  cel_width :: int
  cel_height :: int

definition celextra_format :: "fmt_field list" where
  "celextra_format = [UInt 4, UInt 4, UInt 4, UInt 4, UInt 4, Pad 16]"

definition CelExtraChunk :: "buffer \<Rightarrow> nat \<Rightarrow> cel_extra result" where
  "CelExtraChunk bs data_offset =
     bindE (Chunk bs data_offset) (\<lambda>h.
       bindE (unpack_from celextra_format bs (data_offset + 6)) (\<lambda>vs.
         case vs of
           [fl, px, py, cw, ch] \<Rightarrow>
             Inr \<lparr>chunk_size = chunk_size h, chunk_type = chunk_type h, ce_flags = fl,
                  precise_x_pos = px, precise_y_pos = py, cel_width = cw, cel_height = ch\<rparr>
         | _ \<Rightarrow> Inl UnpackArityError))"

record color_profile = chunk_hdr +
  use_color_profile :: int
  use_fixed_gamma :: int
  fixed_gamma :: int
  icc_profile_data :: "byte list"

definition color_profile_format :: "fmt_field list" where
  "color_profile_format = [UInt 2, UInt 2, UInt 2, Pad 8]"

definition icc_profile_format :: "fmt_field list" where
  "icc_profile_format = [UInt 4]"

text \<open>
  The ICC branch tests the class attribute \<open>color_profile_format\<close>, the string
  \<open>"<HHH8x"\<close>, against the int 2, which is never equal. Were it taken, the slice
  bound \<open>icc_data_offset + icc_data_length\<close> adds the 1-tuple \<open>icc_data_length\<close> to
  an int, which raises \<open>TypeError\<close>.
\<close>

definition ColorProfileChunk :: "buffer \<Rightarrow> nat \<Rightarrow> color_profile result" where
  "ColorProfileChunk bs data_offset =
     bindE (Chunk bs data_offset) (\<lambda>h.
       (let color_profile_offset = data_offset + 6;
            icc_profile_offset = color_profile_offset + calcsize color_profile_format;
            icc_data_offset = icc_profile_offset + calcsize icc_profile_format
        in bindE (unpack_from color_profile_format bs color_profile_offset) (\<lambda>vs.
             case vs of
               [u, g, fg] \<Rightarrow>
                 if py_eq (PyStr ''<HHH8x'') (PyInt 2) then
                   bindE (unpack_from icc_profile_format bs icc_profile_offset) (\<lambda>ws.
                     (let icc_data_length = py_tuple ws
                      in bindE (py_add (PyInt (int icc_data_offset)) icc_data_length) (\<lambda>stop.
                           case stop of
                             PyInt e \<Rightarrow>
                               Inr \<lparr>chunk_size = chunk_size h, chunk_type = chunk_type h,
                                    use_color_profile = u, use_fixed_gamma = g,
                                    fixed_gamma = fg,
                                    icc_profile_data = py_slice bs icc_data_offset (nat e)\<rparr>
                           | _ \<Rightarrow> Inl TypeError)))
                 else Inr \<lparr>chunk_size = chunk_size h, chunk_type = chunk_type h,
                           use_color_profile = u, use_fixed_gamma = g, fixed_gamma = fg,
                           icc_profile_data = []\<rparr>
             | _ \<Rightarrow> Inl UnpackArityError)))"


text \<open>A buffer whose 4-byte declared chunk size at \<open>off\<close> is rewritten to \<open>s\<close>, the
  rest unchanged: the test the data model's bound on reads is checked against.\<close>

definition with_chunk_size :: "buffer \<Rightarrow> nat \<Rightarrow> nat \<Rightarrow> buffer" where
  "with_chunk_size bs off s = take off bs @ le_bytes 4 s @ drop (off + 4) bs"


subsection \<open>Lemmas\<close>

lemma wf_layer_format: "list_all wf_field layer_format"
  by (simp add: layer_format_def)

lemma LayerChunk_unpacked:
  assumes "LayerChunk bs i off = Inr l"
  obtains fl lt lvl dw dh bm op
  where "unpack_from layer_format bs (off + 6) = Inr [fl, lt, lvl, dw, dh, bm, op]"
    and "layer_type (attrs l) = lt" "layer_child_level (attrs l) = lvl"
    and "layer_index (attrs l) = i"
proof -
  have "\<exists>vs. unpack_from layer_format bs (off + 6) = Inr vs"
  proof (cases "unpack_from layer_format bs (off + 6)")
    case (Inl e)
    with assms show ?thesis by (simp add: LayerChunk_def bindE_def split: sum.splits)
  qed simp
  then obtain vs where vs: "unpack_from layer_format bs (off + 6) = Inr vs" by blast
  then have "length vs = 7"
    using unpack_from_length [OF vs] by (simp add: layer_format_def)
  then obtain v0 v1 v2 v3 v4 v5 v6 where v: "vs = [v0, v1, v2, v3, v4, v5, v6]"
    by (auto simp add: numeral_eq_Suc length_Suc_conv)
  show ?thesis
    using assms vs that unfolding v
    by (auto simp add: LayerChunk_def bindE_Inr_iff Let_def
             split: if_split_asm sum.split_asm prod.split_asm)
qed

lemma LayerChunk_child_level:
  assumes "LayerChunk bs i off = Inr l"
  shows "0 \<le> layer_child_level (attrs l)"
proof -
  obtain fl lt lvl dw dh bm op
    where vs: "unpack_from layer_format bs (off + 6) = Inr [fl, lt, lvl, dw, dh, bm, op]"
    and lv: "layer_child_level (attrs l) = lvl"
    using LayerChunk_unpacked [OF assms] by metis
  have "fits layer_format [fl, lt, lvl, dw, dh, bm, op]"
    using unpack_from_bounds [OF wf_layer_format vs] .
  then show ?thesis using lv by (simp add: fits_def layer_format_def)
qed


lemma chunk_format_size [layout]: "calcsize chunk_format = 6"
  by (simp add: chunk_format_def calcsize_def)

lemma cel_format_size [layout]: "calcsize cel_format = 16"
  by (simp add: cel_format_def calcsize_def)

lemma cel_type_format_size [layout]: "calcsize cel_type_format = 4"
  by (simp add: cel_type_format_def calcsize_def)

lemma cel_tilemap_format_size [layout]: "calcsize cel_tilemap_format = 32"
  by (simp add: cel_tilemap_format_def calcsize_def)

lemma Chunk_Inr: "off + 6 \<le> length bs \<Longrightarrow> \<exists>h. Chunk bs off = Inr h"
  by (simp add: Chunk_def unpack_from_def chunk_format_def calcsize_def)

lemma cel_format_Inr:
  assumes "unpack_from cel_format bs (off + 6) = Inr vs"
  obtains h where "Chunk bs off = Inr h"
  using unpack_from_Inr_length [OF assms] Chunk_Inr by (fastforce simp add: cel_format_size)

lemma CelChunk_unpacked:
  assumes "CelChunk z bs off = Inr (c, m)"
  obtains h li x y op
  where "Chunk bs off = Inr h" "unpack_from cel_format bs (off + 6) = Inr [li, x, y, op, cel_type c]"
    and "chunk_size c = chunk_size h"
proof -
  have "\<exists>vs. unpack_from cel_format bs (off + 6) = Inr vs"
  proof (cases "unpack_from cel_format bs (off + 6)")
    case (Inl e)
    with assms show ?thesis by (simp add: CelChunk_def bindE_def split: sum.splits)
  qed simp
  then obtain vs where vs: "unpack_from cel_format bs (off + 6) = Inr vs" by blast
  then have "length vs = 5"
    using unpack_from_length [OF vs] by (simp add: cel_format_def)
  then obtain v0 v1 v2 v3 v4 where v: "vs = [v0, v1, v2, v3, v4]"
    by (auto simp add: numeral_eq_Suc length_Suc_conv)
  obtain h where h: "Chunk bs off = Inr h" using cel_format_Inr [OF vs] .
  show ?thesis
    using assms vs h that unfolding v
    by (auto simp add: CelChunk_def Let_def bindE_Inr_iff unpack_from_def cel_type_format_def
             cel_format_def cel_tilemap_format_def split: if_split_asm)
qed

lemma CelChunk_type_not_2:
  assumes "CelChunk z bs off = Inr (c, m)"
  shows "cel_type c \<noteq> 2"
proof
  assume t: "cel_type c = 2"
  obtain h li x y op where h: "Chunk bs off = Inr h"
    and vs: "unpack_from cel_format bs (off + 6) = Inr [li, x, y, op, cel_type c]"
    using CelChunk_unpacked [OF assms] by metis
  show False
    using assms h vs t
    by (auto simp add: CelChunk_def Let_def bindE_Inr_iff unpack_from_def cel_format_def
             split: if_split_asm)
qed


text \<open>C10. A cel of sub-type 2 (compressed image) never decodes: \<open>CelChunk\<close> unpacks the
  16-byte \<open>cel_format\<close> into the two names \<open>width\<close>, \<open>height\<close>, which fails with
  \<open>struct.error\<close> when fewer than 16 bytes follow the cel header and with
  \<open>ValueError\<close> otherwise.\<close>

theorem CelChunk_compressed_error:
  assumes "unpack_from cel_format bs (off + 6) = Inr [li, x, y, op, 2]"
  shows "CelChunk z bs off = Inl (if length bs < off + 38 then StructError else UnpackArityError)"
proof -
  obtain h where h: "Chunk bs off = Inr h" using cel_format_Inr [OF assms] .
  show ?thesis
    using h assms by (simp add: CelChunk_def unpack_from_def cel_format_def calcsize_def)
qed

theorem CelChunk_compressed_error_witness:
  "CelChunk (\<lambda>_. None) (replicate 13 0 @ [2, 0] @ replicate 23 0) 0 = Inl UnpackArityError"
  using CelChunk_compressed_error [of "replicate 13 0 @ [2, 0] @ replicate 23 0" 0 0 0 0 0
      "\<lambda>_. None"]
  by (simp add: unpack_from_def cel_format_def calcsize_def to_signed_def)


text \<open>C11. The pixels of a raw cel (sub-type 0) are taken from 38 bytes after the chunk start,
  16 bytes after the width/height pair ends (\<open>cel_end_offset + cel_struct.size\<close>), up to
  the end of the chunk; the file format puts them right after that pair, at byte 26, so the
  first 12 pixel bytes are lost.\<close>

theorem CelChunk_raw_data:
  assumes "CelChunk z bs off = Inr (c, m)" "cel_type c = 0"
  shows "\<exists>w hh. cel_data c = CelPixels w hh (py_slice bs (off + 38) (off + nat (chunk_size c)))"
proof -
  obtain h li x y op where h: "Chunk bs off = Inr h"
    and vs: "unpack_from cel_format bs (off + 6) = Inr [li, x, y, op, cel_type c]"
    and sz: "chunk_size c = chunk_size h"
    using CelChunk_unpacked [OF assms(1)] by metis
  show ?thesis
    using assms h vs sz
    by (auto simp add: CelChunk_def Let_def bindE_Inr_iff unpack_from_def cel_format_def
             cel_type_format_def calcsize_def add.commute split: if_split_asm)
qed

theorem CelChunk_raw_data_witness:
  "\<exists>c. CelChunk (\<lambda>_. None)
      [44, 0, 0, 0, 5, 32, 0, 0, 0, 0, 0, 0, 0, 0, 0, 0, 0, 0, 0, 0, 0, 0, 2, 0, 1, 0,
      1, 2, 3, 4, 5, 6, 7, 8, 9, 10, 11, 12, 13, 14, 15, 16, 17, 18] 0 = Inr (c, [])
     \<and> cel_type c = 0 \<and> cel_data c = CelPixels 2 1 [13, 14, 15, 16, 17, 18]"
proof -
  define c where "c = \<lparr>chunk_size = 44, chunk_type = 0x2005, cel_layer_index = 0, x_pos = 0,
    y_pos = 0, cel_opacity = 0, cel_type = 0,
    cel_data = CelPixels 2 1 [13, 14, 15, 16, 17, 18]\<rparr>"
  have run: "CelChunk (\<lambda>_. None)
      [44, 0, 0, 0, 5, 32, 0, 0, 0, 0, 0, 0, 0, 0, 0, 0, 0, 0, 0, 0, 0, 0, 2, 0, 1, 0,
      1, 2, 3, 4, 5, 6, 7, 8, 9, 10, 11, 12, 13, 14, 15, 16, 17, 18] 0 = Inr (c, [])"
    by (simp add: c_def CelChunk_def Chunk_def unpack_from_def chunk_format_def cel_format_def
        cel_type_format_def calcsize_def to_signed_def py_slice_def)
  obtain w hh where "cel_data c = CelPixels w hh [13, 14, 15, 16, 17, 18]"
    using CelChunk_raw_data [OF run] by (auto simp add: c_def py_slice_def)
  then show ?thesis using run by (auto simp add: c_def)
qed


text \<open>C12. \<open>unpack_tiles\<close> returns \<open>None\<close> on every cel the codec produces: its guard
  admits only sub-type 2, which never decodes (C10), while tilemap cels have sub-type 3.\<close>

theorem unpack_tiles_decoded_cel:
  "CelChunk z bs off = Inr (c, m) \<Longrightarrow> unpack_tiles c = Inr None"
  using CelChunk_type_not_2 by (simp add: unpack_tiles_def)

theorem unpack_tiles_decoded_cel_witness:
  "\<exists>c. CelChunk (\<lambda>_. Some [5, 0, 0, 0, 7, 0, 0, 0])
      [56, 0, 0, 0, 5, 32, 0, 0, 0, 0, 0, 0, 0, 3, 0, 0, 0, 0, 0, 0, 0, 0,
      2, 0, 1, 0, 32, 0, 255, 255, 255, 31, 0, 0, 0, 0, 0, 0, 0, 0, 0, 0, 0, 0,
      0, 0, 0, 0, 0, 0, 0, 0, 0, 0, 120, 156] 0 = Inr (c, [])
     \<and> cel_data c = CelTilemap 2 1 32 0x1FFFFFFF 0 0 0 [5, 0, 0, 0, 7, 0, 0, 0]
     \<and> unpack_tiles c = Inr None
     \<and> unpack_tile_ids 4 [5, 0, 0, 0, 7, 0, 0, 0] = Inr [5, 7]"
proof -
  define c where "c = \<lparr>chunk_size = 56, chunk_type = 0x2005, cel_layer_index = 0, x_pos = 0,
    y_pos = 0, cel_opacity = 0, cel_type = 3,
    cel_data = CelTilemap 2 1 32 0x1FFFFFFF 0 0 0 [5, 0, 0, 0, 7, 0, 0, 0]\<rparr>"
  have run: "CelChunk (\<lambda>_. Some [5, 0, 0, 0, 7, 0, 0, 0])
      [56, 0, 0, 0, 5, 32, 0, 0, 0, 0, 0, 0, 0, 3, 0, 0, 0, 0, 0, 0, 0, 0,
      2, 0, 1, 0, 32, 0, 255, 255, 255, 31, 0, 0, 0, 0, 0, 0, 0, 0, 0, 0, 0, 0,
      0, 0, 0, 0, 0, 0, 0, 0, 0, 0, 120, 156] 0 = Inr (c, [])"
    by (simp add: c_def CelChunk_def Chunk_def unpack_from_def chunk_format_def cel_format_def
        cel_tilemap_format_def calcsize_def to_signed_def py_slice_def py_inflate_def)
  have ids: "unpack_tile_ids 4 [5, 0, 0, 0, 7, 0, 0, 0] = Inr [5, 7]"
    by code_simp
  show ?thesis
    using unpack_tiles_decoded_cel [OF run] run ids by (auto simp add: c_def)
qed


subsection \<open>Reads and the declared size\<close>

lemma length_with_chunk_size [simp]:
  "off + 4 \<le> length bs \<Longrightarrow> length (with_chunk_size bs off s) = length bs"
  by (simp add: with_chunk_size_def)

lemma drop_with_chunk_size:
  "off + 4 \<le> length bs \<Longrightarrow> off + 4 \<le> p \<Longrightarrow> drop p (with_chunk_size bs off s) = drop p bs"
proof -
  assume a: "off + 4 \<le> length bs" "off + 4 \<le> p"
  have "drop p (with_chunk_size bs off s) = drop (p - (off + 4)) (drop (off + 4) bs)"
    using a by (simp add: with_chunk_size_def min_def)
  then show ?thesis using a by simp
qed

lemma unpack_from_with_chunk_size [simp]:
  "off + 4 \<le> length bs \<Longrightarrow> off + 4 \<le> p \<Longrightarrow>
     unpack_from fs (with_chunk_size bs off s) p = unpack_from fs bs p"
  by (simp add: unpack_from_def drop_with_chunk_size)

lemma unpack_bytes_with_chunk_size [simp]:
  "off + 4 \<le> length bs \<Longrightarrow> off + 4 \<le> p \<Longrightarrow>
     unpack_bytes n (with_chunk_size bs off s) p = unpack_bytes n bs p"
  by (simp add: unpack_bytes_def drop_with_chunk_size)

lemma parse_string_with_chunk_size [simp]:
  "off + 4 \<le> length bs \<Longrightarrow> off + 4 \<le> p \<Longrightarrow>
     parse_string (with_chunk_size bs off s) p = parse_string bs p"
  by (simp add: parse_string_def cong: list.case_cong)

lemma Chunk_with_chunk_size:
  assumes "Chunk bs off = Inr h" "off + 4 \<le> length bs" "s < 2 ^ 32"
  shows "Chunk (with_chunk_size bs off s) off = Inr (h\<lparr>chunk_size := int s\<rparr>)"
proof -
  have d: "drop off (with_chunk_size bs off s) = le_bytes 4 s @ drop (off + 4) bs"
    using assms(2) by (simp add: with_chunk_size_def)
  have "le_uint (le_bytes 4 s) = s"
    using assms(3) by (simp add: le_uint_le_bytes)
  then show ?thesis
    using assms(1,2) d by (auto simp add: Chunk_def unpack_from_def chunk_format_def calcsize_def
        bindE_Inr_iff add.commute [of 4 off] split: if_splits)
qed

lemma LayerChunk_length:
  assumes "LayerChunk bs li off = Inr l"
  shows "off + 6 + calcsize layer_format + 2 \<le> length bs"
proof -
  obtain fl lt lvl dw dh bm op
    where "unpack_from layer_format bs (off + 6) = Inr [fl, lt, lvl, dw, dh, bm, op]"
    using assms by (rule LayerChunk_unpacked)
  then obtain r where "parse_string bs (off + 6 + calcsize layer_format) = Inr r"
    using assms by (cases "parse_string bs (off + 6 + calcsize layer_format)")
      (auto simp add: LayerChunk_def bindE_def split: sum.splits)
  then show ?thesis
    by (auto simp add: parse_string_def bindE_Inr_iff unpack_from_def calcsize_def
        split: if_splits)
qed

lemma LayerChunk_with_chunk_size:
  assumes "Chunk bs off = Inr h" "off + 4 \<le> length bs" "s < 2 ^ 32"
  shows "LayerChunk (with_chunk_size bs off s) li off =
     map_sum id (\<lambda>l. l\<lparr>chunk_size := int s\<rparr>) (LayerChunk bs li off)"
  using Chunk_with_chunk_size [OF assms] assms(1,2)
  by (simp add: LayerChunk_def Let_def bindE_def split: sum.split list.split prod.split)

text \<open>C13. The legacy palette chunk 0x0011 never decodes: past a short buffer
  (\<open>struct.error\<close>) it always raises \<open>TypeError\<close>, because \<open>num_packets\<close> holds the
  1-tuple \<open>unpack_from\<close> returns and \<open>range\<close> is applied to it.\<close>

theorem OldPaleteChunk_0x0011_error:
  "OldPaleteChunk_0x0011 bs off = Inl (if length bs < off + 6 then StructError else TypeError)"
  by (simp add: OldPaleteChunk_0x0011_def Chunk_def unpack_from_def chunk_format_def calcsize_def)

text \<open>C14. The colour-profile codec never reads an embedded ICC profile: every chunk whose
  preamble and three profile fields lie in the buffer decodes, whatever its profile type
  (an ICC profile, type 2, included), with empty \<open>icc_profile_data\<close>, because the ICC
  branch compares the format string \<open>color_profile_format\<close> with the int 2.\<close>

theorem ColorProfileChunk_no_icc:
  "off + 6 + calcsize color_profile_format \<le> length bs \<Longrightarrow>
     \<exists>c. ColorProfileChunk bs off = Inr c \<and> icc_profile_data c = []"
  by (simp add: ColorProfileChunk_def Let_def Chunk_def chunk_format_def unpack_from_def
      color_profile_format_def calcsize_def)

theorem ColorProfileChunk_no_icc_witness:
  "\<exists>c. ColorProfileChunk
      [30, 0, 0, 0, 7, 32, 2, 0, 0, 0, 0, 0, 0, 0, 0, 0, 0, 0, 0, 0,
      6, 0, 0, 0, 1, 2, 3, 4, 5, 6] 0 = Inr c
     \<and> use_color_profile c = 2 \<and> icc_profile_data c = []"
proof -
  define c where "c = \<lparr>chunk_size = 30, chunk_type = 0x2007, use_color_profile = 2,
    use_fixed_gamma = 0, fixed_gamma = 0, icc_profile_data = []\<rparr>"
  have run: "ColorProfileChunk
      [30, 0, 0, 0, 7, 32, 2, 0, 0, 0, 0, 0, 0, 0, 0, 0, 0, 0, 0, 0,
      6, 0, 0, 0, 1, 2, 3, 4, 5, 6] 0 = Inr c"
    by (simp add: c_def ColorProfileChunk_def Chunk_def unpack_from_def chunk_format_def
        color_profile_format_def calcsize_def)
  have "\<exists>c. ColorProfileChunk
      [30, 0, 0, 0, 7, 32, 2, 0, 0, 0, 0, 0, 0, 0, 0, 0, 0, 0, 0, 0,
      6, 0, 0, 0, 1, 2, 3, 4, 5, 6] 0 = Inr c \<and> icc_profile_data c = []"
    using ColorProfileChunk_no_icc [of 0 "[30, 0, 0, 0, 7, 32, 2, 0, 0, 0, 0, 0, 0, 0, 0, 0, 0, 0, 0, 0,
      6, 0, 0, 0, 1, 2, 3, 4, 5, 6]"]
    by (simp add: color_profile_format_def calcsize_def)
  then show ?thesis
    using run by (auto simp add: c_def)
qed

text \<open>C31. The layer codec does not keep its reads inside the chunk's declared size, which
  the data model requires: whenever a layer decodes, it was read from at least 24 bytes
  (preamble, fixed fields and the name's length prefix), and rewriting the declared size
  to any value, 6 (the preamble alone) included, decodes the same layer with only
  \<open>chunk_size\<close> changed. The size field is stored, never consulted.\<close>

theorem LayerChunk_reads_past_chunk:
  assumes "LayerChunk bs li off = Inr l" and "s < 2 ^ 32"
  shows "off + 6 + calcsize layer_format + 2 \<le> length bs
    \<and> LayerChunk (with_chunk_size bs off s) li off = Inr (l\<lparr>chunk_size := int s\<rparr>)"
proof -
  have len: "off + 6 + calcsize layer_format + 2 \<le> length bs"
    using assms(1) by (rule LayerChunk_length)
  then have "off + 4 \<le> length bs" by simp
  from assms(1) obtain h where "Chunk bs off = Inr h"
    by (cases "Chunk bs off") (simp_all add: LayerChunk_def)
  from LayerChunk_with_chunk_size [OF this \<open>off + 4 \<le> length bs\<close> assms(2)] assms(1) len
  show ?thesis by simp
qed

theorem LayerChunk_reads_past_chunk_witness:
  "\<exists>l. LayerChunk [24, 0, 0, 0, 4, 0x20, 0, 0, 0, 0, 0, 0, 0, 0, 0, 0, 0, 0, 255, 0, 0, 0, 0, 0] 0 0 = Inr l \<and> chunk_size l = 24 \<and> (6::nat) < 2 ^ 32
     \<and> 0 + 6 + calcsize layer_format + 2 \<le> length [24, 0, 0, 0, 4, 0x20, 0, 0, 0, 0, 0, 0, 0, 0, 0, 0, 0, 0, 255, 0, 0, 0, 0, 0]
     \<and> LayerChunk (with_chunk_size [24, 0, 0, 0, 4, 0x20, 0, 0, 0, 0, 0, 0, 0, 0, 0, 0, 0, 0, 255, 0, 0, 0, 0, 0] 0 6) 0 0 = Inr (l\<lparr>chunk_size := 6\<rparr>)"
proof -
  obtain l where run: "LayerChunk [24, 0, 0, 0, 4, 0x20, 0, 0, 0, 0, 0, 0, 0, 0, 0, 0, 0, 0, 255, 0, 0, 0, 0, 0] 0 0 = Inr l" and sz: "chunk_size l = 24"
    by (simp add: LayerChunk_def Chunk_def unpack_from_def chunk_format_def layer_format_def
        calcsize_def parse_string_def unpack_bytes_def py_decode_utf8_def utf8_decode.simps)
  show ?thesis
    using LayerChunk_reads_past_chunk [OF run, of 6] run sz by auto
qed

end
