(* ===== verification/Chunks_Meta.thy ===== *)
theory Chunks_Meta
  imports Chunks_Basic
begin

unbundle bit_operations_syntax

text \<open>
  The second half of the codecs of \<open>src/src/aseprite/chunks.py\<close>: mask, path, frame
  tags, palette, user data, slice and tileset; then the closed variant type \<open>chunk\<close> of
  everything a frame's chunk list can hold, and the type-id table that \<open>parse_data\<close>
  searches (\<open>supported_chunks\<close>, each class's \<open>chunk_id\<close>). The counted loops of
  the codecs (\<open>for i in range(n)\<close>) are recursive functions on the count that return
  the items read and the advanced cursor.
\<close>

subsection \<open>Mask (0x2016) and path (0x2017)\<close>

record mask_chunk = chunk_hdr +
  mask_x_pos :: int
  mask_y_pos :: int
  mask_width :: int
  mask_height :: int
  mask_name :: pystr
  bitmap :: "byte list"

definition mask_format :: "fmt_field list" where
  "mask_format = [SInt 2, SInt 2, UInt 2, UInt 2, Pad 8]"

text \<open>
  \<open>math.ceil(self.height*((self.width+7)/8))\<close> is computed exactly by the float
  arithmetic for 16-bit operands, so it is the natural-number ceiling. The bitmap is
  \<open>data[start_range:start_range:end_range]\<close>: a slice from \<open>start_range\<close> to itself
  with step \<open>end_range\<close>.
\<close>

definition MaskChunk :: "buffer \<Rightarrow> nat \<Rightarrow> mask_chunk result" where
  "MaskChunk bs data_offset =
     bindE (Chunk bs data_offset) (\<lambda>h.
       bindE (unpack_from mask_format bs (data_offset + 6)) (\<lambda>vs.
         case vs of
           [x, y, w, hh] \<Rightarrow>
             (let name_offset = data_offset + 6 + calcsize mask_format
              in bindE (parse_string bs name_offset) (\<lambda>(string_size, nm).
                   (let start_range = name_offset + string_size;
                        end_range = start_range + (nat hh * (nat w + 7) + 7) div 8
                    in Inr \<lparr>chunk_size = chunk_size h, chunk_type = chunk_type h,
                            mask_x_pos = x, mask_y_pos = y, mask_width = w, mask_height = hh,
                            mask_name = nm,
                            bitmap = py_slice_step bs start_range start_range end_range\<rparr>)))
         | _ \<Rightarrow> Inl UnpackArityError))"

definition PathChunk :: "buffer \<Rightarrow> nat \<Rightarrow> chunk_hdr result" where
  "PathChunk bs data_offset = Chunk bs data_offset"

subsection \<open>Frame tags (0x2018)\<close>

record frame_tag =
  tag_from :: int
  tag_to :: int
  tag_loop :: int
  tag_red :: int
  tag_green :: int
  tag_blue :: int
  tag_name :: pystr

record frame_tags = chunk_hdr +
  tags :: "frame_tag list"

definition frametag_head_format :: "fmt_field list" where
  "frametag_head_format = [UInt 2, Pad 8]"

definition frametag_format :: "fmt_field list" where
  "frametag_format = [UInt 2, UInt 2, UInt 1, Pad 8, UInt 1, UInt 1, UInt 1, Pad 1]"

fun frame_tag_loop :: "buffer \<Rightarrow> nat \<Rightarrow> nat \<Rightarrow> (frame_tag list \<times> nat) result" where
  "frame_tag_loop bs 0 tag_offset = Inr ([], tag_offset)"
| "frame_tag_loop bs (Suc k) tag_offset =
     bindE (unpack_from frametag_format bs tag_offset) (\<lambda>vs.
       case vs of
         [f, t, l, r, g, b] \<Rightarrow>
           bindE (parse_string bs (tag_offset + calcsize frametag_format)) (\<lambda>(string_size, nm).
             bindE (frame_tag_loop bs k (tag_offset + calcsize frametag_format + string_size))
               (\<lambda>(ts, off).
                 Inr (\<lparr>tag_from = f, tag_to = t, tag_loop = l, tag_red = r, tag_green = g,
                        tag_blue = b, tag_name = nm\<rparr> # ts, off)))
       | _ \<Rightarrow> Inl UnpackArityError)"

definition FrameTagsChunk :: "buffer \<Rightarrow> nat \<Rightarrow> frame_tags result" where
  "FrameTagsChunk bs data_offset =
     bindE (Chunk bs data_offset) (\<lambda>h.
       bindE (unpack_from frametag_head_format bs (data_offset + 6)) (\<lambda>vs.
         case vs of
           [num_tags] \<Rightarrow>
             bindE (frame_tag_loop bs (nat num_tags)
                      (data_offset + calcsize frametag_head_format + 6)) (\<lambda>(ts, _).
               Inr \<lparr>chunk_size = chunk_size h, chunk_type = chunk_type h, tags = ts\<rparr>)
         | _ \<Rightarrow> Inl UnpackArityError))"

subsection \<open>Palette (0x2019)\<close>

record palette_color =
  col_flags :: int
  col_red :: int
  col_green :: int
  col_blue :: int
  col_alpha :: int
  col_name :: "pystr option"

record palette = chunk_hdr +
  palette_size :: int
  first_color_index :: int
  last_color_index :: int
  colors :: "palette_color list"

definition palette_format :: "fmt_field list" where
  "palette_format = [UInt 4, UInt 4, UInt 4, Pad 8]"

definition color_format :: "fmt_field list" where
  "color_format = [UInt 2, UInt 1, UInt 1, UInt 1, UInt 1]"

fun palette_color_loop :: "buffer \<Rightarrow> nat \<Rightarrow> nat \<Rightarrow> (palette_color list \<times> nat) result" where
  "palette_color_loop bs 0 color_offset = Inr ([], color_offset)"
| "palette_color_loop bs (Suc k) color_offset =
     bindE (unpack_from color_format bs color_offset) (\<lambda>vs.
       case vs of
         [fl, r, g, b, a] \<Rightarrow>
           (let off1 = color_offset + calcsize color_format;
                c = \<lparr>col_flags = fl, col_red = r, col_green = g, col_blue = b, col_alpha = a,
                     col_name = None\<rparr>
            in bindE (if fl AND 1 \<noteq> 0
                      then bindE (parse_string bs off1) (\<lambda>(string_size, nm).
                             Inr (c\<lparr>col_name := Some nm\<rparr>, off1 + string_size))
                      else Inr (c, off1))
                 (\<lambda>(c', off2).
                   bindE (palette_color_loop bs k off2) (\<lambda>(cs, off3). Inr (c' # cs, off3))))
       | _ \<Rightarrow> Inl UnpackArityError)"

definition PaletteChunk :: "buffer \<Rightarrow> nat \<Rightarrow> palette result" where
  "PaletteChunk bs data_offset =
     bindE (Chunk bs data_offset) (\<lambda>h.
       bindE (unpack_from palette_format bs (data_offset + 6)) (\<lambda>vs.
         case vs of
           [ps, fi, li] \<Rightarrow>
             bindE (palette_color_loop bs (nat (li + 1 - fi))
                      (data_offset + 6 + calcsize palette_format)) (\<lambda>(cs, _).
               Inr \<lparr>chunk_size = chunk_size h, chunk_type = chunk_type h, palette_size = ps,
                    first_color_index = fi, last_color_index = li, colors = cs\<rparr>)
         | _ \<Rightarrow> Inl UnpackArityError))"

subsection \<open>User data (0x2020)\<close>

text \<open>The attributes \<open>string\<close> and \<open>red\<close>, \<open>green\<close>, \<open>blue\<close>, \<open>alpha\<close> exist only when
  their flag bit is set; here they are options.\<close>

record user_data = chunk_hdr +
  ud_flags :: int
  ud_string :: "pystr option"
  ud_rgba :: "(int \<times> int \<times> int \<times> int) option"

definition UserDataChunk :: "buffer \<Rightarrow> nat \<Rightarrow> (user_data \<times> diag list) result" where
  "UserDataChunk bs data_offset =
     bindE (Chunk bs data_offset) (\<lambda>h.
       bindE (unpack_from [UInt 4] bs (data_offset + 6)) (\<lambda>vs.
         case vs of
           [fl] \<Rightarrow>
             (let userdata_offset = data_offset + 6 + 4
              in bindE (if fl AND 1 \<noteq> 0
                        then bindE (parse_string bs userdata_offset) (\<lambda>(string_size, s).
                               Inr (Some s, userdata_offset + string_size))
                        else Inr (None, userdata_offset))
                   (\<lambda>(str, off1).
                     bindE (if fl AND 2 \<noteq> 0
                            then bindE (unpack_from [UInt 1, UInt 1, UInt 1, UInt 1] bs off1)
                                   (\<lambda>ws. case ws of
                                           [r, g, b, a] \<Rightarrow> Inr (Some (r, g, b, a))
                                         | _ \<Rightarrow> Inl UnpackArityError)
                            else Inr None)
                       (\<lambda>rgba.
                         Inr (\<lparr>chunk_size = chunk_size h, chunk_type = chunk_type h,
                                ud_flags = fl, ud_string = str, ud_rgba = rgba\<rparr>,
                              if fl AND 4 \<noteq> 0 then [PropertyMapSkipped] else []))))
         | _ \<Rightarrow> Inl UnpackArityError))"

subsection \<open>Slice (0x2022)\<close>

record slice_key =
  start_frame :: int
  sk_x :: int
  sk_y :: int
  sk_width :: int
  sk_height :: int
  center :: "(int \<times> int \<times> int \<times> int) option"
  pivot :: "(int \<times> int) option"

record slice_chunk = chunk_hdr +
  slice_flags :: int
  reserved :: int
  slice_name :: pystr
  slices :: "slice_key list"

definition slice_chunk_format :: "fmt_field list" where
  "slice_chunk_format = [UInt 4, UInt 4, UInt 4]"

definition slice_format :: "fmt_field list" where
  "slice_format = [UInt 4, SInt 4, SInt 4, UInt 4, UInt 4]"

definition slice_center_format :: "fmt_field list" where
  "slice_center_format = [SInt 4, SInt 4, UInt 4, UInt 4]"

definition slice_pivot_format :: "fmt_field list" where
  "slice_pivot_format = [SInt 4, SInt 4]"

fun slice_loop :: "buffer \<Rightarrow> int \<Rightarrow> nat \<Rightarrow> nat \<Rightarrow> (slice_key list \<times> nat) result" where
  "slice_loop bs fl 0 slice_offset = Inr ([], slice_offset)"
| "slice_loop bs fl (Suc k) slice_offset =
     bindE (unpack_from slice_format bs slice_offset) (\<lambda>vs.
       case vs of
         [sf, x, y, w, hh] \<Rightarrow>
           (let off1 = slice_offset + calcsize slice_format
            in bindE (if fl AND 1 \<noteq> 0
                      then bindE (unpack_from slice_center_format bs off1) (\<lambda>cs.
                             case cs of
                               [cx, cy, cw, ch] \<Rightarrow>
                                 Inr (Some (cx, cy, cw, ch), off1 + calcsize slice_center_format)
                             | _ \<Rightarrow> Inl UnpackArityError)
                      else Inr (None, off1))
                 (\<lambda>(cen, off2).
                   bindE (if fl AND 2 \<noteq> 0
                          then bindE (unpack_from slice_pivot_format bs off2) (\<lambda>ps.
                                 case ps of
                                   [px, py] \<Rightarrow>
                                     Inr (Some (px, py), off2 + calcsize slice_pivot_format)
                                 | _ \<Rightarrow> Inl UnpackArityError)
                          else Inr (None, off2))
                     (\<lambda>(piv, off3).
                       bindE (slice_loop bs fl k off3) (\<lambda>(ks, off4).
                         Inr (\<lparr>start_frame = sf, sk_x = x, sk_y = y, sk_width = w,
                                sk_height = hh, center = cen, pivot = piv\<rparr> # ks, off4)))))
       | _ \<Rightarrow> Inl UnpackArityError)"

definition SliceChunk :: "buffer \<Rightarrow> nat \<Rightarrow> slice_chunk result" where
  "SliceChunk bs data_offset =
     bindE (Chunk bs data_offset) (\<lambda>h.
       bindE (unpack_from slice_chunk_format bs (data_offset + 6)) (\<lambda>vs.
         case vs of
           [num_slices, fl, rs] \<Rightarrow>
             (let slice_offset = data_offset + 6 + calcsize slice_chunk_format
              in bindE (parse_string bs slice_offset) (\<lambda>(string_size, nm).
                   bindE (slice_loop bs fl (nat num_slices) (slice_offset + string_size))
                     (\<lambda>(ks, _).
                       Inr \<lparr>chunk_size = chunk_size h, chunk_type = chunk_type h,
                            slice_flags = fl, reserved = rs, slice_name = nm, slices = ks\<rparr>)))
         | _ \<Rightarrow> Inl UnpackArityError))"

subsection \<open>Tileset (0x2023)\<close>

text \<open>\<open>TilesetChunk.__init__\<close> does not call \<open>Chunk.__init__\<close>: a tileset has no
  \<open>chunk_size\<close> or \<open>chunk_type\<close> attribute, and its record does not extend
  \<open>chunk_hdr\<close>. The tile count is read into a local variable and dropped.\<close>

record tileset =
  tileset_id :: int
  tileset_flags :: int
  tile_width :: int
  tile_height :: int
  base_index :: int
  layer_name :: pystr
  external_ids :: "(int \<times> int) option"
  tileset_image :: "byte list option"

definition tileset_chunk_format :: "fmt_field list" where
  "tileset_chunk_format = [UInt 4, UInt 4, UInt 4, UInt 2, UInt 2, SInt 2, Pad 14]"

definition tileset_chunk_external_id_format :: "fmt_field list" where
  "tileset_chunk_external_id_format = [UInt 4, UInt 4]"

definition tileset_chunk_compressed_tiles_format :: "fmt_field list" where
  "tileset_chunk_compressed_tiles_format = [UInt 4]"

definition TilesetChunk :: "inflate \<Rightarrow> buffer \<Rightarrow> nat \<Rightarrow> tileset result" where
  "TilesetChunk decompress bs data_offset =
     (let slice_offset = data_offset + 6;
          tileset_name_offset = slice_offset + calcsize tileset_chunk_format
      in bindE (unpack_from tileset_chunk_format bs slice_offset) (\<lambda>vs.
           case vs of
             [tid, fl, num_tiles, tw, th, bi] \<Rightarrow>
               bindE (parse_string bs tileset_name_offset) (\<lambda>(string_data_length, nm).
                 (let additional_data_offset = tileset_name_offset + string_data_length
                  in bindE (if fl AND 1 \<noteq> 0
                            then bindE (unpack_from tileset_chunk_external_id_format bs
                                          additional_data_offset) (\<lambda>es.
                                   case es of
                                     [efid, etid] \<Rightarrow>
                                       Inr (Some (efid, etid), additional_data_offset
                                              + calcsize tileset_chunk_external_id_format)
                                   | _ \<Rightarrow> Inl UnpackArityError)
                            else Inr (None, additional_data_offset))
                       (\<lambda>(ext, off1).
                         bindE (if fl AND 2 \<noteq> 0
                                then bindE (unpack_from tileset_chunk_compressed_tiles_format
                                              bs off1) (\<lambda>ls.
                                       case ls of
                                         [compressed_data_length] \<Rightarrow>
                                           (let compressed_data_start =
                                                  off1 + calcsize tileset_chunk_compressed_tiles_format;
                                                compressed_data_end =
                                                  compressed_data_start + nat compressed_data_length
                                            in bindE (py_inflate decompress
                                                        (py_slice bs compressed_data_start
                                                           compressed_data_end))
                                                 (\<lambda>img. Inr (Some img)))
                                       | _ \<Rightarrow> Inl UnpackArityError)
                                else Inr None)
                           (\<lambda>img.
                             Inr \<lparr>tileset_id = tid, tileset_flags = fl, tile_width = tw,
                                  tile_height = th, base_index = bi, layer_name = nm,
                                  external_ids = ext, tileset_image = img\<rparr>))))
           | _ \<Rightarrow> Inl UnpackArityError))"

subsection \<open>The chunk variants and the type-id table\<close>

datatype chunk =
    OldPalette old_palette
  | Layer layer_chunk
  | LayerGroup layer_attrs
  | Cel cel
  | CelExtra cel_extra
  | ColorProfile color_profile
  | Mask mask_chunk
  | Path chunk_hdr
  | FrameTags frame_tags
  | Palette palette
  | UserData user_data
  | Slice slice_chunk
  | Tileset tileset

datatype chunk_class =
    OldPaleteChunk_0x0004_cls | OldPaleteChunk_0x0011_cls | LayerChunk_cls | CelChunk_cls
  | CelExtraChunk_cls | ColorProfileChunk_cls | MaskChunk_cls | FrameTagsChunk_cls
  | PathChunk_cls | PaletteChunk_cls | UserDataChunk_cls | SliceChunk_cls | TilesetChunk_cls

fun chunk_id :: "chunk_class \<Rightarrow> int" where
  "chunk_id OldPaleteChunk_0x0004_cls = 0x0004"
| "chunk_id OldPaleteChunk_0x0011_cls = 0x0011"
| "chunk_id LayerChunk_cls = 0x2004"
| "chunk_id CelChunk_cls = 0x2005"
| "chunk_id CelExtraChunk_cls = 0x2006"
| "chunk_id ColorProfileChunk_cls = 0x2007"
| "chunk_id MaskChunk_cls = 0x2016"
| "chunk_id FrameTagsChunk_cls = 0x2018"
| "chunk_id PathChunk_cls = 0x2017"
| "chunk_id PaletteChunk_cls = 0x2019"
| "chunk_id UserDataChunk_cls = 0x2020"
| "chunk_id SliceChunk_cls = 0x2022"
| "chunk_id TilesetChunk_cls = 0x2023"

definition supported_chunks :: "chunk_class list" where
  "supported_chunks =
     [OldPaleteChunk_0x0004_cls, OldPaleteChunk_0x0011_cls, LayerChunk_cls, CelChunk_cls,
      CelExtraChunk_cls, ColorProfileChunk_cls, MaskChunk_cls, FrameTagsChunk_cls,
      PathChunk_cls, PaletteChunk_cls, UserDataChunk_cls, SliceChunk_cls, TilesetChunk_cls]"

text \<open>The \<open>for chunk_type in supported_chunks\<close> loop with its \<open>break\<close>: the first
  class whose \<open>chunk_id\<close> is the preamble's type.\<close>

definition find_chunk_type :: "int \<Rightarrow> chunk_class option" where
  "find_chunk_type t = find (\<lambda>k. chunk_id k = t) supported_chunks"

text \<open>\<open>found_chunk_type(data, data_offset)\<close>: the generic constructor call. For the
  layer class the call would bind \<open>data_offset\<close> to the \<open>layer_index\<close> parameter;
  \<open>parse_data\<close> never makes it, as it handles that class first.\<close>

fun construct_chunk :: "inflate \<Rightarrow> chunk_class \<Rightarrow> buffer \<Rightarrow> nat \<Rightarrow> (chunk \<times> diag list) result"
where
  "construct_chunk z OldPaleteChunk_0x0004_cls bs off =
     bindE (OldPaleteChunk_0x0004 bs off) (\<lambda>c. Inr (OldPalette c, []))"
| "construct_chunk z OldPaleteChunk_0x0011_cls bs off =
     bindE (OldPaleteChunk_0x0011 bs off) (\<lambda>c. Inr (OldPalette c, []))"
| "construct_chunk z LayerChunk_cls bs off =
     bindE (LayerChunk bs off 0) (\<lambda>c. Inr (Layer c, []))"
| "construct_chunk z CelChunk_cls bs off =
     bindE (CelChunk z bs off) (\<lambda>(c, msgs). Inr (Cel c, msgs))"
| "construct_chunk z CelExtraChunk_cls bs off =
     bindE (CelExtraChunk bs off) (\<lambda>c. Inr (CelExtra c, []))"
| "construct_chunk z ColorProfileChunk_cls bs off =
     bindE (ColorProfileChunk bs off) (\<lambda>c. Inr (ColorProfile c, []))"
| "construct_chunk z MaskChunk_cls bs off =
     bindE (MaskChunk bs off) (\<lambda>c. Inr (Mask c, []))"
| "construct_chunk z FrameTagsChunk_cls bs off =
     bindE (FrameTagsChunk bs off) (\<lambda>c. Inr (FrameTags c, []))"
| "construct_chunk z PathChunk_cls bs off =
     bindE (PathChunk bs off) (\<lambda>c. Inr (Path c, []))"
| "construct_chunk z PaletteChunk_cls bs off =
     bindE (PaletteChunk bs off) (\<lambda>c. Inr (Palette c, []))"
| "construct_chunk z UserDataChunk_cls bs off =
     bindE (UserDataChunk bs off) (\<lambda>(c, msgs). Inr (UserData c, msgs))"
| "construct_chunk z SliceChunk_cls bs off =
     bindE (SliceChunk bs off) (\<lambda>c. Inr (Slice c, []))"
| "construct_chunk z TilesetChunk_cls bs off =
     bindE (TilesetChunk z bs off) (\<lambda>c. Inr (Tileset c, []))"


subsection \<open>Lemmas\<close>

lemma palette_color_loop_shape:
  "palette_color_loop bs k off = Inr (cs, off') \<Longrightarrow>
     length cs = k \<and> (\<forall>c \<in> set cs. (col_name c \<noteq> None) = (col_flags c AND 1 \<noteq> 0))"
proof (induction k arbitrary: off cs)
  case (Suc k)
  then show ?case
    by (auto simp add: bindE_Inr_iff unpack_from_def color_format_def Let_def
             split: if_split_asm dest!: Suc.IH)
qed simp

lemma slice_loop_shape:
  "slice_loop bs fl k off = Inr (ks, off') \<Longrightarrow>
     length ks = k \<and> (\<forall>key \<in> set ks. (center key \<noteq> None) = (fl AND 1 \<noteq> 0)
                                   \<and> (pivot key \<noteq> None) = (fl AND 2 \<noteq> 0))"
proof (induction k arbitrary: off ks)
  case (Suc k)
  then show ?case
    by (auto simp add: bindE_Inr_iff unpack_from_def slice_format_def slice_center_format_def
             slice_pivot_format_def Let_def split: if_split_asm dest!: Suc.IH)
qed simp

text \<open>C15. The mask codec never returns bitmap bytes: \<open>data[start:start:end]\<close> is a slice
  from \<open>start_range\<close> to itself (with step \<open>end_range\<close>), so every decoded mask has
  an empty bitmap.\<close>

theorem MaskChunk_bitmap_empty:
  "MaskChunk bs off = Inr m \<Longrightarrow> bitmap m = []"
  by (auto simp add: MaskChunk_def Let_def bindE_Inr_iff unpack_from_def mask_format_def
           split: if_split_asm)

text \<open>C16. The palette codec reads one colour per index of the inclusive range
  \<open>[first, last]\<close>, and a colour carries a name exactly when bit 0 of its flags is set.\<close>

theorem PaletteChunk_colors:
  "PaletteChunk bs off = Inr p \<Longrightarrow>
     length (colors p) = nat (last_color_index p + 1 - first_color_index p)
     \<and> (\<forall>c \<in> set (colors p). (col_name c \<noteq> None) = (col_flags c AND 1 \<noteq> 0))"
  by (auto simp add: PaletteChunk_def bindE_Inr_iff unpack_from_def palette_format_def
           split: if_split_asm dest!: palette_color_loop_shape)

text \<open>C17. The user-data codec returns a text exactly when flag bit 0 is set, a colour
  exactly when bit 1 is set, and reports a skipped property map exactly when bit 2 is set.\<close>

theorem UserDataChunk_flags:
  "UserDataChunk bs off = Inr (u, msgs) \<Longrightarrow>
     (ud_string u \<noteq> None) = (ud_flags u AND 1 \<noteq> 0)
     \<and> (ud_rgba u \<noteq> None) = (ud_flags u AND 2 \<noteq> 0)
     \<and> msgs = (if ud_flags u AND 4 \<noteq> 0 then [PropertyMapSkipped] else [])"
  by (auto simp add: UserDataChunk_def Let_def bindE_Inr_iff unpack_from_def
           split: if_split_asm)

text \<open>C18. The slice codec reads as many keys as the count in its header, and the
  chunk-global flags gate every key alike: a key has a centre rectangle exactly when bit 0
  is set and a pivot exactly when bit 1 is set.\<close>

theorem SliceChunk_keys:
  "SliceChunk bs off = Inr sc \<Longrightarrow>
     (\<exists>n. unpack_from slice_chunk_format bs (off + 6) = Inr [n, slice_flags sc, reserved sc]
          \<and> length (slices sc) = nat n)
     \<and> (\<forall>key \<in> set (slices sc). (center key \<noteq> None) = (slice_flags sc AND 1 \<noteq> 0)
                                 \<and> (pivot key \<noteq> None) = (slice_flags sc AND 2 \<noteq> 0))"
  by (auto simp add: SliceChunk_def Let_def bindE_Inr_iff unpack_from_def slice_chunk_format_def
           split: if_split_asm dest!: slice_loop_shape)

text \<open>C19. The tileset codec returns an external-file reference exactly when flag bit 0 is
  set and a tile atlas exactly when bit 1 is set.\<close>

theorem TilesetChunk_flags:
  "TilesetChunk z bs off = Inr t \<Longrightarrow>
     (external_ids t \<noteq> None) = (tileset_flags t AND 1 \<noteq> 0)
     \<and> (tileset_image t \<noteq> None) = (tileset_flags t AND 2 \<noteq> 0)"
  by (auto simp add: TilesetChunk_def Let_def bindE_Inr_iff unpack_from_def
           tileset_chunk_format_def tileset_chunk_external_id_format_def
           tileset_chunk_compressed_tiles_format_def split: if_split_asm)


theorem MaskChunk_bitmap_empty_witness:
  "\<exists>m. MaskChunk
      [26, 0, 0, 0, 0x16, 0x20, 0, 0, 0, 0, 8, 0, 1, 0, 0, 0, 0, 0, 0, 0, 0, 0,
      1, 0, 109, 255] 0 = Inr m
     \<and> mask_width m = 8 \<and> mask_height m = 1 \<and> bitmap m = []"
proof -
  have "case MaskChunk
      [26, 0, 0, 0, 0x16, 0x20, 0, 0, 0, 0, 8, 0, 1, 0, 0, 0, 0, 0, 0, 0, 0, 0,
      1, 0, 109, 255] 0 of
      Inl _ \<Rightarrow> False | Inr m \<Rightarrow> mask_width m = 8 \<and> mask_height m = 1"
    by code_simp
  then show ?thesis using MaskChunk_bitmap_empty by (blast dest: case_sum_InrD)
qed

theorem PaletteChunk_colors_witness:
  "\<exists>p. PaletteChunk
      [41, 0, 0, 0, 0x19, 0x20, 2, 0, 0, 0, 0, 0, 0, 0, 1, 0, 0, 0, 0, 0, 0, 0, 0, 0, 0, 0,
      1, 0, 10, 20, 30, 255, 1, 0, 97, 0, 0, 40, 50, 60, 255] 0 = Inr p
     \<and> first_color_index p = 0 \<and> last_color_index p = 1 \<and> length (colors p) = 2
     \<and> (\<forall>c \<in> set (colors p). (col_name c \<noteq> None) = (col_flags c AND 1 \<noteq> 0))"
proof -
  have "case PaletteChunk
      [41, 0, 0, 0, 0x19, 0x20, 2, 0, 0, 0, 0, 0, 0, 0, 1, 0, 0, 0, 0, 0, 0, 0, 0, 0, 0, 0,
      1, 0, 10, 20, 30, 255, 1, 0, 97, 0, 0, 40, 50, 60, 255] 0 of
      Inl _ \<Rightarrow> False | Inr p \<Rightarrow> first_color_index p = 0 \<and> last_color_index p = 1"
    by code_simp
  then obtain p where "PaletteChunk
      [41, 0, 0, 0, 0x19, 0x20, 2, 0, 0, 0, 0, 0, 0, 0, 1, 0, 0, 0, 0, 0, 0, 0, 0, 0, 0, 0,
      1, 0, 10, 20, 30, 255, 1, 0, 97, 0, 0, 40, 50, 60, 255] 0 = Inr p"
    and "first_color_index p = 0" "last_color_index p = 1"
    by (blast dest: case_sum_InrD)
  then show ?thesis using PaletteChunk_colors by fastforce
qed

theorem UserDataChunk_flags_witness:
  "\<exists>u msgs. UserDataChunk [17, 0, 0, 0, 0x20, 0x20, 7, 0, 0, 0, 1, 0, 120, 1, 2, 3, 4] 0 = Inr (u, msgs)
     \<and> ud_flags u = 7 \<and> ud_string u \<noteq> None \<and> ud_rgba u \<noteq> None
     \<and> msgs = [PropertyMapSkipped]"
proof -
  have "case UserDataChunk [17, 0, 0, 0, 0x20, 0x20, 7, 0, 0, 0, 1, 0, 120, 1, 2, 3, 4] 0 of
      Inl _ \<Rightarrow> False | Inr (u, msgs) \<Rightarrow> ud_flags u = 7"
    by code_simp
  then obtain u msgs where "UserDataChunk [17, 0, 0, 0, 0x20, 0x20, 7, 0, 0, 0, 1, 0, 120, 1, 2, 3, 4] 0 = Inr (u, msgs)" "ud_flags u = 7"
    by (auto split: sum.splits)
  then show ?thesis using UserDataChunk_flags by fastforce
qed

theorem SliceChunk_keys_witness:
  "\<exists>sc. SliceChunk
      [48, 0, 0, 0, 0x22, 0x20, 1, 0, 0, 0, 2, 0, 0, 0, 0, 0, 0, 0, 0, 0,
      0, 0, 0, 0, 1, 0, 0, 0, 2, 0, 0, 0, 3, 0, 0, 0, 4, 0, 0, 0, 5, 0, 0, 0, 6, 0, 0, 0] 0 = Inr sc
     \<and> slice_flags sc = 2 \<and> length (slices sc) = 1
     \<and> (\<forall>key \<in> set (slices sc). center key = None \<and> pivot key \<noteq> None)"
proof -
  have "case SliceChunk
      [48, 0, 0, 0, 0x22, 0x20, 1, 0, 0, 0, 2, 0, 0, 0, 0, 0, 0, 0, 0, 0,
      0, 0, 0, 0, 1, 0, 0, 0, 2, 0, 0, 0, 3, 0, 0, 0, 4, 0, 0, 0, 5, 0, 0, 0, 6, 0, 0, 0] 0 of
      Inl _ \<Rightarrow> False | Inr sc \<Rightarrow> slice_flags sc = 2 \<and> length (slices sc) = 1"
    by (simp add: SliceChunk_def Chunk_def unpack_from_def chunk_format_def slice_chunk_format_def
        slice_format_def slice_pivot_format_def calcsize_def to_signed_def parse_string_def
        unpack_bytes_def py_decode_utf8_def utf8_decode.simps)
  then obtain sc where run: "SliceChunk
      [48, 0, 0, 0, 0x22, 0x20, 1, 0, 0, 0, 2, 0, 0, 0, 0, 0, 0, 0, 0, 0,
      0, 0, 0, 0, 1, 0, 0, 0, 2, 0, 0, 0, 3, 0, 0, 0, 4, 0, 0, 0, 5, 0, 0, 0, 6, 0, 0, 0] 0 = Inr sc"
    and "slice_flags sc = 2" "length (slices sc) = 1"
    by (blast dest: case_sum_InrD)
  moreover have "\<forall>key \<in> set (slices sc). center key = None \<and> pivot key \<noteq> None"
    using SliceChunk_keys [OF run] \<open>slice_flags sc = 2\<close> by (simp del: not_None_eq)
  ultimately show ?thesis using run by blast
qed

theorem TilesetChunk_flags_witness:
  "\<exists>t. TilesetChunk (\<lambda>_. Some [9, 9])
      [47, 0, 0, 0, 0x23, 0x20, 0, 0, 0, 0, 2, 0, 0, 0, 1, 0, 0, 0,
      8, 0, 8, 0, 1, 0, 0, 0, 0, 0, 0, 0, 0, 0, 0, 0, 0, 0, 0, 0, 1, 0, 116, 2, 0, 0, 0, 120, 156] 0 = Inr t
     \<and> tileset_flags t = 2 \<and> external_ids t = None \<and> tileset_image t \<noteq> None"
proof -
  have "case TilesetChunk (\<lambda>_. Some [9, 9])
      [47, 0, 0, 0, 0x23, 0x20, 0, 0, 0, 0, 2, 0, 0, 0, 1, 0, 0, 0,
      8, 0, 8, 0, 1, 0, 0, 0, 0, 0, 0, 0, 0, 0, 0, 0, 0, 0, 0, 0, 1, 0, 116, 2, 0, 0, 0, 120, 156] 0 of
      Inl _ \<Rightarrow> False | Inr t \<Rightarrow> tileset_flags t = 2"
    by code_simp
  then show ?thesis using TilesetChunk_flags by (fastforce dest: case_sum_InrD)
qed

end
