(* ===== verification/Headers.thy ===== *)
theory Headers
  imports Struct
begin

text \<open>
  The fixed records of \<open>src/src/aseprite/headers.py\<close>: the 128-byte file header
  (class \<open>Header\<close>) and the 16-byte frame header (class \<open>Frame\<close>). Each class is a
  record of its attributes (Python ints), its format string is a \<open>fmt_field\<close> list and
  its constructor is a function from the buffer and an offset to the record or the
  exception it raises: \<open>struct.error\<close> when the record does not fit in the buffer, the
  magic-number \<open>ValueError\<close> otherwise. The frame's chunk list is not set by
  \<open>Frame.__init__\<close>; \<open>parse_data\<close> adds it (theory \<open>Parse\<close>).
\<close>

record header =
  filesize :: int
  magic_number :: int
  num_frames :: int
  width :: int
  height :: int
  color_depth :: int
  flags :: int
  speed_deprecated :: int
  palette_mask :: int
  num_colors :: int
  pixel_width :: int
  pixel_height :: int
  grid_x_position :: int
  grid_y_position :: int
  grid_width :: int
  grid_height :: int

definition header_format :: "fmt_field list" where
  "header_format =
     [UInt 4, UInt 2, UInt 2, UInt 2, UInt 2, UInt 2, UInt 4, UInt 2, Pad 4, Pad 4,
      UInt 1, Pad 3, UInt 2, UInt 1, UInt 1, SInt 2, SInt 2, UInt 2, UInt 2, Pad 84]"

definition header_size :: nat where
  "header_size = 128"

definition Header :: "buffer \<Rightarrow> nat \<Rightarrow> header result" where
  "Header bs data_offset =
     bindE (unpack_from header_format bs data_offset) (\<lambda>vs.
       case vs of
         [fs, mn, nf, w, h, cd, fl, sp, pm, nc, pw, ph, gx, gy, gw, gh] \<Rightarrow>
           (let hd = \<lparr>filesize = fs, magic_number = mn, num_frames = nf, width = w, height = h,
                      color_depth = cd, flags = fl, speed_deprecated = sp, palette_mask = pm,
                      num_colors = nc, pixel_width = pw, pixel_height = ph,
                      grid_x_position = gx, grid_y_position = gy, grid_width = gw,
                      grid_height = gh\<rparr>
            in if magic_number hd \<noteq> 0xA5E0 then Inl (MagicError 0xA5E0 (magic_number hd))
               else Inr hd)
       | _ \<Rightarrow> Inl UnpackArityError)"

record frame_header =
  fsize :: int
  fmagic_number :: int
  num_chunks :: int
  frame_duration :: int

definition frame_format :: "fmt_field list" where
  "frame_format = [UInt 4, UInt 2, UInt 2, UInt 2, Pad 6]"

definition frame_size :: nat where
  "frame_size = 16"

definition Frame :: "buffer \<Rightarrow> nat \<Rightarrow> frame_header result" where
  "Frame bs data_offset =
     bindE (unpack_from frame_format bs data_offset) (\<lambda>vs.
       case vs of
         [sz, mn, nc, d] \<Rightarrow>
           (let fr = \<lparr>fsize = sz, fmagic_number = mn, num_chunks = nc, frame_duration = d\<rparr>
            in if fmagic_number fr \<noteq> 0xF1FA then Inl (MagicError 0xF1FA (fmagic_number fr))
               else Inr fr)
       | _ \<Rightarrow> Inl UnpackArityError)"

subsection \<open>Encoders for the round trips\<close>

definition header_values :: "header \<Rightarrow> int list" where
  "header_values h =
     [filesize h, magic_number h, num_frames h, width h, height h, color_depth h, flags h,
      speed_deprecated h, palette_mask h, num_colors h, pixel_width h, pixel_height h,
      grid_x_position h, grid_y_position h, grid_width h, grid_height h]"

definition frame_values :: "frame_header \<Rightarrow> int list" where
  "frame_values f = [fsize f, fmagic_number f, num_chunks f, frame_duration f]"

text \<open>The data model's field reads: the little-endian unsigned (\<open>u8\<close>, \<open>u16\<close>,
  \<open>u32\<close>) and two's-complement (\<open>i16\<close>) value of the \<open>n\<close> bytes at \<open>p\<close>. They are
  written from the spec's byte table, not from the struct formats, so that the layout of
  a format can be checked against it.\<close>

definition read_uint :: "buffer \<Rightarrow> nat \<Rightarrow> nat \<Rightarrow> int" where
  "read_uint bs p n = int (le_uint (take n (drop p bs)))"

definition read_sint :: "buffer \<Rightarrow> nat \<Rightarrow> nat \<Rightarrow> int" where
  "read_sint bs p n = to_signed n (le_uint (take n (drop p bs)))"

subsection \<open>Layout\<close>

lemma header_format_size [layout]: "calcsize header_format = header_size"
  by (simp add: calcsize_def header_format_def header_size_def)

lemma frame_format_size [layout]: "calcsize frame_format = frame_size"
  by (simp add: calcsize_def frame_format_def frame_size_def)

lemma wf_header_format: "list_all wf_field header_format"
  by (simp add: header_format_def)

lemma wf_frame_format: "list_all wf_field frame_format"
  by (simp add: frame_format_def)

subsection \<open>Behaviour of the constructors\<close>

lemma Header_short:
  "length bs < data_offset + header_size \<Longrightarrow> Header bs data_offset = Inl StructError"
  by (simp add: Header_def unpack_from_def header_format_size)

lemma Header_magic:
  assumes "data_offset + header_size \<le> length bs"
    and "int (le_uint (take 2 (drop (data_offset + 4) bs))) \<noteq> 0xA5E0"
  shows "Header bs data_offset =
           Inl (MagicError 0xA5E0 (int (le_uint (take 2 (drop (data_offset + 4) bs)))))"
  using assms unfolding Header_def unpack_from_def header_format_size
  by (simp add: header_format_def Let_def add.commute)

lemma Header_Inr:
  "Header bs data_offset = Inr h \<Longrightarrow>
     magic_number h = 0xA5E0 \<and> data_offset + header_size \<le> length bs"
  by (auto simp add: Header_def unpack_from_def header_format_size Let_def bindE_Inr_iff
      split: if_splits list.splits)

lemma Header_roundtrip:
  assumes "fits header_format (header_values h)" and "magic_number h = 0xA5E0"
  shows "Header (pre @ pack_fields header_format (header_values h) @ post) (length pre) = Inr h"
proof -
  have "unpack_from header_format (pre @ pack_fields header_format (header_values h) @ post)
          (length pre) = Inr (header_values h)"
    using wf_header_format assms(1) by (rule unpack_from_pack)
  with assms(2) show ?thesis
    by (cases h) (simp add: Header_def header_values_def)
qed

lemma Frame_short:
  "length bs < data_offset + frame_size \<Longrightarrow> Frame bs data_offset = Inl StructError"
  by (simp add: Frame_def unpack_from_def frame_format_size)

lemma Frame_magic:
  assumes "data_offset + frame_size \<le> length bs"
    and "int (le_uint (take 2 (drop (data_offset + 4) bs))) \<noteq> 0xF1FA"
  shows "Frame bs data_offset =
           Inl (MagicError 0xF1FA (int (le_uint (take 2 (drop (data_offset + 4) bs)))))"
  using assms unfolding Frame_def unpack_from_def frame_format_size
  by (simp add: frame_format_def Let_def add.commute)

lemma Frame_Inr:
  "Frame bs data_offset = Inr f \<Longrightarrow>
     fmagic_number f = 0xF1FA \<and> data_offset + frame_size \<le> length bs"
  by (auto simp add: Frame_def unpack_from_def frame_format_size Let_def bindE_Inr_iff
      split: if_splits list.splits)

lemma Frame_roundtrip:
  assumes "fits frame_format (frame_values f)" and "fmagic_number f = 0xF1FA"
  shows "Frame (pre @ pack_fields frame_format (frame_values f) @ post) (length pre) = Inr f"
proof -
  have "unpack_from frame_format (pre @ pack_fields frame_format (frame_values f) @ post)
          (length pre) = Inr (frame_values f)"
    using wf_frame_format assms(1) by (rule unpack_from_pack)
  with assms(2) show ?thesis
    by (cases f) (simp add: Frame_def frame_values_def)
qed


lemma Header_values:
  assumes "Header bs off = Inr h"
  shows "unpack_from header_format bs off = Inr (header_values h)"
proof -
  obtain vs where vs: "unpack_from header_format bs off = Inr vs"
    using assms by (cases "unpack_from header_format bs off") (simp_all add: Header_def)
  then have "length vs = 16"
    using unpack_from_length [OF vs] by (simp add: header_format_def)
  then obtain v0 v1 v2 v3 v4 v5 v6 v7 v8 v9 v10 v11 v12 v13 v14 v15
    where v: "vs = [v0, v1, v2, v3, v4, v5, v6, v7, v8, v9, v10, v11, v12, v13, v14, v15]"
    by (auto simp add: numeral_eq_Suc length_Suc_conv)
  show ?thesis
    using assms vs unfolding v by (auto simp add: Header_def Let_def header_values_def split: if_split_asm)
qed

text \<open>C29. The header decoder reads every field at the offset and width the data
  model's 128-byte header table gives it: file size (u32 at 0), frame count, width,
  height and colour depth (u16 at 6, 8, 10, 12), flags (u32 at 14), speed (u16 at 18),
  palette mask (u8 at 28), colour count (u16 at 32), pixel ratio (u8 at 34 and 35), grid
  origin (i16 at 36 and 38) and grid size (u16 at 40 and 42), relative to the header's
  start; on every buffer that holds a header with the right magic it returns exactly
  these values.\<close>

theorem Header_layout:
  assumes "off + header_size \<le> length bs" and "read_uint bs (off + 4) 2 = 0xA5E0"
  shows "Header bs off = Inr
    \<lparr>filesize = read_uint bs off 4, magic_number = 0xA5E0,
     num_frames = read_uint bs (off + 6) 2, width = read_uint bs (off + 8) 2,
     height = read_uint bs (off + 10) 2, color_depth = read_uint bs (off + 12) 2,
     flags = read_uint bs (off + 14) 4, speed_deprecated = read_uint bs (off + 18) 2,
     palette_mask = read_uint bs (off + 28) 1, num_colors = read_uint bs (off + 32) 2,
     pixel_width = read_uint bs (off + 34) 1, pixel_height = read_uint bs (off + 35) 1,
     grid_x_position = read_sint bs (off + 36) 2, grid_y_position = read_sint bs (off + 38) 2,
     grid_width = read_uint bs (off + 40) 2, grid_height = read_uint bs (off + 42) 2\<rparr>"
  using assms
  by (simp add: Header_def unpack_from_def header_format_def header_size_def calcsize_def
      read_uint_def read_sint_def ac_simps)

theorem Header_layout_witness:
  "Header ([0x80, 0, 0, 0, 0xE0, 0xA5, 1, 0, 0x20, 0, 0x10, 0] @ replicate 24 0 @
       [0xFF, 0xFF] @ replicate 90 0) 0 =
   Inr \<lparr>filesize = 0x80, magic_number = 0xA5E0, num_frames = 1, width = 0x20, height = 0x10,
        color_depth = 0, flags = 0, speed_deprecated = 0, palette_mask = 0, num_colors = 0,
        pixel_width = 0, pixel_height = 0, grid_x_position = -1, grid_y_position = 0,
        grid_width = 0, grid_height = 0\<rparr>"
  using Header_layout [of 0 "[0x80, 0, 0, 0, 0xE0, 0xA5, 1, 0, 0x20, 0, 0x10, 0] @ replicate 24 0 @
       [0xFF, 0xFF] @ replicate 90 0"]
  by (simp add: header_size_def read_uint_def read_sint_def to_signed_def)

end
