(* ===== verification/Legacy_Classes.thy ===== *)
theory Legacy_Classes
  imports Chunks_Meta Headers
begin

text \<open>
  The classes of the older decoder under \<open>src/aseprite/\<close> (\<open>chunks.py\<close>,
  \<open>headers.py\<close>) whose code is the current code up to the \<open>chunk_id\<close> class attribute,
  the docstrings and the names of local structs: \<open>parse_string\<close>, \<open>Chunk\<close>, \<open>Frame\<close>,
  the two old palettes, \<open>LayerGroupChunk\<close>, \<open>MaskChunk\<close>, \<open>PathChunk\<close>,
  \<open>FrameTagsChunk\<close> and \<open>SliceChunk\<close> (whose center and pivot structs are called
  \<open>slice_bit_1_format\<close> and \<open>slice_bit_2_format\<close> there). Each is translated from the
  legacy lines with the suffix \<open>_v0\<close>, and each is proved equal to its current
  counterpart by a \<open>[simp]\<close> rule, so that the legacy decoder (theories
  \<open>Legacy_Codecs\<close>, \<open>Legacy_Parse\<close>) calls these definitions and its proofs still reuse
  the lemmas of the current classes.
\<close>

definition parse_string_v0 :: "buffer \<Rightarrow> nat \<Rightarrow> (nat \<times> pystr) result" where
  "parse_string_v0 bs string_offset =
     bindE (unpack_from [UInt 2] bs string_offset) (\<lambda>vs.
       case vs of
         [string_length] \<Rightarrow>
           bindE (unpack_bytes (nat string_length) bs (string_offset + 2)) (\<lambda>string_name.
             bindE (py_decode_utf8 string_name) (\<lambda>s. Inr (nat string_length + 2, s)))
       | _ \<Rightarrow> Inl UnpackArityError)"

definition chunk_format_v0 :: "fmt_field list" where
  "chunk_format_v0 = [UInt 4, UInt 2]"

definition Chunk_v0 :: "buffer \<Rightarrow> nat \<Rightarrow> chunk_hdr result" where
  "Chunk_v0 bs data_offset =
     bindE (unpack_from chunk_format_v0 bs data_offset) (\<lambda>vs.
       case vs of
         [s, t] \<Rightarrow> Inr \<lparr>chunk_size = s, chunk_type = t\<rparr>
       | _ \<Rightarrow> Inl UnpackArityError)"

definition frame_format_v0 :: "fmt_field list" where
  "frame_format_v0 = [UInt 4, UInt 2, UInt 2, UInt 2, Pad 6]"

definition frame_size_v0 :: nat where
  "frame_size_v0 = 16"

definition Frame_v0 :: "buffer \<Rightarrow> nat \<Rightarrow> frame_header result" where
  "Frame_v0 bs data_offset =
     bindE (unpack_from frame_format_v0 bs data_offset) (\<lambda>vs.
       case vs of
         [sz, mn, nc, d] \<Rightarrow>
           (let fr = \<lparr>fsize = sz, fmagic_number = mn, num_chunks = nc, frame_duration = d\<rparr>
            in if fmagic_number fr \<noteq> 0xF1FA then Inl (MagicError 0xF1FA (fmagic_number fr))
               else Inr fr)
       | _ \<Rightarrow> Inl UnpackArityError)"

subsection \<open>Old palettes\<close>

fun old_palette_colors_v0 :: "buffer \<Rightarrow> nat \<Rightarrow> nat \<Rightarrow> (int list list \<times> nat) result" where
  "old_palette_colors_v0 bs 0 packet_offset = Inr ([], packet_offset)"
| "old_palette_colors_v0 bs (Suc k) packet_offset =
     bindE (unpack_from [UInt 1, UInt 1, UInt 1] bs packet_offset) (\<lambda>vs.
       case vs of
         [red, blue, green] \<Rightarrow>
           bindE (old_palette_colors_v0 bs k (packet_offset + 3)) (\<lambda>(cs, off).
             Inr ([red, blue, green] # cs, off))
       | _ \<Rightarrow> Inl UnpackArityError)"

fun old_palette_packets_v0 :: "buffer \<Rightarrow> nat \<Rightarrow> nat \<Rightarrow> (old_packet list \<times> nat) result" where
  "old_palette_packets_v0 bs 0 packet_offset = Inr ([], packet_offset)"
| "old_palette_packets_v0 bs (Suc k) packet_offset =
     bindE (unpack_from [UInt 1, UInt 1] bs packet_offset) (\<lambda>vs.
       case vs of
         [skip, ncolors] \<Rightarrow>
           bindE (old_palette_colors_v0 bs (nat ncolors) (packet_offset + 2)) (\<lambda>(cs, off).
             bindE (old_palette_packets_v0 bs k off) (\<lambda>(ps, off').
               Inr (\<lparr>previous_packet_skip = skip, packet_colors = cs\<rparr> # ps, off')))
       | _ \<Rightarrow> Inl UnpackArityError)"

definition OldPaleteChunk_0x0004_v0 :: "buffer \<Rightarrow> nat \<Rightarrow> old_palette result" where
  "OldPaleteChunk_0x0004_v0 bs data_offset =
     bindE (Chunk_v0 bs data_offset) (\<lambda>h.
       bindE (unpack_from [UInt 2] bs (data_offset + 6)) (\<lambda>vs.
         case vs of
           [n] \<Rightarrow>
             bindE (old_palette_packets_v0 bs (nat n) (data_offset + 8)) (\<lambda>(ps, _).
               Inr \<lparr>chunk_size = chunk_size h, chunk_type = chunk_type h,
                    num_packets = n, packets = ps\<rparr>)
         | _ \<Rightarrow> Inl UnpackArityError))"

text \<open>As in the current file, the 0x0011 constructor keeps the 1-tuple read at the
  chunk's own offset as \<open>num_packets\<close> and calls \<open>range\<close> on it; a packet loop, were
  it entered, would raise \<open>AttributeError\<close> on \<open>packet.previous_packet_skip\<close>.\<close>

fun old_palette_packets_0x0011_v0 ::
  "buffer \<Rightarrow> nat \<Rightarrow> nat \<Rightarrow> (old_packet list \<times> nat) result" where
  "old_palette_packets_0x0011_v0 bs 0 packet_offset = Inr ([], packet_offset)"
| "old_palette_packets_0x0011_v0 bs (Suc k) packet_offset =
     bindE (unpack_from [UInt 1, UInt 1] bs packet_offset) (\<lambda>vs.
       case vs of
         [skip, ncolors] \<Rightarrow> Inl AttributeError
       | _ \<Rightarrow> Inl UnpackArityError)"

definition OldPaleteChunk_0x0011_v0 :: "buffer \<Rightarrow> nat \<Rightarrow> old_palette result" where
  "OldPaleteChunk_0x0011_v0 bs data_offset =
     bindE (Chunk_v0 bs data_offset) (\<lambda>h.
       bindE (unpack_from [UInt 2] bs data_offset) (\<lambda>vs.
         (let num_packets = py_tuple vs;
              packet_offset = data_offset + 6
          in bindE (py_range num_packets) (\<lambda>n.
               bindE (old_palette_packets_0x0011_v0 bs (nat n) packet_offset) (\<lambda>(ps, _).
                 Inr \<lparr>chunk_size = chunk_size h, chunk_type = chunk_type h,
                      num_packets = n, packets = ps\<rparr>)))))"

subsection \<open>Layer groups, mask, path\<close>

definition LayerGroupChunk_v0 :: "layer_chunk \<Rightarrow> layer_attrs" where
  "LayerGroupChunk_v0 base_layer =
     \<lparr>lflags = lflags (attrs base_layer), layer_type = layer_type (attrs base_layer),
      layer_child_level = layer_child_level (attrs base_layer),
      default_width = default_width (attrs base_layer),
      default_height = default_height (attrs base_layer),
      blend_mode = blend_mode (attrs base_layer), lopacity = lopacity (attrs base_layer),
      lname = lname (attrs base_layer), layer_index = layer_index (attrs base_layer)\<rparr>"

definition mask_format_v0 :: "fmt_field list" where
  "mask_format_v0 = [SInt 2, SInt 2, UInt 2, UInt 2, Pad 8]"

definition MaskChunk_v0 :: "buffer \<Rightarrow> nat \<Rightarrow> mask_chunk result" where
  "MaskChunk_v0 bs data_offset =
     bindE (Chunk_v0 bs data_offset) (\<lambda>h.
       bindE (unpack_from mask_format_v0 bs (data_offset + 6)) (\<lambda>vs.
         case vs of
           [x, y, w, hh] \<Rightarrow>
             (let name_offset = data_offset + 6 + calcsize mask_format_v0
              in bindE (parse_string_v0 bs name_offset) (\<lambda>(string_size, nm).
                   (let start_range = name_offset + string_size;
                        end_range = start_range + (nat hh * (nat w + 7) + 7) div 8
                    in Inr \<lparr>chunk_size = chunk_size h, chunk_type = chunk_type h,
                            mask_x_pos = x, mask_y_pos = y, mask_width = w, mask_height = hh,
                            mask_name = nm,
                            bitmap = py_slice_step bs start_range start_range end_range\<rparr>)))
         | _ \<Rightarrow> Inl UnpackArityError))"

definition PathChunk_v0 :: "buffer \<Rightarrow> nat \<Rightarrow> chunk_hdr result" where
  "PathChunk_v0 bs data_offset = Chunk_v0 bs data_offset"

subsection \<open>Frame tags\<close>

definition frametag_head_format_v0 :: "fmt_field list" where
  "frametag_head_format_v0 = [UInt 2, Pad 8]"

definition frametag_format_v0 :: "fmt_field list" where
  "frametag_format_v0 = [UInt 2, UInt 2, UInt 1, Pad 8, UInt 1, UInt 1, UInt 1, Pad 1]"

fun frame_tag_loop_v0 :: "buffer \<Rightarrow> nat \<Rightarrow> nat \<Rightarrow> (frame_tag list \<times> nat) result" where
  "frame_tag_loop_v0 bs 0 tag_offset = Inr ([], tag_offset)"
| "frame_tag_loop_v0 bs (Suc k) tag_offset =
     bindE (unpack_from frametag_format_v0 bs tag_offset) (\<lambda>vs.
       case vs of
         [f, t, l, r, g, b] \<Rightarrow>
           bindE (parse_string_v0 bs (tag_offset + calcsize frametag_format_v0))
             (\<lambda>(string_size, nm).
               bindE (frame_tag_loop_v0 bs k
                        (tag_offset + calcsize frametag_format_v0 + string_size))
                 (\<lambda>(ts, off).
                   Inr (\<lparr>tag_from = f, tag_to = t, tag_loop = l, tag_red = r, tag_green = g,
                          tag_blue = b, tag_name = nm\<rparr> # ts, off)))
       | _ \<Rightarrow> Inl UnpackArityError)"

definition FrameTagsChunk_v0 :: "buffer \<Rightarrow> nat \<Rightarrow> frame_tags result" where
  "FrameTagsChunk_v0 bs data_offset =
     bindE (Chunk_v0 bs data_offset) (\<lambda>h.
       bindE (unpack_from frametag_head_format_v0 bs (data_offset + 6)) (\<lambda>vs.
         case vs of
           [num_tags] \<Rightarrow>
             bindE (frame_tag_loop_v0 bs (nat num_tags)
                      (data_offset + calcsize frametag_head_format_v0 + 6)) (\<lambda>(ts, _).
               Inr \<lparr>chunk_size = chunk_size h, chunk_type = chunk_type h, tags = ts\<rparr>)
         | _ \<Rightarrow> Inl UnpackArityError))"

subsection \<open>Slices\<close>

definition slice_chunk_format_v0 :: "fmt_field list" where
  "slice_chunk_format_v0 = [UInt 4, UInt 4, UInt 4]"

definition slice_format_v0 :: "fmt_field list" where
  "slice_format_v0 = [UInt 4, SInt 4, SInt 4, UInt 4, UInt 4]"

definition slice_bit_1_format_v0 :: "fmt_field list" where
  "slice_bit_1_format_v0 = [SInt 4, SInt 4, UInt 4, UInt 4]"

definition slice_bit_2_format_v0 :: "fmt_field list" where
  "slice_bit_2_format_v0 = [SInt 4, SInt 4]"

fun slice_loop_v0 :: "buffer \<Rightarrow> int \<Rightarrow> nat \<Rightarrow> nat \<Rightarrow> (slice_key list \<times> nat) result" where
  "slice_loop_v0 bs fl 0 slice_offset = Inr ([], slice_offset)"
| "slice_loop_v0 bs fl (Suc k) slice_offset =
     bindE (unpack_from slice_format_v0 bs slice_offset) (\<lambda>vs.
       case vs of
         [sf, x, y, w, hh] \<Rightarrow>
           (let off1 = slice_offset + calcsize slice_format_v0
            in bindE (if fl AND 1 \<noteq> 0
                      then bindE (unpack_from slice_bit_1_format_v0 bs off1) (\<lambda>cs.
                             case cs of
                               [cx, cy, cw, ch] \<Rightarrow>
                                 Inr (Some (cx, cy, cw, ch), off1 + calcsize slice_bit_1_format_v0)
                             | _ \<Rightarrow> Inl UnpackArityError)
                      else Inr (None, off1))
                 (\<lambda>(cen, off2).
                   bindE (if fl AND 2 \<noteq> 0
                          then bindE (unpack_from slice_bit_2_format_v0 bs off2) (\<lambda>ps.
                                 case ps of
                                   [px, py] \<Rightarrow>
                                     Inr (Some (px, py), off2 + calcsize slice_bit_2_format_v0)
                                 | _ \<Rightarrow> Inl UnpackArityError)
                          else Inr (None, off2))
                     (\<lambda>(piv, off3).
                       bindE (slice_loop_v0 bs fl k off3) (\<lambda>(ks, off4).
                         Inr (\<lparr>start_frame = sf, sk_x = x, sk_y = y, sk_width = w,
                                sk_height = hh, center = cen, pivot = piv\<rparr> # ks, off4)))))
       | _ \<Rightarrow> Inl UnpackArityError)"

definition SliceChunk_v0 :: "buffer \<Rightarrow> nat \<Rightarrow> slice_chunk result" where
  "SliceChunk_v0 bs data_offset =
     bindE (Chunk_v0 bs data_offset) (\<lambda>h.
       bindE (unpack_from slice_chunk_format_v0 bs (data_offset + 6)) (\<lambda>vs.
         case vs of
           [num_slices, fl, rs] \<Rightarrow>
             (let slice_offset = data_offset + 6 + calcsize slice_chunk_format_v0
              in bindE (parse_string_v0 bs slice_offset) (\<lambda>(string_size, nm).
                   bindE (slice_loop_v0 bs fl (nat num_slices) (slice_offset + string_size))
                     (\<lambda>(ks, _).
                       Inr \<lparr>chunk_size = chunk_size h, chunk_type = chunk_type h,
                            slice_flags = fl, reserved = rs, slice_name = nm, slices = ks\<rparr>)))
         | _ \<Rightarrow> Inl UnpackArityError))"

subsection \<open>Struct formats of the classes that changed\<close>

text \<open>The class attributes of \<open>LayerChunk\<close>, \<open>CelChunk\<close> and \<open>PaletteChunk\<close> of the
  older copy, used by its codecs in theory \<open>Legacy_Codecs\<close>; they are the current
  formats.\<close>

definition layer_format_v0 :: "fmt_field list" where
  "layer_format_v0 = [UInt 2, UInt 2, UInt 2, UInt 2, UInt 2, UInt 2, UInt 1, Pad 3]"

definition cel_format_v0 :: "fmt_field list" where
  "cel_format_v0 = [UInt 2, SInt 2, SInt 2, UInt 1, UInt 2, Pad 7]"

definition cel_type_format_v0 :: "fmt_field list" where
  "cel_type_format_v0 = [UInt 2, UInt 2]"

definition palette_format_v0 :: "fmt_field list" where
  "palette_format_v0 = [UInt 4, UInt 4, UInt 4, Pad 8]"

subsection \<open>The legacy classes are the current ones\<close>

lemma formats_v0_eq [simp]:
  "layer_format_v0 = layer_format" "cel_format_v0 = cel_format"
  "cel_type_format_v0 = cel_type_format" "palette_format_v0 = palette_format"
  "frame_size_v0 = frame_size"
  by (simp_all add: layer_format_v0_def layer_format_def cel_format_v0_def cel_format_def
    cel_type_format_v0_def cel_type_format_def palette_format_v0_def palette_format_def
    frame_size_v0_def frame_size_def)

lemma parse_string_v0_eq [simp]: "parse_string_v0 bs off = parse_string bs off"
  by (simp add: parse_string_v0_def parse_string_def)

lemma Chunk_v0_eq [simp]: "Chunk_v0 bs off = Chunk bs off"
  by (simp add: Chunk_v0_def Chunk_def chunk_format_v0_def chunk_format_def
    cong: list.case_cong)

lemma Frame_v0_eq [simp]: "Frame_v0 bs off = Frame bs off"
  by (simp add: Frame_v0_def Frame_def frame_format_v0_def frame_format_def
    cong: list.case_cong)

lemma old_palette_colors_v0_eq [simp]:
  "old_palette_colors_v0 bs k off = old_palette_colors bs k off"
  by (induction k arbitrary: off) simp_all

lemma old_palette_packets_v0_eq [simp]:
  "old_palette_packets_v0 bs k off = old_palette_packets bs k off"
  by (induction k arbitrary: off) simp_all

lemma OldPaleteChunk_0x0004_v0_eq [simp]:
  "OldPaleteChunk_0x0004_v0 bs off = OldPaleteChunk_0x0004 bs off"
  by (simp add: OldPaleteChunk_0x0004_v0_def OldPaleteChunk_0x0004_def
    cong: list.case_cong)

lemma old_palette_packets_0x0011_v0_eq [simp]:
  "old_palette_packets_0x0011_v0 bs k off = old_palette_packets_0x0011 bs k off"
  by (cases k) simp_all

lemma OldPaleteChunk_0x0011_v0_eq [simp]:
  "OldPaleteChunk_0x0011_v0 bs off = OldPaleteChunk_0x0011 bs off"
  by (simp add: OldPaleteChunk_0x0011_v0_def OldPaleteChunk_0x0011_def Let_def
    cong: list.case_cong)

lemma LayerGroupChunk_v0_eq [simp]: "LayerGroupChunk_v0 l = LayerGroupChunk l"
  by (simp add: LayerGroupChunk_v0_def LayerGroupChunk_def)

lemma MaskChunk_v0_eq [simp]: "MaskChunk_v0 bs off = MaskChunk bs off"
  by (simp add: MaskChunk_v0_def MaskChunk_def mask_format_v0_def mask_format_def Let_def
    cong: list.case_cong)

lemma PathChunk_v0_eq [simp]: "PathChunk_v0 bs off = PathChunk bs off"
  by (simp add: PathChunk_v0_def PathChunk_def)

lemma frame_tag_loop_v0_eq [simp]: "frame_tag_loop_v0 bs k off = frame_tag_loop bs k off"
  by (induction k arbitrary: off) (simp_all add: frametag_format_v0_def frametag_format_def
      cong: list.case_cong)

lemma FrameTagsChunk_v0_eq [simp]: "FrameTagsChunk_v0 bs off = FrameTagsChunk bs off"
  by (simp add: FrameTagsChunk_v0_def FrameTagsChunk_def frametag_head_format_v0_def
      frametag_head_format_def
    cong: list.case_cong)

lemma slice_loop_v0_eq [simp]: "slice_loop_v0 bs fl k off = slice_loop bs fl k off"
  by (induction k arbitrary: off)
    (simp_all add: slice_format_v0_def slice_format_def slice_bit_1_format_v0_def
      slice_center_format_def slice_bit_2_format_v0_def slice_pivot_format_def Let_def
      cong: list.case_cong)

lemma SliceChunk_v0_eq [simp]: "SliceChunk_v0 bs off = SliceChunk bs off"
  by (simp add: SliceChunk_v0_def SliceChunk_def slice_chunk_format_v0_def
      slice_chunk_format_def Let_def
    cong: list.case_cong)

end
