(* ===== verification/Legacy_Codecs.thy ===== *)
theory Legacy_Codecs
  imports Legacy_Classes
begin

text \<open>
  The older copy of the decoder under \<open>src/aseprite/\<close> (\<open>headers.py\<close>, \<open>chunks.py\<close>).
  The classes that did not change are in theory \<open>Legacy_Classes\<close>. This theory holds
  the classes that differ, each suffixed \<open>_v0\<close> and calling the legacy \<open>Chunk_v0\<close>
  and \<open>parse_string_v0\<close>: the 11-field header, the
  layer without a tileset index, the cel codec (which reads width and height with the
  4-byte struct for sub-types 0 and 2, and leaves \<open>data\<close> unset for other sub-types), the
  cel-extra codec with a 2-byte flags field, the palette codec that stores the third and
  fourth colour bytes under \<open>blue\<close> and \<open>green\<close>, and the user-data codec without the
  property-map message. A legacy object that lacks an attribute the current one has is
  the current record with that attribute \<open>None\<close> (\<open>tileset_index\<close>) or \<open>CelNoData\<close>
  (\<open>data\<close>).
\<close>

subsection \<open>Header\<close>

record header_v0 =
  filesize_v0 :: int
  magic_number_v0 :: int
  num_frames_v0 :: int
  width_v0 :: int
  height_v0 :: int
  color_depth_v0 :: int
  flags_v0 :: int
  palette_mask_v0 :: int
  num_colors_v0 :: int
  pixel_width_v0 :: int
  pixel_height_v0 :: int

definition header_format_v0 :: "fmt_field list" where
  "header_format_v0 =
     [UInt 4, UInt 2, UInt 2, UInt 2, UInt 2, UInt 2, UInt 4, Pad 2, Pad 8, UInt 1, Pad 3,
      UInt 2, UInt 1, UInt 1, Pad 92]"

definition Header_v0 :: "buffer \<Rightarrow> nat \<Rightarrow> header_v0 result" where
  "Header_v0 bs data_offset =
     bindE (unpack_from header_format_v0 bs data_offset) (\<lambda>vs.
       case vs of
         [fs, mn, nf, w, h, cd, fl, pm, nc, pw, ph] \<Rightarrow>
           (let hd = \<lparr>filesize_v0 = fs, magic_number_v0 = mn, num_frames_v0 = nf, width_v0 = w,
                      height_v0 = h, color_depth_v0 = cd, flags_v0 = fl, palette_mask_v0 = pm,
                      num_colors_v0 = nc, pixel_width_v0 = pw, pixel_height_v0 = ph\<rparr>
            in if magic_number_v0 hd \<noteq> 0xA5E0 then Inl (MagicError 0xA5E0 (magic_number_v0 hd))
               else Inr hd)
       | _ \<Rightarrow> Inl UnpackArityError)"

text \<open>The fields the two header versions share, read off a current header.\<close>

definition header_v0_of :: "header \<Rightarrow> header_v0" where
  "header_v0_of h =
     \<lparr>filesize_v0 = filesize h, magic_number_v0 = magic_number h, num_frames_v0 = num_frames h,
      width_v0 = width h, height_v0 = height h, color_depth_v0 = color_depth h,
      flags_v0 = flags h, palette_mask_v0 = palette_mask h, num_colors_v0 = num_colors h,
      pixel_width_v0 = pixel_width h, pixel_height_v0 = pixel_height h\<rparr>"

subsection \<open>Layer\<close>

definition LayerChunk_v0 :: "buffer \<Rightarrow> nat \<Rightarrow> nat \<Rightarrow> layer_chunk result" where
  "LayerChunk_v0 bs layer_index_arg data_offset =
     bindE (Chunk_v0 bs data_offset) (\<lambda>h.
       bindE (unpack_from layer_format_v0 bs (data_offset + 6)) (\<lambda>vs.
         case vs of
           [fl, lt, lvl, dw, dh, bm, op] \<Rightarrow>
             bindE (parse_string_v0 bs (data_offset + 6 + calcsize layer_format_v0))
               (\<lambda>(_, nm).
                 Inr \<lparr>chunk_size = chunk_size h, chunk_type = chunk_type h,
                      attrs = \<lparr>lflags = fl, layer_type = lt, layer_child_level = lvl,
                               default_width = dw, default_height = dh, blend_mode = bm,
                               lopacity = op, lname = nm, layer_index = layer_index_arg\<rparr>,
                      tileset_index = None\<rparr>)
         | _ \<Rightarrow> Inl UnpackArityError))"

subsection \<open>Cel and cel extra\<close>

definition CelChunk_v0 :: "inflate \<Rightarrow> buffer \<Rightarrow> nat \<Rightarrow> cel result" where
  "CelChunk_v0 decompress bs data_offset =
     bindE (Chunk_v0 bs data_offset) (\<lambda>h.
       bindE (unpack_from cel_format_v0 bs (data_offset + 6)) (\<lambda>vs.
         case vs of
           [li, x, y, op, ct] \<Rightarrow>
             (let cel_offset = data_offset + calcsize cel_format_v0 + 6;
                  end_range = data_offset + nat (chunk_size h);
                  start_range = cel_offset + calcsize cel_type_format_v0;
                  mk = (\<lambda>d. \<lparr>chunk_size = chunk_size h, chunk_type = chunk_type h,
                             cel_layer_index = li, x_pos = x, y_pos = y, cel_opacity = op,
                             cel_type = ct, cel_data = d\<rparr>)
              in if ct = 0 then
                   bindE (unpack_from cel_type_format_v0 bs cel_offset) (\<lambda>ws.
                     case ws of
                       [w, hh] \<Rightarrow> Inr (mk (CelPixels w hh (py_slice bs start_range end_range)))
                     | _ \<Rightarrow> Inl UnpackArityError)
                 else if ct = 1 then
                   bindE (unpack_from [UInt 2] bs cel_offset) (\<lambda>link. Inr (mk (CelLink link)))
                 else if ct = 2 then
                   bindE (unpack_from cel_type_format_v0 bs cel_offset) (\<lambda>ws.
                     case ws of
                       [w, hh] \<Rightarrow>
                         bindE (py_inflate decompress (py_slice bs start_range end_range)) (\<lambda>d.
                           Inr (mk (CelPixels w hh d)))
                     | _ \<Rightarrow> Inl UnpackArityError)
                 else Inr (mk CelNoData))
         | _ \<Rightarrow> Inl UnpackArityError))"

definition celextra_format_v0 :: "fmt_field list" where
  "celextra_format_v0 = [UInt 2, UInt 4, UInt 4, UInt 4, UInt 4, Pad 16]"

definition CelExtraChunk_v0 :: "buffer \<Rightarrow> nat \<Rightarrow> cel_extra result" where
  "CelExtraChunk_v0 bs data_offset =
     bindE (Chunk_v0 bs data_offset) (\<lambda>h.
       bindE (unpack_from celextra_format_v0 bs (data_offset + 6)) (\<lambda>vs.
         case vs of
           [fl, px, py, cw, ch] \<Rightarrow>
             Inr \<lparr>chunk_size = chunk_size h, chunk_type = chunk_type h, ce_flags = fl,
                  precise_x_pos = px, precise_y_pos = py, cel_width = cw, cel_height = ch\<rparr>
         | _ \<Rightarrow> Inl UnpackArityError))"

subsection \<open>Palette\<close>

fun palette_color_loop_v0 :: "buffer \<Rightarrow> nat \<Rightarrow> nat \<Rightarrow> (palette_color list \<times> nat) result" where
  "palette_color_loop_v0 bs 0 color_offset = Inr ([], color_offset)"
| "palette_color_loop_v0 bs (Suc k) color_offset =
     bindE (unpack_from color_format bs color_offset) (\<lambda>vs.
       case vs of
         [fl, r, b, g, a] \<Rightarrow>
           (let off1 = color_offset + calcsize color_format;
                c = \<lparr>col_flags = fl, col_red = r, col_green = g, col_blue = b, col_alpha = a,
                     col_name = None\<rparr>
            in bindE (if fl AND 1 \<noteq> 0
                      then bindE (parse_string_v0 bs off1) (\<lambda>(string_size, nm).
                             Inr (c\<lparr>col_name := Some nm\<rparr>, off1 + string_size))
                      else Inr (c, off1))
                 (\<lambda>(c', off2).
                   bindE (palette_color_loop_v0 bs k off2) (\<lambda>(cs, off3). Inr (c' # cs, off3))))
       | _ \<Rightarrow> Inl UnpackArityError)"

definition PaletteChunk_v0 :: "buffer \<Rightarrow> nat \<Rightarrow> palette result" where
  "PaletteChunk_v0 bs data_offset =
     bindE (Chunk_v0 bs data_offset) (\<lambda>h.
       bindE (unpack_from palette_format_v0 bs (data_offset + 6)) (\<lambda>vs.
         case vs of
           [ps, fi, li] \<Rightarrow>
             bindE (palette_color_loop_v0 bs (nat (li + 1 - fi))
                      (data_offset + 6 + calcsize palette_format_v0)) (\<lambda>(cs, _).
               Inr \<lparr>chunk_size = chunk_size h, chunk_type = chunk_type h, palette_size = ps,
                    first_color_index = fi, last_color_index = li, colors = cs\<rparr>)
         | _ \<Rightarrow> Inl UnpackArityError))"

definition swap_green_blue :: "palette_color \<Rightarrow> palette_color" where
  "swap_green_blue c = c\<lparr>col_green := col_blue c, col_blue := col_green c\<rparr>"

subsection \<open>User data\<close>

definition UserDataChunk_v0 :: "buffer \<Rightarrow> nat \<Rightarrow> user_data result" where
  "UserDataChunk_v0 bs data_offset =
     bindE (Chunk_v0 bs data_offset) (\<lambda>h.
       bindE (unpack_from [UInt 4] bs (data_offset + 6)) (\<lambda>vs.
         case vs of
           [fl] \<Rightarrow>
             (let userdata_offset = data_offset + 6 + 4
              in bindE (if fl AND 1 \<noteq> 0
                        then bindE (parse_string_v0 bs userdata_offset) (\<lambda>(string_size, s).
                               Inr (Some s, userdata_offset + string_size))
                        else Inr (None, userdata_offset))
                   (\<lambda>(str, off1).
                     bindE (if fl AND 2 \<noteq> 0
                            then bindE (unpack_from [UInt 1, UInt 1, UInt 1, UInt 1] bs off1)
                                   (\<lambda>ws. case ws of
                                           [r, g, b, a] \<Rightarrow> Inr (Some (r, g, b, a))
                                         | _ \<Rightarrow> Inl UnpackArityError)
                            else Inr None)
                       (\<lambda>rgba.
                         Inr \<lparr>chunk_size = chunk_size h, chunk_type = chunk_type h,
                              ud_flags = fl, ud_string = str, ud_rgba = rgba\<rparr>)))
         | _ \<Rightarrow> Inl UnpackArityError))"


subsection \<open>Lemmas\<close>

lemma header_format_v0_size [layout]: "calcsize header_format_v0 = header_size"
  by (simp add: header_format_v0_def calcsize_def header_size_def)

lemma palette_color_loop_v0_swap:
  "palette_color_loop_v0 bs k off =
     map_sum id (apfst (map swap_green_blue)) (palette_color_loop bs k off)"
proof (induction k arbitrary: off)
  case (Suc k)
  show ?case
    by (simp add: Suc.IH unpack_from_def color_format_def Let_def bindE_def
        swap_green_blue_def split: sum.split prod.split)
qed simp


lemma LayerChunk_v0_fields:
  "LayerChunk_v0 bs i off = Inr l \<Longrightarrow>
     layer_index (attrs l) = i \<and> 0 \<le> layer_child_level (attrs l)"
  by (auto simp add: LayerChunk_v0_def bindE_Inr_iff unpack_from_def layer_format_def
           split: if_split_asm)

text \<open>C20. The two versions of the file header accept and reject the same buffers, with the
  same errors, and agree on every field the legacy header has: the legacy decoder is the
  current one followed by forgetting the fields added since (speed, grid).\<close>

theorem Header_v0_equiv:
  "Header_v0 bs off = map_sum id header_v0_of (Header bs off)"
  by (simp add: Header_v0_def Header_def unpack_from_def header_format_v0_def header_format_def
      calcsize_def Let_def header_v0_of_def)

text \<open>C21. The legacy palette codec decodes the same colours as the current one except that
  it files the third colour byte under \<open>blue\<close> and the fourth under \<open>green\<close>:
  it is the current codec followed by swapping green and blue in every colour.\<close>

theorem PaletteChunk_v0_swap:
  "PaletteChunk_v0 bs off =
     map_sum id (\<lambda>p. p\<lparr>colors := map swap_green_blue (colors p)\<rparr>) (PaletteChunk bs off)"
proof (cases "Chunk bs off")
  case h: (Inr h)
  show ?thesis
  proof (cases "unpack_from palette_format bs (off + 6)")
    case vs: (Inr vs)
    then obtain ps fi li where v: "vs = [ps, fi, li]"
      using unpack_from_length [OF vs]
      by (auto simp add: palette_format_def numeral_eq_Suc length_Suc_conv)
    show ?thesis
      using h vs
      by (cases "palette_color_loop bs (nat (li + 1 - fi)) (off + 6 + calcsize palette_format)")
         (auto simp add: PaletteChunk_v0_def PaletteChunk_def palette_color_loop_v0_swap v)
  qed (use h in \<open>simp add: PaletteChunk_v0_def PaletteChunk_def\<close>)
qed (simp add: PaletteChunk_v0_def PaletteChunk_def)

text \<open>C22. In the legacy cel codec the pixels of a raw cel are the bytes from the end of
  the width/height pair (26 bytes after the chunk start) to the chunk end, as the format
  lays them out.\<close>

theorem CelChunk_v0_raw_data:
  assumes "CelChunk_v0 z bs off = Inr c" "cel_type c = 0"
  shows "\<exists>w hh. cel_data c = CelPixels w hh (py_slice bs (off + 26) (off + nat (chunk_size c)))"
  using assms
  by (auto simp add: CelChunk_v0_def Let_def bindE_Inr_iff unpack_from_def cel_format_def
           cel_type_format_def calcsize_def add.commute split: if_split_asm)

text \<open>C23. The legacy cel codec decodes a compressed cel (sub-type 2): it reads width and
  height right after the cel header and inflates the rest of the chunk.\<close>

theorem CelChunk_v0_compressed:
  assumes "Chunk bs off = Inr h" "unpack_from cel_format bs (off + 6) = Inr [li, x, y, op, 2]"
    and "unpack_from cel_type_format bs (off + 22) = Inr [w, hh]"
    and "decompress (py_slice bs (off + 26) (off + nat (chunk_size h))) = Some d"
  shows "CelChunk_v0 decompress bs off =
           Inr \<lparr>chunk_size = chunk_size h, chunk_type = chunk_type h, cel_layer_index = li,
                x_pos = x, y_pos = y, cel_opacity = op, cel_type = 2, cel_data = CelPixels w hh d\<rparr>"
  using assms
  by (simp add: CelChunk_v0_def cel_format_size cel_type_format_size py_inflate_def add.commute)

theorem CelChunk_v0_raw_data_witness:
  "\<exists>c. CelChunk_v0 (\<lambda>_. None)
      [44, 0, 0, 0, 5, 32, 0, 0, 0, 0, 0, 0, 0, 0, 0, 0, 0, 0, 0, 0, 0, 0, 2, 0, 1, 0,
      1, 2, 3, 4, 5, 6, 7, 8, 9, 10, 11, 12, 13, 14, 15, 16, 17, 18] 0 = Inr c
     \<and> cel_type c = 0
     \<and> cel_data c = CelPixels 2 1 [1, 2, 3, 4, 5, 6, 7, 8, 9, 10, 11, 12, 13, 14, 15, 16, 17, 18]"
proof -
  have "case CelChunk_v0 (\<lambda>_. None)
      [44, 0, 0, 0, 5, 32, 0, 0, 0, 0, 0, 0, 0, 0, 0, 0, 0, 0, 0, 0, 0, 0, 2, 0, 1, 0,
      1, 2, 3, 4, 5, 6, 7, 8, 9, 10, 11, 12, 13, 14, 15, 16, 17, 18] 0 of
      Inl _ \<Rightarrow> False
    | Inr c \<Rightarrow> cel_type c = 0 \<and> chunk_size c = 44 \<and> (\<exists>d. cel_data c = CelPixels 2 1 d)"
    by (simp add: CelChunk_v0_def Chunk_def unpack_from_def chunk_format_def cel_format_def
        cel_type_format_def calcsize_def to_signed_def)
  then obtain c d where run: "CelChunk_v0 (\<lambda>_. None)
      [44, 0, 0, 0, 5, 32, 0, 0, 0, 0, 0, 0, 0, 0, 0, 0, 0, 0, 0, 0, 0, 0, 2, 0, 1, 0,
      1, 2, 3, 4, 5, 6, 7, 8, 9, 10, 11, 12, 13, 14, 15, 16, 17, 18] 0 = Inr c"
    and t: "cel_type c = 0" and sz: "chunk_size c = 44" and d: "cel_data c = CelPixels 2 1 d"
    by (blast dest: case_sum_InrD)
  have "d = [1, 2, 3, 4, 5, 6, 7, 8, 9, 10, 11, 12, 13, 14, 15, 16, 17, 18]"
    using CelChunk_v0_raw_data [OF run t] sz d by (auto simp add: py_slice_def)
  then show ?thesis using run t d by blast
qed

theorem CelChunk_v0_compressed_witness:
  "CelChunk_v0 (\<lambda>_. Some [7, 7])
      [34, 0, 0, 0, 5, 32, 0, 0, 0, 0, 0, 0, 255, 2, 0, 0, 0, 0, 0, 0, 0, 0,
      2, 0, 1, 0, 120, 156, 1, 2, 3, 4, 5, 6] 0 =
     Inr \<lparr>chunk_size = 34, chunk_type = 0x2005, cel_layer_index = 0, x_pos = 0, y_pos = 0,
          cel_opacity = 255, cel_type = 2, cel_data = CelPixels 2 1 [7, 7]\<rparr>
   \<and> CelChunk (\<lambda>_. Some [7, 7])
      [34, 0, 0, 0, 5, 32, 0, 0, 0, 0, 0, 0, 255, 2, 0, 0, 0, 0, 0, 0, 0, 0,
      2, 0, 1, 0, 120, 156, 1, 2, 3, 4, 5, 6] 0 = Inl StructError"
proof -
  have h: "Chunk [34, 0, 0, 0, 5, 32, 0, 0, 0, 0, 0, 0, 255, 2, 0, 0, 0, 0, 0, 0, 0, 0,
      2, 0, 1, 0, 120, 156, 1, 2, 3, 4, 5, 6] 0 = Inr \<lparr>chunk_size = 34, chunk_type = 0x2005\<rparr>"
    by (simp add: Chunk_def unpack_from_def chunk_format_def calcsize_def)
  have vs: "unpack_from cel_format [34, 0, 0, 0, 5, 32, 0, 0, 0, 0, 0, 0, 255, 2, 0, 0, 0, 0, 0, 0, 0, 0,
      2, 0, 1, 0, 120, 156, 1, 2, 3, 4, 5, 6] (0 + 6) = Inr [0, 0, 0, 255, 2]"
    by (simp add: unpack_from_def cel_format_def calcsize_def to_signed_def)
  have ws: "unpack_from cel_type_format [34, 0, 0, 0, 5, 32, 0, 0, 0, 0, 0, 0, 255, 2, 0, 0, 0, 0, 0, 0, 0, 0,
      2, 0, 1, 0, 120, 156, 1, 2, 3, 4, 5, 6] (0 + 22) = Inr [2, 1]"
    by (simp add: unpack_from_def cel_type_format_def calcsize_def)
  have cur: "CelChunk (\<lambda>_. Some [7, 7]) [34, 0, 0, 0, 5, 32, 0, 0, 0, 0, 0, 0, 255, 2, 0, 0, 0, 0, 0, 0, 0, 0,
      2, 0, 1, 0, 120, 156, 1, 2, 3, 4, 5, 6] 0 = Inl StructError"
    by (simp add: CelChunk_def Chunk_def unpack_from_def chunk_format_def cel_format_def
        calcsize_def to_signed_def)
  show ?thesis
    using CelChunk_v0_compressed [OF h vs ws, of "\<lambda>_. Some [7, 7]" "[7, 7]"] cur by simp
qed

end
