(* ===== verification/Parse.thy ===== *)
theory Parse
  imports Chunks_Meta Headers
begin

text \<open>
  The cursor loop of \<open>AsepriteFile.parse_data\<close> (\<open>src/src/aseprite/__init__.py\<close>).
  The loop keeps one running offset, the running layer index \<open>cur_layer_index\<close> (the local \<open>layer_index\<close>) and what it has printed.
  For each of the header's \<open>num_frames\<close> frames it reads the 16-byte frame header,
  advances by the class constant \<open>Frame.frame_size\<close> (16, not the frame's declared
  size), and then, for each of the frame's \<open>num_chunks\<close> chunks, reads the preamble,
  dispatches on its type and advances by the preamble's declared \<open>chunk_size\<close>, whatever
  the codec read. \<open>dispatch_chunk\<close> is the body of the inner loop between these two
  steps; \<open>parse_chunks\<close> and \<open>parse_frames\<close> are the two \<open>for\<close> loops as
  recursions on the remaining count. A frame is the frame header extended by the chunk
  list that \<open>parse_data\<close> assigns to it.
\<close>

record frame = frame_header +
  chunks :: "chunk list"

definition frame_of :: "frame_header \<Rightarrow> chunk list \<Rightarrow> frame" where
  "frame_of fr cs =
     \<lparr>fsize = fsize fr, fmagic_number = fmagic_number fr, num_chunks = num_chunks fr,
      frame_duration = frame_duration fr, chunks = cs\<rparr>"

definition dispatch_chunk ::
  "inflate \<Rightarrow> buffer \<Rightarrow> nat \<Rightarrow> nat \<Rightarrow> int \<Rightarrow> (chunk list \<times> nat \<times> diag list) result" where
  "dispatch_chunk z bs data_offset cur_layer_index t =
     (case find_chunk_type t of
        None \<Rightarrow> Inr ([], cur_layer_index, [Skipped t])
      | Some k \<Rightarrow>
          if k = LayerChunk_cls then
            bindE (LayerChunk bs cur_layer_index data_offset) (\<lambda>layer.
              if layer_type (attrs layer) = 0 then Inr ([Layer layer], cur_layer_index, [])
              else if layer_type (attrs layer) = 1 then
                Inr ([LayerGroup (LayerGroupChunk layer)], cur_layer_index, [])
              else Inr ([], cur_layer_index + 1, [SkippedLayer (layer_type (attrs layer))]))
          else bindE (construct_chunk z k bs data_offset) (\<lambda>(c, msgs). Inr ([c], cur_layer_index, msgs)))"

fun parse_chunks ::
  "inflate \<Rightarrow> buffer \<Rightarrow> nat \<Rightarrow> nat \<Rightarrow> nat \<Rightarrow> diag list \<Rightarrow> chunk list
   \<Rightarrow> (nat \<times> nat \<times> diag list \<times> chunk list) result" where
  "parse_chunks z bs 0 data_offset cur_layer_index out cs = Inr (data_offset, cur_layer_index, out, cs)"
| "parse_chunks z bs (Suc n) data_offset cur_layer_index out cs =
     bindE (Chunk bs data_offset) (\<lambda>chunk.
       bindE (dispatch_chunk z bs data_offset cur_layer_index (chunk_type chunk)) (\<lambda>(new, li, msgs).
         parse_chunks z bs n (data_offset + nat (chunk_size chunk)) li
           (out @ ChunkVars (chunk_size chunk) (chunk_type chunk) # msgs) (cs @ new)))"

fun parse_frames ::
  "inflate \<Rightarrow> buffer \<Rightarrow> nat \<Rightarrow> nat \<Rightarrow> nat \<Rightarrow> diag list \<Rightarrow> frame list
   \<Rightarrow> (nat \<times> nat \<times> diag list \<times> frame list) result" where
  "parse_frames z bs 0 data_offset cur_layer_index out frames =
     Inr (data_offset, cur_layer_index, out, frames)"
| "parse_frames z bs (Suc i) data_offset cur_layer_index out frames =
     bindE (Frame bs data_offset) (\<lambda>fr.
       bindE (parse_chunks z bs (nat (num_chunks fr)) (data_offset + frame_size) cur_layer_index out [])
         (\<lambda>(off, li, out', cs). parse_frames z bs i off li out' (frames @ [frame_of fr cs])))"

definition parse_data :: "inflate \<Rightarrow> buffer \<Rightarrow> (header \<times> frame list \<times> diag list) result" where
  "parse_data z bs =
     bindE (Header bs 0) (\<lambda>head.
       bindE (parse_frames z bs (nat (num_frames head)) header_size 0 [] [])
         (\<lambda>(_, _, out, frames). Inr (head, frames, out)))"

text \<open>The messages that record a chunk as not decoded: an unknown type id, or a layer of a
  type the dispatcher drops.\<close>

fun is_skip :: "diag \<Rightarrow> bool" where
  "is_skip (Skipped t) = True"
| "is_skip (SkippedLayer t) = True"
| "is_skip _ = False"

definition no_skip :: "('a \<times> diag list) result \<Rightarrow> bool" where
  "no_skip r \<longleftrightarrow> (case r of Inl _ \<Rightarrow> True | Inr (c, msgs) \<Rightarrow> filter is_skip msgs = [])"

subsection \<open>The cursor, read from the preambles alone\<close>

text \<open>
  \<open>chunk_cursor\<close> and \<open>frame_cursor\<close> follow the declared sizes only, with no codec:
  the offsets the loop would reach if every codec were replaced by one that reads nothing.
\<close>

fun chunk_cursor :: "buffer \<Rightarrow> nat \<Rightarrow> nat \<Rightarrow> nat option" where
  "chunk_cursor bs 0 off = Some off"
| "chunk_cursor bs (Suc n) off =
     (case Chunk bs off of Inl _ \<Rightarrow> None | Inr ch \<Rightarrow> chunk_cursor bs n (off + nat (chunk_size ch)))"

fun frame_cursor :: "buffer \<Rightarrow> nat \<Rightarrow> nat \<Rightarrow> nat option" where
  "frame_cursor bs 0 off = Some off"
| "frame_cursor bs (Suc i) off =
     (case Frame bs off of
        Inl _ \<Rightarrow> None
      | Inr fr \<Rightarrow>
          (case chunk_cursor bs (nat (num_chunks fr)) (off + frame_size) of
             None \<Rightarrow> None
           | Some off' \<Rightarrow> frame_cursor bs i off'))"

fun frames_consistent :: "buffer \<Rightarrow> nat \<Rightarrow> nat \<Rightarrow> bool" where
  "frames_consistent bs 0 off = True"
| "frames_consistent bs (Suc i) off =
     (case Frame bs off of
        Inl _ \<Rightarrow> False
      | Inr fr \<Rightarrow> chunk_cursor bs (nat (num_chunks fr)) (off + frame_size) = Some (off + nat (fsize fr))
                 \<and> frames_consistent bs i (off + nat (fsize fr)))"

text \<open>\<open>frame_types\<close> walks the same preambles and lists, frame by frame, the type id of
  every chunk the frames declare: what a file holds, independently of any codec.\<close>

fun chunk_types :: "buffer \<Rightarrow> nat \<Rightarrow> nat \<Rightarrow> (int list \<times> nat) option" where
  "chunk_types bs 0 off = Some ([], off)"
| "chunk_types bs (Suc n) off =
     (case Chunk bs off of
        Inl _ \<Rightarrow> None
      | Inr ch \<Rightarrow> map_option (apfst (Cons (chunk_type ch)))
                   (chunk_types bs n (off + nat (chunk_size ch))))"

fun frame_types :: "buffer \<Rightarrow> nat \<Rightarrow> nat \<Rightarrow> int list list option" where
  "frame_types bs 0 off = Some []"
| "frame_types bs (Suc i) off =
     (case Frame bs off of
        Inl _ \<Rightarrow> None
      | Inr fr \<Rightarrow>
          (case chunk_types bs (nat (num_chunks fr)) (off + frame_size) of
             None \<Rightarrow> None
           | Some (ts, off') \<Rightarrow> map_option (Cons ts) (frame_types bs i off')))"

subsection \<open>The cursor and the loop\<close>

lemma parse_chunks_cursor:
  "parse_chunks z bs n off li out cs = Inr (off', li', out', cs') \<Longrightarrow>
     chunk_cursor bs n off = Some off'"
proof (induction n arbitrary: off li out cs)
  case 0
  then show ?case by simp
next
  case (Suc n)
  from Suc.prems obtain ch new li2 msgs where
    ch: "Chunk bs off = Inr ch"
    and d: "dispatch_chunk z bs off li (chunk_type ch) = Inr (new, li2, msgs)"
    and rest: "parse_chunks z bs n (off + nat (chunk_size ch)) li2
                 (out @ ChunkVars (chunk_size ch) (chunk_type ch) # msgs) (cs @ new)
               = Inr (off', li', out', cs')"
    by (auto simp add: bindE_Inr_iff)
  from rest have "chunk_cursor bs n (off + nat (chunk_size ch)) = Some off'" by (rule Suc.IH)
  with ch show ?case by simp
qed

lemma dispatch_unknown:
  "find_chunk_type t = None \<Longrightarrow> dispatch_chunk z bs off li t = Inr ([], li, [Skipped t])"
  by (simp add: dispatch_chunk_def)

text \<open>C2. A chunk whose type id is not in the table is skipped without error: the
  loop records its preamble and a \<open>Skipped\<close> message, appends no chunk, keeps the layer
  index and goes on at the offset advanced by the chunk's declared size.\<close>

theorem parse_chunks_unknown_type:
  assumes "Chunk bs off = Inr ch" and "find_chunk_type (chunk_type ch) = None"
  shows "parse_chunks z bs (Suc n) off li out cs =
           parse_chunks z bs n (off + nat (chunk_size ch)) li
             (out @ [ChunkVars (chunk_size ch) (chunk_type ch), Skipped (chunk_type ch)]) cs"
  using assms by (simp add: dispatch_unknown)

lemma find_chunk_type_9999: "find_chunk_type 0x9999 = None"
  by (simp add: find_chunk_type_def supported_chunks_def)

theorem parse_chunks_unknown_type_witness:
  "find_chunk_type 0x9999 = None \<and>
   parse_chunks (\<lambda>_. None) [6, 0, 0, 0, 0x99, 0x99] (Suc 0) 0 0 [] [] =
     Inr (6, 0, [ChunkVars 6 0x9999, Skipped 0x9999], [])"
proof -
  have ch: "Chunk [6, 0, 0, 0, 0x99, 0x99] 0 = Inr \<lparr>chunk_size = 6, chunk_type = 0x9999\<rparr>"
    by (simp add: Chunk_def unpack_from_def chunk_format_def calcsize_def)
  show ?thesis
    using parse_chunks_unknown_type [OF ch, where z = "\<lambda>_. None" and n = 0 and li = 0
        and out = "[]" and cs = "[]"] find_chunk_type_9999
    by simp
qed

lemma parse_frames_Suc_Inr:
  assumes "parse_frames z bs (Suc i) off li out fs = Inr r"
  obtains fr off1 li1 out1 cs where "Frame bs off = Inr fr"
    and "parse_chunks z bs (nat (num_chunks fr)) (off + frame_size) li out [] = Inr (off1, li1, out1, cs)"
    and "parse_frames z bs i off1 li1 out1 (fs @ [frame_of fr cs]) = Inr r"
  using assms by (auto simp add: bindE_Inr_iff)

text \<open>C1. The cursor loop advances by declared sizes only: whenever \<open>parse_frames\<close>
  succeeds, its final offset is the one reached by walking frame headers and chunk
  preambles alone, so no codec can move the cursor.\<close>

theorem parse_frames_cursor:
  "parse_frames z bs n off li out fs = Inr (off', li', out', fs') \<Longrightarrow>
     frame_cursor bs n off = Some off'"
proof (induction n arbitrary: off li out fs)
  case 0
  then show ?case by simp
next
  case (Suc n)
  from Suc.prems obtain fr off1 li1 out1 cs where fr: "Frame bs off = Inr fr"
    and ch: "parse_chunks z bs (nat (num_chunks fr)) (off + frame_size) li out [] = Inr (off1, li1, out1, cs)"
    and rest: "parse_frames z bs n off1 li1 out1 (fs @ [frame_of fr cs]) = Inr (off', li', out', fs')"
    by (rule parse_frames_Suc_Inr)
  from ch have "chunk_cursor bs (nat (num_chunks fr)) (off + frame_size) = Some off1"
    by (rule parse_chunks_cursor)
  with fr Suc.IH [OF rest] show ?case by simp
qed

lemma fsize_frame_of [simp]: "fsize (frame_of fr cs) = fsize fr"
  by (simp add: frame_of_def)

lemma parse_frames_prefix:
  "parse_frames z bs n off li out fs = Inr (off', li', out', fs') \<Longrightarrow>
     take (length fs) fs' = fs \<and> length fs' = length fs + n"
proof (induction n arbitrary: off li out fs)
  case 0
  then show ?case by simp
next
  case (Suc n)
  from Suc.prems obtain fr off1 li1 out1 cs where
    rest: "parse_frames z bs n off1 li1 out1 (fs @ [frame_of fr cs]) = Inr (off', li', out', fs')"
    by (rule parse_frames_Suc_Inr)
  from Suc.IH [OF rest] have t: "take (Suc (length fs)) fs' = fs @ [frame_of fr cs]"
    and l: "length fs' = Suc (length fs) + n" by simp_all
  have "take (length fs) fs' = take (length fs) (take (Suc (length fs)) fs')" by simp
  with t l show ?case by simp
qed

text \<open>C7. When every frame's declared size is 16 plus the declared sizes of its chunks,
  the bytes the frame loop consumes are exactly the sum of the declared sizes of the
  frames it decoded.\<close>

theorem parse_frames_consumed:
  "parse_frames z bs n off li out fs = Inr (off', li', out', fs') \<Longrightarrow>
   frames_consistent bs n off \<Longrightarrow>
     off' = off + sum_list (map (\<lambda>f. nat (fsize f)) (drop (length fs) fs'))"
proof (induction n arbitrary: off li out fs)
  case 0
  then show ?case by simp
next
  case (Suc n)
  from Suc.prems(1) obtain fr off1 li1 out1 cs where fr: "Frame bs off = Inr fr"
    and ch: "parse_chunks z bs (nat (num_chunks fr)) (off + frame_size) li out [] = Inr (off1, li1, out1, cs)"
    and rest: "parse_frames z bs n off1 li1 out1 (fs @ [frame_of fr cs]) = Inr (off', li', out', fs')"
    by (rule parse_frames_Suc_Inr)
  from ch have "chunk_cursor bs (nat (num_chunks fr)) (off + frame_size) = Some off1"
    by (rule parse_chunks_cursor)
  with fr Suc.prems(2) have off1: "off1 = off + nat (fsize fr)"
    and cons: "frames_consistent bs n off1" by simp_all
  from Suc.IH [OF rest cons] have
    "off' = off1 + sum_list (map (\<lambda>f. nat (fsize f)) (drop (Suc (length fs)) fs'))" by simp
  moreover have "take (Suc (length fs)) fs' = fs @ [frame_of fr cs]"
    using parse_frames_prefix [OF rest] by simp
  then have eq: "fs' = (fs @ [frame_of fr cs]) @ drop (Suc (length fs)) fs'"
    using append_take_drop_id [of "Suc (length fs)" fs'] by simp
  have "drop (length fs) fs' = frame_of fr cs # drop (Suc (length fs)) fs'"
    using arg_cong [OF eq, of "drop (length fs)"] by simp
  ultimately show ?case using off1 by simp
qed

lemma parse_frames_append:
  "parse_frames z bs (k + j) off li out fs =
     bindE (parse_frames z bs k off li out fs) (\<lambda>(off', li', out', fs'). parse_frames z bs j off' li' out' fs')"
proof (induction k arbitrary: off li out fs)
  case 0
  then show ?case by simp
next
  case (Suc k)
  show ?case
    by (simp add: Suc.IH bindE_def split: sum.splits prod.splits)
qed

text \<open>C6. A frame whose magic number is not 0xF1FA makes the whole decode fail with the
  magic-number error, whatever the frames before it: no partial document is returned.\<close>

theorem parse_data_bad_frame_magic:
  assumes "Header bs 0 = Inr h" and "k < nat (num_frames h)"
    and "parse_frames z bs k header_size 0 [] [] = Inr (off, li, out, fs)"
    and "off + frame_size \<le> length bs"
    and "int (le_uint (take 2 (drop (off + 4) bs))) \<noteq> 0xF1FA"
  shows "parse_data z bs = Inl (MagicError 0xF1FA (int (le_uint (take 2 (drop (off + 4) bs)))))"
proof -
  obtain j where j: "nat (num_frames h) = k + Suc j"
    using assms(2) by (metis add_Suc_right less_imp_Suc_add)
  have "Frame bs off = Inl (MagicError 0xF1FA (int (le_uint (take 2 (drop (off + 4) bs)))))"
    using assms(4,5) by (rule Frame_magic)
  then have fr: "parse_frames z bs (Suc j) off li out fs =
      Inl (MagicError 0xF1FA (int (le_uint (take 2 (drop (off + 4) bs)))))" by simp
  have "parse_frames z bs (nat (num_frames h)) header_size 0 [] [] =
        bindE (parse_frames z bs k header_size 0 [] [])
          (\<lambda>(off', li', out', fs'). parse_frames z bs (Suc j) off' li' out' fs')"
    by (simp only: j parse_frames_append)
  also have "\<dots> = Inl (MagicError 0xF1FA (int (le_uint (take 2 (drop (off + 4) bs)))))"
    using assms(3) fr by simp
  finally show ?thesis
    using assms(1) by (simp add: parse_data_def)
qed

text \<open>C5. A buffer of at least 128 bytes whose header magic is not 0xA5E0 is rejected
  with the magic-number error, whatever the rest of the buffer holds.\<close>

theorem parse_data_bad_header_magic:
  assumes "header_size \<le> length bs" and "int (le_uint (take 2 (drop 4 bs))) \<noteq> 0xA5E0"
  shows "parse_data z bs = Inl (MagicError 0xA5E0 (int (le_uint (take 2 (drop 4 bs)))))"
  using Header_magic [of 0 bs] assms by (simp add: parse_data_def)

theorem parse_data_bad_header_magic_witness:
  "parse_data (\<lambda>_. None) (replicate 128 0) = Inl (MagicError 0xA5E0 0)"
  using parse_data_bad_header_magic [of "replicate 128 0" "\<lambda>_. None"]
  by (simp add: header_size_def numeral_2_eq_2)

lemma example_run:
  "parse_frames (\<lambda>_. None)
     [22, 0, 0, 0, 0xFA, 0xF1, 1, 0, 100, 0, 0, 0, 0, 0, 0, 0, 6, 0, 0, 0, 0x99, 0x99] 1 0 0 [] [] =
   Inr (22, 0, [ChunkVars 6 0x9999, Skipped 0x9999],
        [frame_of \<lparr>fsize = 22, fmagic_number = 0xF1FA, num_chunks = 1, frame_duration = 100\<rparr> []])"
  by (simp add: Frame_def Chunk_def unpack_from_def frame_format_def chunk_format_def calcsize_def
      frame_size_def dispatch_chunk_def find_chunk_type_def supported_chunks_def)

lemma example_header:
  "Header ([0, 0, 0, 0, 0xE0, 0xA5, 1, 0] @ replicate 136 0) 0 =
   Inr \<lparr>filesize = 0, magic_number = 0xA5E0, num_frames = 1, width = 0, height = 0,
        color_depth = 0, flags = 0, speed_deprecated = 0, palette_mask = 0, num_colors = 0,
        pixel_width = 0, pixel_height = 0, grid_x_position = 0, grid_y_position = 0,
        grid_width = 0, grid_height = 0\<rparr>"
  by (simp add: Header_def unpack_from_def header_format_def calcsize_def 
      to_signed_def)

lemma parse_chunks_all:
  assumes "\<And>off li t new li' msgs. dispatch_chunk z bs off li t = Inr (new, li', msgs) \<Longrightarrow>
             \<forall>c \<in> set new. P c"
  shows "parse_chunks z bs n off li out cs = Inr (off', li', out', cs') \<Longrightarrow>
           \<forall>c \<in> set cs. P c \<Longrightarrow> \<forall>c \<in> set cs'. P c"
proof (induction n arbitrary: off li out cs)
  case (Suc n)
  then show ?case by (fastforce simp add: bindE_Inr_iff dest: assms)
qed simp

lemma parse_frames_all:
  assumes "\<And>off li t new li' msgs. dispatch_chunk z bs off li t = Inr (new, li', msgs) \<Longrightarrow>
             \<forall>c \<in> set new. P c"
  shows "parse_frames z bs i off li out fs = Inr (off', li', out', fs') \<Longrightarrow>
           \<forall>f \<in> set fs. \<forall>c \<in> set (chunks f). P c \<Longrightarrow>
           \<forall>f \<in> set fs'. \<forall>c \<in> set (chunks f). P c"
proof (induction i arbitrary: off li out fs)
  case (Suc i)
  from Suc.prems(1) obtain fr off1 li1 out1 cs where
    ch: "parse_chunks z bs (nat (num_chunks fr)) (off + frame_size) li out [] = Inr (off1, li1, out1, cs)"
    and rest: "parse_frames z bs i off1 li1 out1 (fs @ [frame_of fr cs]) = Inr (off', li', out', fs')"
    by (rule parse_frames_Suc_Inr)
  have "\<forall>c \<in> set cs. P c" using parse_chunks_all [OF assms ch] by simp
  with Suc.IH [OF rest] Suc.prems(2) show ?case by (simp add: frame_of_def)
qed simp

lemma parse_data_all:
  assumes "\<And>off li t new li' msgs. dispatch_chunk z bs off li t = Inr (new, li', msgs) \<Longrightarrow>
             \<forall>c \<in> set new. P c"
    and "parse_data z bs = Inr (h, frames, out)"
  shows "\<forall>f \<in> set frames. \<forall>c \<in> set (chunks f). P c"
proof -
  obtain off' li' where
    "parse_frames z bs (nat (num_frames h)) header_size 0 [] [] = Inr (off', li', out, frames)"
    using assms(2) by (auto simp add: parse_data_def bindE_Inr_iff)
  from parse_frames_all [OF assms(1) this] show ?thesis by simp
qed

theorem parse_frames_cursor_witness:
  "frame_cursor [22, 0, 0, 0, 0xFA, 0xF1, 1, 0, 100, 0, 0, 0, 0, 0, 0, 0, 6, 0, 0, 0, 0x99, 0x99]
     1 0 = Some 22"
  using parse_frames_cursor [OF example_run] .

theorem parse_frames_consumed_witness:
  "frames_consistent [22, 0, 0, 0, 0xFA, 0xF1, 1, 0, 100, 0, 0, 0, 0, 0, 0, 0, 6, 0, 0, 0, 0x99, 0x99]
     1 0 \<and>
   (22::nat) = 0 + sum_list (map (\<lambda>f. nat (fsize f))
     [frame_of \<lparr>fsize = 22, fmagic_number = 0xF1FA, num_chunks = 1, frame_duration = 100\<rparr> []])"
proof -
  have c: "frames_consistent
      [22, 0, 0, 0, 0xFA, 0xF1, 1, 0, 100, 0, 0, 0, 0, 0, 0, 0, 6, 0, 0, 0, 0x99, 0x99] 1 0"
    by (simp add: Frame_def Chunk_def unpack_from_def frame_format_def chunk_format_def
        calcsize_def frame_size_def)
  show ?thesis using parse_frames_consumed [OF example_run c] c by simp
qed

theorem parse_data_bad_frame_magic_witness:
  "parse_data (\<lambda>_. None) ([0, 0, 0, 0, 0xE0, 0xA5, 1, 0] @ replicate 136 0) =
     Inl (MagicError 0xF1FA 0)"
proof -
  have run: "parse_frames (\<lambda>_. None) ([0, 0, 0, 0, 0xE0, 0xA5, 1, 0] @ replicate 136 0) 0
               header_size 0 [] [] = Inr (128, 0, [], [])"
    by (simp add: header_size_def)
  show ?thesis
    using parse_data_bad_frame_magic [OF example_header _ run]
    by (simp add: frame_size_def numeral_2_eq_2)
qed

subsection \<open>Every chunk is decoded or recorded\<close>

lemma no_skip_Inl [simp]: "no_skip (Inl e)"
  by (simp add: no_skip_def)

lemma no_skip_Inr [simp]: "no_skip (Inr (c, msgs)) \<longleftrightarrow> filter is_skip msgs = []"
  by (simp add: no_skip_def)

lemma no_skip_bindE [intro!]: "(\<And>x. m = Inr x \<Longrightarrow> no_skip (f x)) \<Longrightarrow> no_skip (bindE m f)"
  by (cases m) (simp_all add: no_skip_def)

lemma no_skip_CelChunk: "no_skip (CelChunk z bs off)"
  by (auto simp add: CelChunk_def Let_def split: list.split)

lemma no_skip_UserDataChunk: "no_skip (UserDataChunk bs off)"
  by (auto simp add: UserDataChunk_def Let_def split: list.split)

lemma no_skip_construct_chunk: "no_skip (construct_chunk z k bs off)"
  using no_skip_CelChunk [of z bs off] no_skip_UserDataChunk [of bs off]
  by (cases k) (auto simp add: no_skip_def bindE_def split: sum.splits)

lemma construct_chunk_no_skip:
  "construct_chunk z k bs off = Inr (c, msgs) \<Longrightarrow> filter is_skip msgs = []"
  using no_skip_construct_chunk [of z k bs off] by simp

lemma parse_chunks_numeral:
  "parse_chunks z bs (numeral k) off li out cs =
     bindE (Chunk bs off) (\<lambda>chunk.
       bindE (dispatch_chunk z bs off li (chunk_type chunk)) (\<lambda>(new, li, msgs).
         parse_chunks z bs (pred_numeral k) (off + nat (chunk_size chunk)) li
           (out @ ChunkVars (chunk_size chunk) (chunk_type chunk) # msgs) (cs @ new)))"
  by (simp add: numeral_eq_Suc)

lemma dispatch_chunk_accounting:
  "dispatch_chunk z bs off li t = Inr (new, li', msgs) \<Longrightarrow>
     length new + length (filter is_skip msgs) = 1"
  by (auto simp add: dispatch_chunk_def bindE_Inr_iff split: option.splits if_splits
      dest: construct_chunk_no_skip)

lemma parse_chunks_accounting:
  "parse_chunks z bs n off li out cs = Inr (off', li', out', cs') \<Longrightarrow>
     length cs' + length (filter is_skip out') = length cs + length (filter is_skip out) + n"
proof (induction n arbitrary: off li out cs)
  case (Suc n)
  then show ?case
    by (auto simp add: bindE_Inr_iff dest!: dispatch_chunk_accounting Suc.IH)
qed simp

lemma parse_frames_accounting:
  "parse_frames z bs i off li out fs = Inr (off', li', out', fs') \<Longrightarrow>
     \<forall>f \<in> set fs. fmagic_number f = 0xF1FA \<Longrightarrow>
     length fs' = length fs + i \<and> (\<forall>f \<in> set fs'. fmagic_number f = 0xF1FA)
     \<and> length (concat (map chunks fs')) + length (filter is_skip out')
         + (\<Sum>f \<leftarrow> fs. nat (num_chunks f))
       = length (concat (map chunks fs)) + length (filter is_skip out)
         + (\<Sum>f \<leftarrow> fs'. nat (num_chunks f))"
proof (induction i arbitrary: off li out fs)
  case (Suc i)
  from Suc.prems(1) obtain fr off1 li1 out1 cs where fr: "Frame bs off = Inr fr"
    and ch: "parse_chunks z bs (nat (num_chunks fr)) (off + frame_size) li out [] = Inr (off1, li1, out1, cs)"
    and rest: "parse_frames z bs i off1 li1 out1 (fs @ [frame_of fr cs]) = Inr (off', li', out', fs')"
    by (rule parse_frames_Suc_Inr)
  have m: "\<forall>f \<in> set (fs @ [frame_of fr cs]). fmagic_number f = 0xF1FA"
    using Suc.prems(2) Frame_Inr [OF fr] by (simp add: frame_of_def)
  have "length cs + length (filter is_skip out1) = length (filter is_skip out) + nat (num_chunks fr)"
    using parse_chunks_accounting [OF ch] by simp
  with Suc.IH [OF rest m] show ?case by (simp add: frame_of_def)
qed simp

text \<open>C27. Frame and chunk accounting: whenever \<open>parse_data\<close> succeeds it returns exactly
  as many frames as the header counts, each with the frame magic, and every chunk the
  frames declare is either in its frame's chunk list or recorded by a skip message (an
  unknown type, or a dropped layer type); none is lost silently.\<close>

theorem parse_data_accounting:
  assumes "parse_data z bs = Inr (h, frames, out)"
  shows "length frames = nat (num_frames h) \<and> (\<forall>f \<in> set frames. fmagic_number f = 0xF1FA)
     \<and> length (concat (map chunks frames)) + length (filter is_skip out)
       = (\<Sum>f \<leftarrow> frames. nat (num_chunks f))"
proof -
  obtain off' li' where
    "parse_frames z bs (nat (num_frames h)) header_size 0 [] [] = Inr (off', li', out, frames)"
    using assms by (auto simp add: parse_data_def bindE_Inr_iff)
  from parse_frames_accounting [OF this] show ?thesis by simp
qed

theorem parse_data_accounting_witness:
  "parse_data (\<lambda>_. None) ([0, 0, 0, 0, 0xE0, 0xA5, 1, 0] @ replicate 120 0 @ [28, 0, 0, 0, 0xFA, 0xF1, 2, 0, 100, 0, 0, 0,
       0, 0, 0, 0, 6, 0, 0, 0, 0x17, 0x20, 6, 0, 0, 0, 0x99, 0x99]) = Inr (\<lparr>filesize = 0, magic_number = 0xA5E0, num_frames = 1, width = 0, height = 0,
        color_depth = 0, flags = 0, speed_deprecated = 0, palette_mask = 0, num_colors = 0,
        pixel_width = 0, pixel_height = 0, grid_x_position = 0, grid_y_position = 0,
        grid_width = 0, grid_height = 0\<rparr>, [frame_of \<lparr>fsize = 28, fmagic_number = 0xF1FA, num_chunks = 2, frame_duration = 100\<rparr>
          [Path \<lparr>chunk_size = 6, chunk_type = 0x2017\<rparr>]], [ChunkVars 6 0x2017, ChunkVars 6 0x9999, Skipped 0x9999])
   \<and> length [frame_of \<lparr>fsize = 28, fmagic_number = 0xF1FA, num_chunks = 2, frame_duration = 100\<rparr>
          [Path \<lparr>chunk_size = 6, chunk_type = 0x2017\<rparr>]] = nat (num_frames \<lparr>filesize = 0, magic_number = 0xA5E0, num_frames = 1, width = 0, height = 0,
        color_depth = 0, flags = 0, speed_deprecated = 0, palette_mask = 0, num_colors = 0,
        pixel_width = 0, pixel_height = 0, grid_x_position = 0, grid_y_position = 0,
        grid_width = 0, grid_height = 0\<rparr>)
   \<and> length (concat (map chunks [frame_of \<lparr>fsize = 28, fmagic_number = 0xF1FA, num_chunks = 2, frame_duration = 100\<rparr>
          [Path \<lparr>chunk_size = 6, chunk_type = 0x2017\<rparr>]])) + length (filter is_skip [ChunkVars 6 0x2017, ChunkVars 6 0x9999, Skipped 0x9999])
       = (\<Sum>f \<leftarrow> [frame_of \<lparr>fsize = 28, fmagic_number = 0xF1FA, num_chunks = 2, frame_duration = 100\<rparr>
          [Path \<lparr>chunk_size = 6, chunk_type = 0x2017\<rparr>]]. nat (num_chunks f))"
proof -
  have run: "parse_data (\<lambda>_. None) ([0, 0, 0, 0, 0xE0, 0xA5, 1, 0] @ replicate 120 0 @ [28, 0, 0, 0, 0xFA, 0xF1, 2, 0, 100, 0, 0, 0,
       0, 0, 0, 0, 6, 0, 0, 0, 0x17, 0x20, 6, 0, 0, 0, 0x99, 0x99]) = Inr (\<lparr>filesize = 0, magic_number = 0xA5E0, num_frames = 1, width = 0, height = 0,
        color_depth = 0, flags = 0, speed_deprecated = 0, palette_mask = 0, num_colors = 0,
        pixel_width = 0, pixel_height = 0, grid_x_position = 0, grid_y_position = 0,
        grid_width = 0, grid_height = 0\<rparr>, [frame_of \<lparr>fsize = 28, fmagic_number = 0xF1FA, num_chunks = 2, frame_duration = 100\<rparr>
          [Path \<lparr>chunk_size = 6, chunk_type = 0x2017\<rparr>]], [ChunkVars 6 0x2017, ChunkVars 6 0x9999, Skipped 0x9999])"
    by (simp add: parse_data_def Header_def Frame_def Chunk_def unpack_from_def
        header_format_def frame_format_def chunk_format_def calcsize_def to_signed_def
        header_size_def frame_size_def dispatch_chunk_def find_chunk_type_def
        supported_chunks_def PathChunk_def parse_chunks_numeral)
  show ?thesis using parse_data_accounting [OF run] run by blast
qed

end
