(* ===== verification/Layer_Tree.thy ===== *)
theory Layer_Tree
  imports Parse "HOL-Library.Multiset"
begin

text \<open>
  \<open>AsepriteFile.build_layer_tree\<close> (\<open>src/src/aseprite/__init__.py\<close>). The Python
  objects are the layer and layer-group chunks of the first frame; the builder appends
  them to \<open>children\<close> lists of group objects that are reachable at the same time from
  \<open>stack\<close> and from \<open>layer_tree\<close>. The model keeps that aliasing explicit: a layer
  object is named by its position in \<open>self.layers\<close>, the heap holds each group's
  \<open>children\<close> list (a map from positions to position lists), and \<open>stack\<close> and
  \<open>layer_tree\<close> are lists of positions. \<open>pop_while\<close> is the inner \<open>while\<close> loop
  (\<open>list.pop()\<close> on an empty list raises \<open>IndexError\<close>), \<open>tree_step\<close> one iteration
  of the \<open>for\<close> loop, \<open>tree_loop\<close> the loop.

  The specification is the usual reading of a depth-tagged list: the parent of layer
  \<open>i\<close> is the nearest preceding layer of smaller depth (\<open>layer_parent\<close>), and a
  depth list is well formed (\<open>levels_wf\<close>) when each depth is at most the number of
  groups open before it. On well-formed input the builder succeeds and every group's
  \<open>children\<close> list, and the root list, are exactly the layers whose parent it is, in
  file order; the invariant \<open>open_groups\<close> says that the \<open>t\<close>-th stack entry is the
  latest layer of depth at most \<open>t\<close>. On any input with nonnegative depths, well formed
  or not, the invariant \<open>tree_inv\<close> holds after each step: the stack holds earlier
  groups, only groups have children, and the roots and all \<open>children\<close> lists together
  hold each processed position exactly once (as multisets).
\<close>

fun is_layer :: "chunk \<Rightarrow> bool" where
  "is_layer (Layer l) = True"
| "is_layer (LayerGroup a) = True"
| "is_layer _ = False"

fun is_group :: "chunk \<Rightarrow> bool" where
  "is_group (LayerGroup a) = True"
| "is_group _ = False"

fun child_level :: "chunk \<Rightarrow> int" where
  "child_level (Layer l) = layer_child_level (attrs l)"
| "child_level (LayerGroup a) = layer_child_level a"
| "child_level _ = 0"

record tree_state =
  stack :: "nat list"
  children :: "nat \<Rightarrow> nat list"
  layer_tree :: "nat list"

definition tree_init :: tree_state where
  "tree_init = \<lparr>stack = [], children = (\<lambda>_. []), layer_tree = []\<rparr>"

function pop_while :: "int \<Rightarrow> nat list \<Rightarrow> nat list result" where
  "pop_while lvl stk =
     (if lvl < int (length stk) then
        (if stk = [] then Inl IndexError else pop_while lvl (butlast stk))
      else Inr stk)"
  by pat_completeness auto
termination
  by (relation "measure (\<lambda>(lvl, stk). length stk)") auto

declare pop_while.simps [simp del]

definition tree_step :: "tree_state \<Rightarrow> nat \<times> chunk \<Rightarrow> tree_state result" where
  "tree_step st pl =
     (let (p, layer) = pl
      in bindE (pop_while (child_level layer) (stack st)) (\<lambda>stk.
           (let st1 = (if length stk > 0
                       then st\<lparr>stack := stk,
                               children := (children st)(last stk := children st (last stk) @ [p])\<rparr>
                       else st\<lparr>stack := stk, layer_tree := layer_tree st @ [p]\<rparr>)
            in Inr (if is_group layer then st1\<lparr>stack := stack st1 @ [p]\<rparr> else st1))))"

fun tree_loop :: "tree_state \<Rightarrow> (nat \<times> chunk) list \<Rightarrow> tree_state result" where
  "tree_loop st [] = Inr st"
| "tree_loop st (pl # pls) = bindE (tree_step st pl) (\<lambda>st'. tree_loop st' pls)"

definition build_layer_tree :: "frame list \<Rightarrow> (chunk list \<times> tree_state) result" where
  "build_layer_tree frames =
     (case frames of
        [] \<Rightarrow> Inl IndexError
      | f # _ \<Rightarrow>
          (let layers = filter is_layer (chunks f)
           in bindE (tree_loop tree_init (enumerate 0 layers)) (\<lambda>st. Inr (layers, st))))"

fun latest :: "(nat \<Rightarrow> bool) \<Rightarrow> nat \<Rightarrow> nat option" where
  "latest P 0 = None"
| "latest P (Suc k) = (if P k then Some k else latest P k)"

definition layer_parent :: "chunk list \<Rightarrow> nat \<Rightarrow> nat option" where
  "layer_parent ls i = latest (\<lambda>j. child_level (ls ! j) < child_level (ls ! i)) i"

fun levels_wf :: "nat \<Rightarrow> chunk list \<Rightarrow> bool" where
  "levels_wf d [] = True"
| "levels_wf d (l # ls) =
     (0 \<le> child_level l \<and> child_level l \<le> int d
      \<and> levels_wf (nat (child_level l) + (if is_group l then 1 else 0)) ls)"

definition open_groups :: "chunk list \<Rightarrow> nat \<Rightarrow> nat list \<Rightarrow> bool" where
  "open_groups ls k stk =
     (\<forall>t < length stk. latest (\<lambda>j. child_level (ls ! j) \<le> int t) k = Some (stk ! t))"

definition forest_upto :: "chunk list \<Rightarrow> nat \<Rightarrow> tree_state \<Rightarrow> bool" where
  "forest_upto ls k st =
     ((\<forall>q. children st q = filter (\<lambda>i. layer_parent ls i = Some q) [0..<k])
      \<and> layer_tree st = filter (\<lambda>i. layer_parent ls i = None) [0..<k])"

definition tree_inv :: "chunk list \<Rightarrow> nat \<Rightarrow> tree_state \<Rightarrow> bool" where
  "tree_inv ls k st =
     ((\<forall>q \<in> set (stack st). q < k \<and> is_group (ls ! q))
      \<and> (\<forall>q. k \<le> q \<or> \<not> is_group (ls ! q) \<longrightarrow> children st q = [])
      \<and> mset (layer_tree st) + (\<Sum>q<k. mset (children st q)) = mset [0..<k])"

lemma latest_None: "(\<And>j. j < k \<Longrightarrow> \<not> P j) \<Longrightarrow> latest P k = None"
  by (induction k) auto

lemma latest_cong: "(\<And>j. j < k \<Longrightarrow> P j = Q j) \<Longrightarrow> latest P k = latest Q k"
  by (induction k) auto

lemma pop_while_take:
  "0 \<le> lvl \<Longrightarrow> pop_while lvl stk = Inr (take (nat lvl) stk)"
proof (induction lvl stk rule: pop_while.induct)
  case (1 lvl stk)
  show ?case
  proof (cases "lvl < int (length stk)")
    case True
    with "1.prems" have "stk \<noteq> []" by auto
    with True have "pop_while lvl stk = pop_while lvl (butlast stk)"
      by (simp add: pop_while.simps)
    also have "\<dots> = Inr (take (nat lvl) (butlast stk))"
      using "1.IH" True \<open>stk \<noteq> []\<close> "1.prems" by simp
    also have "take (nat lvl) (butlast stk) = take (nat lvl) stk"
      using True "1.prems" by (simp add: take_butlast)
    finally show ?thesis .
  next
    case False
    then show ?thesis by (simp add: pop_while.simps)
  qed
qed

lemma pop_while_negative: "lvl < 0 \<Longrightarrow> pop_while lvl stk = Inl IndexError"
  by (induction lvl stk rule: pop_while.induct) (simp add: pop_while.simps)

text \<open>C30. The stack-popping \<open>while\<close> loop always terminates: it truncates the stack to
  the layer's depth, and raises \<open>IndexError\<close> (popping an empty list) exactly when the
  depth is negative, which no decoded layer has.\<close>

theorem pop_while_total:
  "pop_while lvl stk = (if lvl < 0 then Inl IndexError else Inr (take (nat lvl) stk))"
  by (simp add: pop_while_take pop_while_negative)

lemma layer_parent_stack:
  assumes "open_groups ls k stk" "\<forall>j<k. 0 \<le> child_level (ls ! j)"
    and "child_level (ls ! k) = int d" "d \<le> length stk"
  shows "layer_parent ls k = (if d = 0 then None else Some (stk ! (d - 1)))"
proof (cases "d = 0")
  case True
  then show ?thesis
    using assms(2,3) unfolding layer_parent_def by (auto intro!: latest_None)
next
  case False
  have "layer_parent ls k = latest (\<lambda>j. child_level (ls ! j) \<le> int (d - 1)) k"
    unfolding layer_parent_def using assms(3) False by (intro latest_cong) auto
  also have "\<dots> = Some (stk ! (d - 1))"
  proof -
    have "d - 1 < length stk" using assms(4) False by simp
    then show ?thesis using assms(1) unfolding open_groups_def by blast
  qed
  finally show ?thesis using False by simp
qed

lemma open_groups_step:
  assumes "open_groups ls k stk" "child_level (ls ! k) = int d" "d \<le> length stk"
  shows "open_groups ls (Suc k) (take d stk @ (if is_group (ls ! k) then [k] else []))"
  unfolding open_groups_def
proof (intro allI impI)
  fix t
  assume t: "t < length (take d stk @ (if is_group (ls ! k) then [k] else []))"
  show "latest (\<lambda>j. child_level (ls ! j) \<le> int t) (Suc k)
        = Some ((take d stk @ (if is_group (ls ! k) then [k] else [])) ! t)"
  proof (cases "t < d")
    case True
    then have "latest (\<lambda>j. child_level (ls ! j) \<le> int t) (Suc k)
               = latest (\<lambda>j. child_level (ls ! j) \<le> int t) k"
      using assms(2) by simp
    also have "\<dots> = Some (stk ! t)"
      using assms(1,3) True unfolding open_groups_def by simp
    finally show ?thesis using True assms(3) by (simp add: nth_append)
  next
    case False
    with t assms(3) have "t = d" "is_group (ls ! k)"
      by (auto split: if_splits)
    then show ?thesis using assms(2,3) by (simp add: nth_append)
  qed
qed

lemma forest_upto_Suc:
  "forest_upto ls (Suc k) st =
     ((\<forall>q. children st q = filter (\<lambda>i. layer_parent ls i = Some q) [0..<k]
                          @ (if layer_parent ls k = Some q then [k] else []))
      \<and> layer_tree st = filter (\<lambda>i. layer_parent ls i = None) [0..<k]
                        @ (if layer_parent ls k = None then [k] else []))"
  by (simp add: forest_upto_def)

lemma tree_step_forest:
  assumes "open_groups ls k (stack st)" "forest_upto ls k st"
    and "\<forall>j<k. 0 \<le> child_level (ls ! j)"
    and "child_level (ls ! k) = int d" "d \<le> length (stack st)"
  shows "\<exists>st'. tree_step st (k, ls ! k) = Inr st'
            \<and> stack st' = take d (stack st) @ (if is_group (ls ! k) then [k] else [])
            \<and> forest_upto ls (Suc k) st'"
proof -
  have par: "layer_parent ls k = (if d = 0 then None else Some (stack st ! (d - 1)))"
    using layer_parent_stack [OF assms(1,3,4,5)] .
  have pop: "pop_while (child_level (ls ! k)) (stack st) = Inr (take d (stack st))"
    using assms(4) by (simp add: pop_while_take)
  show ?thesis
  proof (cases "d = 0")
    case True
    then show ?thesis
      using assms(2) par pop by (simp add: tree_step_def forest_upto_Suc forest_upto_def)
  next
    case False
    then have "take d (stack st) \<noteq> []" "length (take d (stack st)) = d"
      using assms(5) by auto
    then have "last (take d (stack st)) = stack st ! (d - 1)"
      by (simp add: last_conv_nth)
    then show ?thesis
      using False assms(2,5) par pop
      by (auto simp add: tree_step_def forest_upto_Suc forest_upto_def)
  qed
qed

lemma tree_loop_forest:
  assumes "levels_wf (length (stack st)) (drop k ls)" "open_groups ls k (stack st)"
    and "forest_upto ls k st" "\<forall>j<k. 0 \<le> child_level (ls ! j)" "k \<le> length ls"
  shows "\<exists>st'. tree_loop st (enumerate k (drop k ls)) = Inr st' \<and> forest_upto ls (length ls) st'"
  using assms
proof (induction "length ls - k" arbitrary: k st)
  case 0
  then show ?case by simp
next
  case (Suc n)
  then have k: "k < length ls" by simp
  then have dk: "drop k ls = ls ! k # drop (Suc k) ls" by (simp add: Cons_nth_drop_Suc)
  define d where "d = nat (child_level (ls ! k))"
  from Suc.prems(1) dk have lv: "0 \<le> child_level (ls ! k)"
      "child_level (ls ! k) \<le> int (length (stack st))"
    and wf': "levels_wf (d + (if is_group (ls ! k) then 1 else 0)) (drop (Suc k) ls)"
    by (simp_all add: d_def)
  have cl: "child_level (ls ! k) = int d" using lv(1) d_def by simp
  have dle: "d \<le> length (stack st)" using lv(2) cl by simp
  obtain st' where step: "tree_step st (k, ls ! k) = Inr st'"
    and stk': "stack st' = take d (stack st) @ (if is_group (ls ! k) then [k] else [])"
    and fo: "forest_upto ls (Suc k) st'"
    using tree_step_forest [OF Suc.prems(2,3,4) cl dle] by blast
  have "open_groups ls (Suc k) (stack st')"
    using open_groups_step [OF Suc.prems(2) cl dle] stk' by simp
  moreover have "levels_wf (length (stack st')) (drop (Suc k) ls)"
    using wf' stk' dle by (cases "is_group (ls ! k)") simp_all
  moreover have "\<forall>j<Suc k. 0 \<le> child_level (ls ! j)"
    using Suc.prems(4) lv(1) by (auto simp add: less_Suc_eq)
  moreover have "n = length ls - Suc k" using Suc.hyps(2) by simp
  ultimately obtain st'' where
    "tree_loop st' (enumerate (Suc k) (drop (Suc k) ls)) = Inr st''"
    "forest_upto ls (length ls) st''"
    using Suc.hyps(1) [of "Suc k" st'] fo k by auto
  then show ?case using step dk by simp
qed

lemma tree_loop_init_forest:
  "levels_wf 0 ls \<Longrightarrow>
     \<exists>st. tree_loop tree_init (enumerate 0 ls) = Inr st \<and> forest_upto ls (length ls) st"
  using tree_loop_forest [where st = tree_init and ls = ls and k = 0]
  by (simp add: tree_init_def open_groups_def forest_upto_def)

text \<open>C8. On a layer list of the first frame whose depths never exceed the number of
  groups open before them, \<open>build_layer_tree\<close> succeeds, keeps the layers in file order,
  and builds the forest of the depth encoding: the children of each group, and the roots,
  are exactly the layers whose nearest preceding layer of smaller depth is that group (or
  none), in file order.\<close>

theorem build_layer_tree_forest:
  assumes "ls = filter is_layer (chunks f)" "levels_wf 0 ls"
  shows "\<exists>st. build_layer_tree (f # fs) = Inr (ls, st)
           \<and> (\<forall>q. children st q = filter (\<lambda>i. layer_parent ls i = Some q) [0..<length ls])
           \<and> layer_tree st = filter (\<lambda>i. layer_parent ls i = None) [0..<length ls]"
proof -
  have "\<exists>st. tree_loop tree_init (enumerate 0 ls) = Inr st \<and> forest_upto ls (length ls) st"
    using assms(2) by (rule tree_loop_init_forest)
  then show ?thesis
    using assms(1) by (auto simp add: build_layer_tree_def forest_upto_def)
qed

theorem build_layer_tree_forest_witness:
  "\<exists>ls st. build_layer_tree
     [frame_of \<lparr>fsize = 166, fmagic_number = 0xF1FA, num_chunks = 5, frame_duration = 100\<rparr>
      [LayerGroup \<lparr>lflags = 0, layer_type = 1, layer_child_level = 0, default_width = 0,
         default_height = 0, blend_mode = 0, lopacity = 255, lname = [], layer_index = 0\<rparr>,
       Layer \<lparr>chunk_size = 30, chunk_type = 0x2004,
         attrs = \<lparr>lflags = 0, layer_type = 0, layer_child_level = 1, default_width = 0,
         default_height = 0, blend_mode = 0, lopacity = 255, lname = [], layer_index = 0\<rparr>,
         tileset_index = None\<rparr>,
       LayerGroup \<lparr>lflags = 0, layer_type = 1, layer_child_level = 1, default_width = 0,
         default_height = 0, blend_mode = 0, lopacity = 255, lname = [], layer_index = 0\<rparr>,
       LayerGroup \<lparr>lflags = 0, layer_type = 1, layer_child_level = 0, default_width = 0,
         default_height = 0, blend_mode = 0, lopacity = 255, lname = [], layer_index = 0\<rparr>,
       Layer \<lparr>chunk_size = 30, chunk_type = 0x2004,
         attrs = \<lparr>lflags = 0, layer_type = 0, layer_child_level = 1, default_width = 0,
         default_height = 0, blend_mode = 0, lopacity = 255, lname = [], layer_index = 0\<rparr>,
         tileset_index = None\<rparr>]]
     = Inr (ls, st)
     \<and> children st 0 = [1, 2] \<and> children st 2 = [] \<and> children st 3 = [4]
     \<and> layer_tree st = [0, 3]"
proof -
  define L where "L =
      [LayerGroup \<lparr>lflags = 0, layer_type = 1, layer_child_level = 0, default_width = 0,
        default_height = 0, blend_mode = 0, lopacity = 255, lname = [], layer_index = 0\<rparr>,
      Layer \<lparr>chunk_size = 30, chunk_type = 0x2004,
        attrs = \<lparr>lflags = 0, layer_type = 0, layer_child_level = 1, default_width = 0,
        default_height = 0, blend_mode = 0, lopacity = 255, lname = [], layer_index = 0\<rparr>,
        tileset_index = None\<rparr>,
      LayerGroup \<lparr>lflags = 0, layer_type = 1, layer_child_level = 1, default_width = 0,
        default_height = 0, blend_mode = 0, lopacity = 255, lname = [], layer_index = 0\<rparr>,
      LayerGroup \<lparr>lflags = 0, layer_type = 1, layer_child_level = 0, default_width = 0,
        default_height = 0, blend_mode = 0, lopacity = 255, lname = [], layer_index = 0\<rparr>,
      Layer \<lparr>chunk_size = 30, chunk_type = 0x2004,
        attrs = \<lparr>lflags = 0, layer_type = 0, layer_child_level = 1, default_width = 0,
        default_height = 0, blend_mode = 0, lopacity = 255, lname = [], layer_index = 0\<rparr>,
        tileset_index = None\<rparr>]"
  have wf: "levels_wf 0 L" by (simp add: L_def)
  obtain st where st: "build_layer_tree
      [frame_of \<lparr>fsize = 166, fmagic_number = 0xF1FA, num_chunks = 5, frame_duration = 100\<rparr> L]
      = Inr (L, st)"
    and ch: "\<forall>q. children st q = filter (\<lambda>i. layer_parent L i = Some q) [0..<length L]"
    and rt: "layer_tree st = filter (\<lambda>i. layer_parent L i = None) [0..<length L]"
    using build_layer_tree_forest [of L "frame_of \<lparr>fsize = 166, fmagic_number = 0xF1FA,
        num_chunks = 5, frame_duration = 100\<rparr> L" "[]", OF _ wf]
    by (auto simp add: frame_of_def L_def)
  have "filter (\<lambda>i. layer_parent L i = Some 0) [0..<length L] = [1, 2]"
    "filter (\<lambda>i. layer_parent L i = Some 2) [0..<length L] = []"
    "filter (\<lambda>i. layer_parent L i = Some 3) [0..<length L] = [4]"
    "filter (\<lambda>i. layer_parent L i = None) [0..<length L] = [0, 3]"
    unfolding L_def by code_simp+
  then show ?thesis using st ch rt unfolding L_def by auto
qed

subsection \<open>The builder never pops an empty stack\<close>

lemma construct_chunk_level:
  "construct_chunk z k bs off = Inr (c, m) \<Longrightarrow> 0 \<le> child_level c"
  by (cases k) (auto simp add: bindE_Inr_iff dest: LayerChunk_child_level)

lemma dispatch_chunk_levels:
  "dispatch_chunk z bs off li t = Inr (new, li', msgs) \<Longrightarrow> \<forall>c \<in> set new. 0 \<le> child_level c"
  by (auto simp add: dispatch_chunk_def bindE_Inr_iff LayerGroupChunk_def
           split: option.splits if_splits
           dest: LayerChunk_child_level construct_chunk_level)

lemma parse_data_levels:
  "parse_data z bs = Inr (h, frames, out) \<Longrightarrow>
   \<forall>f \<in> set frames. \<forall>c \<in> set (chunks f). 0 \<le> child_level c"
  by (rule parse_data_all [where P = "\<lambda>c. 0 \<le> child_level c", OF dispatch_chunk_levels])

lemma tree_step_Inr: "0 \<le> child_level l \<Longrightarrow> \<exists>st'. tree_step st (p, l) = Inr st'"
  by (simp add: tree_step_def pop_while_take Let_def)

lemma tree_loop_Inr:
  "\<forall>l \<in> set (map snd pls). 0 \<le> child_level l \<Longrightarrow> \<exists>st'. tree_loop st pls = Inr st'"
proof (induction pls arbitrary: st)
  case (Cons pl pls)
  then obtain st1 where "tree_step st pl = Inr st1"
    using tree_step_Inr by (cases pl) fastforce
  with Cons show ?case by simp
qed simp

lemma build_layer_tree_Cons:
  "\<forall>c \<in> set (chunks f). 0 \<le> child_level c \<Longrightarrow>
   \<exists>st. build_layer_tree (f # fs) = Inr (filter is_layer (chunks f), st)"
  using tree_loop_Inr [of "enumerate 0 (filter is_layer (chunks f))" tree_init]
  by (auto simp add: build_layer_tree_def)

subsection \<open>Every layer is filed once, whatever the depths\<close>

lemma sum_mset_append_at:
  assumes "q0 \<in> A" "finite A"
  shows "(\<Sum>q\<in>A. mset ((f(q0 := f q0 @ xs)) q)) = (\<Sum>q\<in>A. mset (f q)) + mset xs"
proof -
  have "(\<Sum>q\<in>A. mset ((f(q0 := f q0 @ xs)) q))
        = mset (f q0 @ xs) + (\<Sum>q\<in>A - {q0}. mset ((f(q0 := f q0 @ xs)) q))"
    using assms by (simp add: sum.remove)
  also have "(\<Sum>q\<in>A - {q0}. mset ((f(q0 := f q0 @ xs)) q)) = (\<Sum>q\<in>A - {q0}. mset (f q))"
    by (rule sum.cong) auto
  also have "mset (f q0 @ xs) + (\<Sum>q\<in>A - {q0}. mset (f q)) = (\<Sum>q\<in>A. mset (f q)) + mset xs"
    using assms by (simp add: sum.remove)
  finally show ?thesis .
qed

lemma tree_inv_init: "tree_inv ls 0 tree_init"
  by (simp add: tree_inv_def tree_init_def)

lemma tree_step_inv:
  assumes inv: "tree_inv ls k st" and lv: "0 \<le> child_level (ls ! k)"
  shows "\<exists>st'. tree_step st (k, ls ! k) = Inr st' \<and> tree_inv ls (Suc k) st'"
proof -
  define stk where "stk = take (nat (child_level (ls ! k))) (stack st)"
  have pop: "pop_while (child_level (ls ! k)) (stack st) = Inr stk"
    using lv by (simp add: pop_while_take stk_def)
  have sub: "\<forall>q \<in> set stk. q < k \<and> is_group (ls ! q)"
    using inv set_take_subset [of _ "stack st"] unfolding tree_inv_def stk_def by blast
  have ck: "children st k = []" using inv by (simp add: tree_inv_def)
  define st1 where "st1 = (if length stk > 0
                       then st\<lparr>stack := stk, children := (children st)(last stk := children st (last stk) @ [k])\<rparr>
                       else st\<lparr>stack := stk, layer_tree := layer_tree st @ [k]\<rparr>)"
  have step: "tree_step st (k, ls ! k) =
                Inr (if is_group (ls ! k) then st1\<lparr>stack := stack st1 @ [k]\<rparr> else st1)"
    using pop by (simp add: tree_step_def st1_def)
  have inv1: "tree_inv ls (Suc k) st1"
  proof (cases "stk = []")
    case True
    then show ?thesis using inv ck by (simp add: tree_inv_def st1_def)
  next
    case False
    then have q0: "last stk < k" "is_group (ls ! last stk)" using sub by simp_all
    have "(\<Sum>q<k. mset (((children st)(last stk := children st (last stk) @ [k])) q))
          = (\<Sum>q<k. mset (children st q)) + {#k#}"
      using sum_mset_append_at [of "last stk" "{..<k}" "children st" "[k]"] q0 by simp
    then show ?thesis using inv ck False q0 sub
      by (auto simp add: tree_inv_def st1_def)
  qed
  have "tree_inv ls (Suc k) (if is_group (ls ! k) then st1\<lparr>stack := stack st1 @ [k]\<rparr> else st1)"
    using inv1 by (auto simp add: tree_inv_def)
  with step show ?thesis by blast
qed

lemma tree_loop_inv:
  assumes "tree_inv ls k st" "k \<le> length ls" "\<forall>c \<in> set ls. 0 \<le> child_level c"
  shows "\<exists>st'. tree_loop st (enumerate k (drop k ls)) = Inr st' \<and> tree_inv ls (length ls) st'"
  using assms(1,2)
proof (induction "length ls - k" arbitrary: k st)
  case 0
  then show ?case by simp
next
  case (Suc n)
  then have k: "k < length ls" by simp
  then have dk: "drop k ls = ls ! k # drop (Suc k) ls" by (simp add: Cons_nth_drop_Suc)
  have "0 \<le> child_level (ls ! k)" using assms(3) k by simp
  then obtain st' where step: "tree_step st (k, ls ! k) = Inr st'" and inv': "tree_inv ls (Suc k) st'"
    using tree_step_inv [OF Suc.prems(1)] by blast
  have n: "n = length ls - Suc k" using Suc.hyps(2) by simp
  obtain st'' where "tree_loop st' (enumerate (Suc k) (drop (Suc k) ls)) = Inr st''"
      "tree_inv ls (length ls) st''"
    using Suc.hyps(1) [OF n inv'] k by auto
  then show ?case using step dk by simp
qed

text \<open>C33. Whatever the depths (jumps of more than one level included), as long as
  none is negative, \<open>build_layer_tree\<close> succeeds and files every layer exactly once: the
  root list and the \<open>children\<close> lists of the groups hold each position once, and only
  group objects receive children.\<close>

theorem build_layer_tree_partition:
  assumes "\<forall>c \<in> set (chunks f). 0 \<le> child_level c"
  shows "\<exists>st. build_layer_tree (f # fs) = Inr (filter is_layer (chunks f), st)
           \<and> mset (layer_tree st) + (\<Sum>q<length (filter is_layer (chunks f)). mset (children st q))
               = mset [0..<length (filter is_layer (chunks f))]
           \<and> (\<forall>q. length (filter is_layer (chunks f)) \<le> q
                  \<or> \<not> is_group (filter is_layer (chunks f) ! q) \<longrightarrow> children st q = [])"
proof -
  have "\<forall>c \<in> set (filter is_layer (chunks f)). 0 \<le> child_level c" using assms by simp
  then obtain st where "tree_loop tree_init (enumerate 0 (drop 0 (filter is_layer (chunks f)))) = Inr st"
      "tree_inv (filter is_layer (chunks f)) (length (filter is_layer (chunks f))) st"
    using tree_loop_inv [OF tree_inv_init le0] by blast
  then show ?thesis by (auto simp add: build_layer_tree_def tree_inv_def)
qed

theorem build_layer_tree_partition_witness:
  "\<exists>st. build_layer_tree
     [frame_of \<lparr>fsize = 76, fmagic_number = 0xF1FA, num_chunks = 2, frame_duration = 100\<rparr>
      [LayerGroup \<lparr>lflags = 0, layer_type = 1, layer_child_level = 0, default_width = 0,
         default_height = 0, blend_mode = 0, lopacity = 255, lname = [], layer_index = 0\<rparr>,
       Layer \<lparr>chunk_size = 30, chunk_type = 0x2004,
         attrs = \<lparr>lflags = 0, layer_type = 0, layer_child_level = 3, default_width = 0,
         default_height = 0, blend_mode = 0, lopacity = 255, lname = [], layer_index = 0\<rparr>,
         tileset_index = None\<rparr>]]
     = Inr ([LayerGroup \<lparr>lflags = 0, layer_type = 1, layer_child_level = 0, default_width = 0,
         default_height = 0, blend_mode = 0, lopacity = 255, lname = [], layer_index = 0\<rparr>,
       Layer \<lparr>chunk_size = 30, chunk_type = 0x2004,
         attrs = \<lparr>lflags = 0, layer_type = 0, layer_child_level = 3, default_width = 0,
         default_height = 0, blend_mode = 0, lopacity = 255, lname = [], layer_index = 0\<rparr>,
         tileset_index = None\<rparr>], st)
     \<and> mset (layer_tree st) + (\<Sum>q<2. mset (children st q)) = {#0, 1#}
     \<and> children st 1 = []"
proof -
  define f where "f = frame_of \<lparr>fsize = 76, fmagic_number = 0xF1FA, num_chunks = 2,
      frame_duration = 100\<rparr>
      [LayerGroup \<lparr>lflags = 0, layer_type = 1, layer_child_level = 0, default_width = 0,
         default_height = 0, blend_mode = 0, lopacity = 255, lname = [], layer_index = 0\<rparr>,
       Layer \<lparr>chunk_size = 30, chunk_type = 0x2004,
         attrs = \<lparr>lflags = 0, layer_type = 0, layer_child_level = 3, default_width = 0,
         default_height = 0, blend_mode = 0, lopacity = 255, lname = [], layer_index = 0\<rparr>,
         tileset_index = None\<rparr>]"
  have "\<forall>c \<in> set (chunks f). 0 \<le> child_level c" by (simp add: f_def frame_of_def)
  from build_layer_tree_partition [OF this, of "[]"] obtain st where
    "build_layer_tree [f] = Inr (filter is_layer (chunks f), st)"
    "mset (layer_tree st) + (\<Sum>q<length (filter is_layer (chunks f)). mset (children st q))
       = mset [0..<length (filter is_layer (chunks f))]"
    "\<forall>q. length (filter is_layer (chunks f)) \<le> q
       \<or> \<not> is_group (filter is_layer (chunks f) ! q) \<longrightarrow> children st q = []"
    by blast
  note facts = this
  have c1: "children st 1 = []"
    using facts(3) [rule_format, of 1] by (simp add: f_def frame_of_def)
  have len: "length (filter is_layer (chunks f)) = 2" by (simp add: f_def frame_of_def)
  show ?thesis
    using facts(1,2) c1 unfolding len by (simp add: f_def frame_of_def upt_rec)
qed

end
