(* ===== verification/Legacy_Parse.thy ===== *)
theory Legacy_Parse
  imports Legacy_Codecs Layer_Tree
begin

text \<open>
  \<open>AsepriteFile\<close> of the older copy (\<open>src/aseprite/__init__.py\<close>). Its
  \<open>parse_data\<close> has the same frame and chunk loops as the current one, but dispatches
  with a chain of \<open>if\<close>/\<open>elif\<close> tests on the type id instead of a class table, knows
  no colour-profile or tileset chunk, prints nothing but the \<open>Skipped\<close> message, turns
  every layer whose type has bit 0 set into a group, keeps every other layer, and counts
  every layer chunk in \<open>layer_index\<close>. The loops, the dispatch and
  \<open>build_layer_tree\<close> are translated from the legacy file and call the legacy classes of
  theories \<open>Legacy_Classes\<close> and \<open>Legacy_Codecs\<close>; the classes and the tree builder
  that did not change are proved equal to the current ones. The comparison of the two
  decoders is in theory \<open>Versions\<close>.
\<close>

definition dispatch_chunk_v0 ::
  "inflate \<Rightarrow> buffer \<Rightarrow> nat \<Rightarrow> nat \<Rightarrow> int \<Rightarrow> (chunk list \<times> nat \<times> diag list) result" where
  "dispatch_chunk_v0 z bs data_offset cur_layer_index t =
     (if t = 0x2004 then
        bindE (LayerChunk_v0 bs cur_layer_index data_offset) (\<lambda>layer.
          Inr ([if layer_type (attrs layer) AND 1 = 1 then LayerGroup (LayerGroupChunk_v0 layer)
                else Layer layer], cur_layer_index + 1, []))
      else if t = 0x2005 then bindE (CelChunk_v0 z bs data_offset) (\<lambda>c. Inr ([Cel c], cur_layer_index, []))
      else if t = 0x2006 then
        bindE (CelExtraChunk_v0 bs data_offset) (\<lambda>c. Inr ([CelExtra c], cur_layer_index, []))
      else if t = 0x2016 then bindE (MaskChunk_v0 bs data_offset) (\<lambda>c. Inr ([Mask c], cur_layer_index, []))
      else if t = 0x0004 then
        bindE (OldPaleteChunk_0x0004_v0 bs data_offset) (\<lambda>c. Inr ([OldPalette c], cur_layer_index, []))
      else if t = 0x0011 then
        bindE (OldPaleteChunk_0x0011_v0 bs data_offset) (\<lambda>c. Inr ([OldPalette c], cur_layer_index, []))
      else if t = 0x2017 then bindE (PathChunk_v0 bs data_offset) (\<lambda>c. Inr ([Path c], cur_layer_index, []))
      else if t = 0x2018 then
        bindE (FrameTagsChunk_v0 bs data_offset) (\<lambda>c. Inr ([FrameTags c], cur_layer_index, []))
      else if t = 0x2019 then
        bindE (PaletteChunk_v0 bs data_offset) (\<lambda>c. Inr ([Palette c], cur_layer_index, []))
      else if t = 0x2020 then
        bindE (UserDataChunk_v0 bs data_offset) (\<lambda>c. Inr ([UserData c], cur_layer_index, []))
      else if t = 0x2022 then bindE (SliceChunk_v0 bs data_offset) (\<lambda>c. Inr ([Slice c], cur_layer_index, []))
      else Inr ([], cur_layer_index, [Skipped t]))"

fun parse_chunks_v0 ::
  "inflate \<Rightarrow> buffer \<Rightarrow> nat \<Rightarrow> nat \<Rightarrow> nat \<Rightarrow> diag list \<Rightarrow> chunk list
   \<Rightarrow> (nat \<times> nat \<times> diag list \<times> chunk list) result" where
  "parse_chunks_v0 z bs 0 data_offset cur_layer_index out cs =
     Inr (data_offset, cur_layer_index, out, cs)"
| "parse_chunks_v0 z bs (Suc n) data_offset cur_layer_index out cs =
     bindE (Chunk_v0 bs data_offset) (\<lambda>chunk.
       bindE (dispatch_chunk_v0 z bs data_offset cur_layer_index (chunk_type chunk))
         (\<lambda>(new, li, msgs).
           parse_chunks_v0 z bs n (data_offset + nat (chunk_size chunk)) li (out @ msgs) (cs @ new)))"

fun parse_frames_v0 ::
  "inflate \<Rightarrow> buffer \<Rightarrow> nat \<Rightarrow> nat \<Rightarrow> nat \<Rightarrow> diag list \<Rightarrow> frame list
   \<Rightarrow> (nat \<times> nat \<times> diag list \<times> frame list) result" where
  "parse_frames_v0 z bs 0 data_offset cur_layer_index out frames =
     Inr (data_offset, cur_layer_index, out, frames)"
| "parse_frames_v0 z bs (Suc i) data_offset cur_layer_index out frames =
     bindE (Frame_v0 bs data_offset) (\<lambda>fr.
       bindE (parse_chunks_v0 z bs (nat (num_chunks fr)) (data_offset + frame_size_v0)
                cur_layer_index out [])
         (\<lambda>(off, li, out', cs). parse_frames_v0 z bs i off li out' (frames @ [frame_of fr cs])))"

definition parse_data_v0 :: "inflate \<Rightarrow> buffer \<Rightarrow> (header_v0 \<times> frame list \<times> diag list) result" where
  "parse_data_v0 z bs =
     bindE (Header_v0 bs 0) (\<lambda>head.
       bindE (parse_frames_v0 z bs (nat (num_frames_v0 head)) header_size 0 [] [])
         (\<lambda>(_, _, out, frames). Inr (head, frames, out)))"

text \<open>\<open>build_layer_tree\<close> of the older copy: the same loop over the layers of frame 0
  as the current one, here translated from the legacy lines.\<close>

function pop_while_v0 :: "int \<Rightarrow> nat list \<Rightarrow> nat list result" where
  "pop_while_v0 lvl stk =
     (if lvl < int (length stk) then
        (if stk = [] then Inl IndexError else pop_while_v0 lvl (butlast stk))
      else Inr stk)"
  by pat_completeness auto
termination
  by (relation "measure (\<lambda>(lvl, stk). length stk)") auto

declare pop_while_v0.simps [simp del]

definition tree_step_v0 :: "tree_state \<Rightarrow> nat \<times> chunk \<Rightarrow> tree_state result" where
  "tree_step_v0 st pl =
     (let (p, layer) = pl
      in bindE (pop_while_v0 (child_level layer) (stack st)) (\<lambda>stk.
           (let st1 = (if length stk > 0
                       then st\<lparr>stack := stk,
                               children := (children st)(last stk := children st (last stk) @ [p])\<rparr>
                       else st\<lparr>stack := stk, layer_tree := layer_tree st @ [p]\<rparr>)
            in Inr (if is_group layer then st1\<lparr>stack := stack st1 @ [p]\<rparr> else st1))))"

fun tree_loop_v0 :: "tree_state \<Rightarrow> (nat \<times> chunk) list \<Rightarrow> tree_state result" where
  "tree_loop_v0 st [] = Inr st"
| "tree_loop_v0 st (pl # pls) = bindE (tree_step_v0 st pl) (\<lambda>st'. tree_loop_v0 st' pls)"

definition build_layer_tree_v0 :: "frame list \<Rightarrow> (chunk list \<times> tree_state) result" where
  "build_layer_tree_v0 frames =
     (case frames of
        [] \<Rightarrow> Inl IndexError
      | f # _ \<Rightarrow>
          (let layers = filter is_layer (chunks f)
           in bindE (tree_loop_v0 tree_init (enumerate 0 layers)) (\<lambda>st. Inr (layers, st))))"

record aseprite_file_v0 =
  af0_header :: header_v0
  af0_frames :: "frame list"
  af0_diags :: "diag list"
  af0_layers :: "chunk list"
  af0_tree :: tree_state

definition AsepriteFile_v0 :: "inflate \<Rightarrow> buffer \<Rightarrow> aseprite_file_v0 result" where
  "AsepriteFile_v0 z data =
     bindE (parse_data_v0 z data) (\<lambda>(head, frames, out).
       bindE (build_layer_tree_v0 frames) (\<lambda>(layers, st).
         Inr \<lparr>af0_header = head, af0_frames = frames, af0_diags = out, af0_layers = layers,
               af0_tree = st\<rparr>))"

text \<open>The index a layer or layer group carries (0 for other chunks).\<close>

fun layer_idx :: "chunk \<Rightarrow> nat" where
  "layer_idx (Layer l) = layer_index (attrs l)"
| "layer_idx (LayerGroup a) = layer_index a"
| "layer_idx _ = 0"


subsection \<open>Lemmas\<close>

lemma pop_while_v0_eq [simp]: "pop_while_v0 lvl stk = pop_while lvl stk"
proof (induction lvl stk rule: pop_while.induct)
  case (1 lvl stk)
  then show ?case by (simp add: pop_while_v0.simps pop_while.simps [of lvl stk])
qed

lemma tree_loop_v0_eq [simp]: "tree_loop_v0 st pls = tree_loop st pls"
  by (induction pls arbitrary: st) (simp_all add: tree_step_v0_def tree_step_def)

lemma build_layer_tree_v0_eq [simp]: "build_layer_tree_v0 frs = build_layer_tree frs"
  by (simp add: build_layer_tree_v0_def build_layer_tree_def split: list.split)

lemma dispatch_chunk_v0_layers:
  "dispatch_chunk_v0 z bs off li t = Inr (new, li', msgs) \<Longrightarrow>
     map layer_idx (filter is_layer new) = [li..<li'] \<and> (\<forall>c \<in> set new. 0 \<le> child_level c)"
  by (auto simp add: dispatch_chunk_v0_def bindE_Inr_iff LayerGroupChunk_def
           split: if_split_asm dest: LayerChunk_v0_fields)

lemma dispatch_chunk_v0_mono:
  "dispatch_chunk_v0 z bs off li t = Inr (new, li', msgs) \<Longrightarrow> li \<le> li'"
  by (auto simp add: dispatch_chunk_v0_def bindE_Inr_iff split: if_split_asm)


lemma parse_chunks_v0_numeral:
  "parse_chunks_v0 z bs (numeral k) off li out cs =
     bindE (Chunk bs off) (\<lambda>chunk.
       bindE (dispatch_chunk_v0 z bs off li (chunk_type chunk)) (\<lambda>(new, li, msgs).
         parse_chunks_v0 z bs (pred_numeral k) (off + nat (chunk_size chunk)) li (out @ msgs)
           (cs @ new)))"
  by (simp add: numeral_eq_Suc)

lemma parse_chunks_v0_layers:
  "parse_chunks_v0 z bs n off li out cs = Inr (off', li', out', cs') \<Longrightarrow>
     li \<le> li' \<and> map layer_idx (filter is_layer cs') = map layer_idx (filter is_layer cs) @ [li..<li']
     \<and> ((\<forall>c \<in> set cs. 0 \<le> child_level c) \<longrightarrow> (\<forall>c \<in> set cs'. 0 \<le> child_level c))"
proof (induction n arbitrary: off li out cs)
  case (Suc n)
  from Suc.prems obtain ch new li2 msgs where
    "Chunk bs off = Inr ch" and d: "dispatch_chunk_v0 z bs off li (chunk_type ch) = Inr (new, li2, msgs)"
    and rest: "parse_chunks_v0 z bs n (off + nat (chunk_size ch)) li2 (out @ msgs) (cs @ new)
               = Inr (off', li', out', cs')"
    by (auto simp add: bindE_Inr_iff)
  have "li \<le> li2" using dispatch_chunk_v0_mono [OF d] .
  with Suc.IH [OF rest] dispatch_chunk_v0_layers [OF d] show ?case
    by (auto simp add: upt_append_upt)
qed simp

lemma parse_frames_v0_layers:
  "parse_frames_v0 z bs i off li out fs = Inr (off', li', out', fs') \<Longrightarrow>
     li \<le> li'
     \<and> concat (map (\<lambda>f. map layer_idx (filter is_layer (chunks f))) fs')
         = concat (map (\<lambda>f. map layer_idx (filter is_layer (chunks f))) fs) @ [li..<li']
     \<and> ((\<forall>f \<in> set fs. \<forall>c \<in> set (chunks f). 0 \<le> child_level c) \<longrightarrow>
        (\<forall>f \<in> set fs'. \<forall>c \<in> set (chunks f). 0 \<le> child_level c))"
proof (induction i arbitrary: off li out fs)
  case (Suc i)
  from Suc.prems obtain fr off1 li1 out1 cs where
    ch: "parse_chunks_v0 z bs (nat (num_chunks fr)) (off + frame_size) li out [] = Inr (off1, li1, out1, cs)"
    and rest: "parse_frames_v0 z bs i off1 li1 out1 (fs @ [frame_of fr cs]) = Inr (off', li', out', fs')"
    by (auto simp add: bindE_Inr_iff)
  from Suc.IH [OF rest] parse_chunks_v0_layers [OF ch] show ?case
    by (auto simp add: frame_of_def upt_append_upt)
qed simp

lemma parse_chunks_v0_cursor:
  "parse_chunks_v0 z bs n off li out cs = Inr (off', li', out', cs') \<Longrightarrow>
     chunk_cursor bs n off = Some off'"
proof (induction n arbitrary: off li out cs)
  case (Suc n)
  then show ?case by (auto simp add: bindE_Inr_iff)
qed simp

text \<open>C24. The legacy frame loop, like the current one (C1), advances by declared sizes
  only: whenever it succeeds its final offset is the one reached by walking frame headers
  and chunk preambles alone. So both versions consume the same bytes of any file both
  decode.\<close>

theorem parse_frames_v0_cursor:
  "parse_frames_v0 z bs n off li out fs = Inr (off', li', out', fs') \<Longrightarrow>
     frame_cursor bs n off = Some off'"
proof (induction n arbitrary: off li out fs)
  case (Suc n)
  then show ?case by (auto simp add: bindE_Inr_iff dest: parse_chunks_v0_cursor)
qed simp

text \<open>C25. The legacy decoder numbers the layers sequentially across the whole file, as the
  data model asks: the layers of all frames, in file order, carry the indices
  \<open>0, 1, 2, \<dots>\<close>.\<close>

theorem parse_data_v0_layer_index:
  "parse_data_v0 z bs = Inr (h, frames, out) \<Longrightarrow>
     concat (map (\<lambda>f. map layer_idx (filter is_layer (chunks f))) frames)
       = [0..<length (concat (map (\<lambda>f. filter is_layer (chunks f)) frames))]"
proof -
  assume "parse_data_v0 z bs = Inr (h, frames, out)"
  then obtain off' li' where
    "parse_frames_v0 z bs (nat (num_frames_v0 h)) header_size 0 [] [] = Inr (off', li', out, frames)"
    by (auto simp add: parse_data_v0_def bindE_Inr_iff)
  from parse_frames_v0_layers [OF this]
  have l: "concat (map (\<lambda>f. map layer_idx (filter is_layer (chunks f))) frames) = [0..<li']"
    by simp
  have "length (concat (map (\<lambda>f. filter is_layer (chunks f)) frames))
        = length (concat (map (\<lambda>f. map layer_idx (filter is_layer (chunks f))) frames))"
    by (simp add: length_concat comp_def)
  with l show ?thesis by simp
qed

text \<open>C26. \<open>AsepriteFile_v0\<close> raises only what the legacy \<open>parse_data\<close> raises, or
  \<open>IndexError\<close> when the file has no frames: the layer-tree loop never pops an empty
  stack on what the legacy decoder produces.\<close>

theorem AsepriteFile_v0_errors:
  "AsepriteFile_v0 z bs = Inl e \<Longrightarrow>
   parse_data_v0 z bs = Inl e \<or> (e = IndexError \<and> (\<exists>h out. parse_data_v0 z bs = Inr (h, [], out)))"
proof (cases "parse_data_v0 z bs")
  case (Inl e')
  then show "AsepriteFile_v0 z bs = Inl e \<Longrightarrow> ?thesis" by (simp add: AsepriteFile_v0_def)
next
  case (Inr r)
  obtain h frames out where r: "r = (h, frames, out)" by (cases r) blast
  show "AsepriteFile_v0 z bs = Inl e \<Longrightarrow> ?thesis"
  proof (cases frames)
    case Nil
    then show "AsepriteFile_v0 z bs = Inl e \<Longrightarrow> ?thesis"
      using Inr r by (simp add: AsepriteFile_v0_def build_layer_tree_def)
  next
    case (Cons f fs)
    have "\<forall>f \<in> set frames. \<forall>c \<in> set (chunks f). 0 \<le> child_level c"
      using Inr r parse_frames_v0_layers
      by (fastforce simp add: parse_data_v0_def bindE_Inr_iff)
    then obtain st where "build_layer_tree frames = Inr (filter is_layer (chunks f), st)"
      using build_layer_tree_Cons Cons by fastforce
    then show "AsepriteFile_v0 z bs = Inl e \<Longrightarrow> ?thesis"
      using Inr r by (simp add: AsepriteFile_v0_def)
  qed
qed

text \<open>The legacy dispatcher recognises exactly the type ids of the current class table
  except colour profile (0x2007) and tileset (0x2023), and skips every other id with a
  \<open>Skipped\<close> message, appending no chunk.\<close>

theorem dispatch_chunk_v0_skipped:
  "t \<notin> chunk_id ` set supported_chunks - {0x2007, 0x2023} \<Longrightarrow>
     dispatch_chunk_v0 z bs off li t = Inr ([], li, [Skipped t])"
  by (auto simp add: dispatch_chunk_v0_def supported_chunks_def)


lemma example_header_v0:
  "Header_v0 ([0, 0, 0, 0, 0xE0, 0xA5, 1, 0] @ replicate 120 0 @
       [64, 0, 0, 0, 0xFA, 0xF1, 2, 0, 100, 0, 0, 0, 0, 0, 0, 0,
        24, 0, 0, 0, 4, 0x20, 0, 0, 1, 0, 0, 0, 0, 0, 0, 0, 0, 0, 255, 0, 0, 0, 0, 0,
        24, 0, 0, 0, 4, 0x20, 0, 0, 0, 0, 1, 0, 0, 0, 0, 0, 0, 0, 255, 0, 0, 0, 0, 0]) 0 =
   Inr \<lparr>filesize_v0 = 0, magic_number_v0 = 0xA5E0, num_frames_v0 = 1, width_v0 = 0, height_v0 = 0,
        color_depth_v0 = 0, flags_v0 = 0, palette_mask_v0 = 0, num_colors_v0 = 0,
        pixel_width_v0 = 0, pixel_height_v0 = 0\<rparr>"
  by (simp add: Header_v0_def unpack_from_def header_format_v0_def calcsize_def)

lemma parse_data_v0_no_frames:
  "parse_data_v0 z ([0, 0, 0, 0, 0xE0, 0xA5, 0, 0] @ replicate 120 0) =
   Inr (\<lparr>filesize_v0 = 0, magic_number_v0 = 0xA5E0, num_frames_v0 = 0, width_v0 = 0, height_v0 = 0,
         color_depth_v0 = 0, flags_v0 = 0, palette_mask_v0 = 0, num_colors_v0 = 0,
         pixel_width_v0 = 0, pixel_height_v0 = 0\<rparr>, [], [])"
proof -
  have "Header_v0 ([0, 0, 0, 0, 0xE0, 0xA5, 0, 0] @ replicate 120 0) 0 =
   Inr \<lparr>filesize_v0 = 0, magic_number_v0 = 0xA5E0, num_frames_v0 = 0, width_v0 = 0, height_v0 = 0,
        color_depth_v0 = 0, flags_v0 = 0, palette_mask_v0 = 0, num_colors_v0 = 0,
        pixel_width_v0 = 0, pixel_height_v0 = 0\<rparr>"
    by (simp add: Header_v0_def unpack_from_def header_format_v0_def calcsize_def)
  then show ?thesis by (simp add: parse_data_v0_def)
qed

theorem parse_frames_v0_cursor_witness:
  "\<exists>li out fs. parse_frames_v0 (\<lambda>_. None) [22, 0, 0, 0, 0xFA, 0xF1, 1, 0, 100, 0, 0, 0, 0, 0, 0, 0, 6, 0, 0, 0, 0x99, 0x99] 1 0 0 [] [] = Inr (22, li, out, fs)
     \<and> frame_cursor [22, 0, 0, 0, 0xFA, 0xF1, 1, 0, 100, 0, 0, 0, 0, 0, 0, 0, 6, 0, 0, 0, 0x99, 0x99] 1 0 = Some 22"
proof -
  have "case parse_frames_v0 (\<lambda>_. None) [22, 0, 0, 0, 0xFA, 0xF1, 1, 0, 100, 0, 0, 0, 0, 0, 0, 0, 6, 0, 0, 0, 0x99, 0x99] 1 0 0 [] [] of
      Inl _ \<Rightarrow> False | Inr (off, li, out, fs) \<Rightarrow> off = 22"
    by (simp add: Frame_def Chunk_def unpack_from_def frame_format_def chunk_format_def
        calcsize_def frame_size_def dispatch_chunk_v0_def)
  then obtain li out fs where
    run: "parse_frames_v0 (\<lambda>_. None) [22, 0, 0, 0, 0xFA, 0xF1, 1, 0, 100, 0, 0, 0, 0, 0, 0, 0, 6, 0, 0, 0, 0x99, 0x99] 1 0 0 [] [] = Inr (22, li, out, fs)"
    by (auto split: sum.splits)
  show ?thesis using parse_frames_v0_cursor [OF run] run by blast
qed

theorem parse_data_v0_layer_index_witness:
  "\<exists>h frames out. parse_data_v0 (\<lambda>_. None)
      ([0, 0, 0, 0, 0xE0, 0xA5, 1, 0] @ replicate 120 0 @
       [64, 0, 0, 0, 0xFA, 0xF1, 2, 0, 100, 0, 0, 0, 0, 0, 0, 0,
        24, 0, 0, 0, 4, 0x20, 0, 0, 1, 0, 0, 0, 0, 0, 0, 0, 0, 0, 255, 0, 0, 0, 0, 0,
        24, 0, 0, 0, 4, 0x20, 0, 0, 0, 0, 1, 0, 0, 0, 0, 0, 0, 0, 255, 0, 0, 0, 0, 0]) = Inr (h, frames, out)
     \<and> concat (map (\<lambda>f. map layer_idx (filter is_layer (chunks f))) frames) = [0, 1]"
proof -
  have "case parse_frames_v0 (\<lambda>_. None)
      ([0, 0, 0, 0, 0xE0, 0xA5, 1, 0] @ replicate 120 0 @
       [64, 0, 0, 0, 0xFA, 0xF1, 2, 0, 100, 0, 0, 0, 0, 0, 0, 0,
        24, 0, 0, 0, 4, 0x20, 0, 0, 1, 0, 0, 0, 0, 0, 0, 0, 0, 0, 255, 0, 0, 0, 0, 0,
        24, 0, 0, 0, 4, 0x20, 0, 0, 0, 0, 1, 0, 0, 0, 0, 0, 0, 0, 255, 0, 0, 0, 0, 0]) 1 128 0 [] [] of
      Inl _ \<Rightarrow> False
    | Inr (off, li, out, frames) \<Rightarrow> map (\<lambda>f. length (filter is_layer (chunks f))) frames = [2]"
    by (simp add: Frame_def Chunk_def unpack_from_def frame_format_def chunk_format_def calcsize_def
      frame_size_def dispatch_chunk_v0_def LayerChunk_v0_def layer_format_def parse_string_def
      unpack_bytes_def py_decode_utf8_def utf8_decode.simps LayerGroupChunk_def frame_of_def
      parse_chunks_v0_numeral)
  then obtain off li out frames where
    run: "parse_frames_v0 (\<lambda>_. None)
      ([0, 0, 0, 0, 0xE0, 0xA5, 1, 0] @ replicate 120 0 @
       [64, 0, 0, 0, 0xFA, 0xF1, 2, 0, 100, 0, 0, 0, 0, 0, 0, 0,
        24, 0, 0, 0, 4, 0x20, 0, 0, 1, 0, 0, 0, 0, 0, 0, 0, 0, 0, 255, 0, 0, 0, 0, 0,
        24, 0, 0, 0, 4, 0x20, 0, 0, 0, 0, 1, 0, 0, 0, 0, 0, 0, 0, 255, 0, 0, 0, 0, 0]) 1 128 0 [] [] = Inr (off, li, out, frames)"
    and len: "map (\<lambda>f. length (filter is_layer (chunks f))) frames = [2]"
    by (auto split: sum.splits)
  have pd: "parse_data_v0 (\<lambda>_. None)
      ([0, 0, 0, 0, 0xE0, 0xA5, 1, 0] @ replicate 120 0 @
       [64, 0, 0, 0, 0xFA, 0xF1, 2, 0, 100, 0, 0, 0, 0, 0, 0, 0,
        24, 0, 0, 0, 4, 0x20, 0, 0, 1, 0, 0, 0, 0, 0, 0, 0, 0, 0, 255, 0, 0, 0, 0, 0,
        24, 0, 0, 0, 4, 0x20, 0, 0, 0, 0, 1, 0, 0, 0, 0, 0, 0, 0, 255, 0, 0, 0, 0, 0]) = Inr (\<lparr>filesize_v0 = 0, magic_number_v0 = 0xA5E0, num_frames_v0 = 1, width_v0 = 0, height_v0 = 0,
        color_depth_v0 = 0, flags_v0 = 0, palette_mask_v0 = 0, num_colors_v0 = 0,
        pixel_width_v0 = 0, pixel_height_v0 = 0\<rparr>, frames, out)"
    unfolding parse_data_v0_def example_header_v0 using run by (simp add: header_size_def)
  have "length (concat (map (\<lambda>f. filter is_layer (chunks f)) frames)) = 2"
    using len by (simp add: length_concat comp_def)
  moreover have "[0..<2] = [0::nat, 1]" by (simp add: upt_rec)
  ultimately show ?thesis using parse_data_v0_layer_index [OF pd] pd by auto
qed

theorem AsepriteFile_v0_errors_witness:
  "AsepriteFile_v0 (\<lambda>_. None) ([0, 0, 0, 0, 0xE0, 0xA5, 0, 0] @ replicate 120 0) = Inl IndexError
   \<and> (\<exists>h out. parse_data_v0 (\<lambda>_. None) ([0, 0, 0, 0, 0xE0, 0xA5, 0, 0] @ replicate 120 0) = Inr (h, [], out))"
proof -
  have a: "AsepriteFile_v0 (\<lambda>_. None) ([0, 0, 0, 0, 0xE0, 0xA5, 0, 0] @ replicate 120 0) = Inl IndexError"
    unfolding AsepriteFile_v0_def parse_data_v0_no_frames by (simp add: build_layer_tree_def)
  show ?thesis
    using AsepriteFile_v0_errors [OF a] a unfolding parse_data_v0_no_frames by simp
qed

theorem dispatch_chunk_v0_skipped_witness:
  "dispatch_chunk_v0 (\<lambda>_. None) [] 0 0 0x2007 = Inr ([], 0, [Skipped 0x2007])"
  using dispatch_chunk_v0_skipped [of "0x2007" "\<lambda>_. None" "[]" 0 0]
  by (simp add: supported_chunks_def)

subsection \<open>Layer types\<close>

lemma parse_chunks_v0_all:
  assumes "\<And>off li t new li' msgs. dispatch_chunk_v0 z bs off li t = Inr (new, li', msgs) \<Longrightarrow>
             \<forall>c \<in> set new. P c"
  shows "parse_chunks_v0 z bs n off li out cs = Inr (off', li', out', cs') \<Longrightarrow>
           \<forall>c \<in> set cs. P c \<Longrightarrow> \<forall>c \<in> set cs'. P c"
proof (induction n arbitrary: off li out cs)
  case (Suc n)
  then show ?case by (fastforce simp add: bindE_Inr_iff dest: assms)
qed simp

lemma parse_frames_v0_all:
  assumes "\<And>off li t new li' msgs. dispatch_chunk_v0 z bs off li t = Inr (new, li', msgs) \<Longrightarrow>
             \<forall>c \<in> set new. P c"
  shows "parse_frames_v0 z bs i off li out fs = Inr (off', li', out', fs') \<Longrightarrow>
           \<forall>f \<in> set fs. \<forall>c \<in> set (chunks f). P c \<Longrightarrow>
           \<forall>f \<in> set fs'. \<forall>c \<in> set (chunks f). P c"
proof (induction i arbitrary: off li out fs)
  case (Suc i)
  from Suc.prems(1) obtain fr off1 li1 out1 cs where
    ch: "parse_chunks_v0 z bs (nat (num_chunks fr)) (off + frame_size) li out [] = Inr (off1, li1, out1, cs)"
    and rest: "parse_frames_v0 z bs i off1 li1 out1 (fs @ [frame_of fr cs]) = Inr (off', li', out', fs')"
    by (auto simp add: bindE_Inr_iff)
  have "\<forall>c \<in> set cs. P c" using parse_chunks_v0_all [OF assms ch] by simp
  with Suc.IH [OF rest] Suc.prems(2) show ?case by (simp add: frame_of_def)
qed simp

lemma dispatch_chunk_v0_layer_types:
  "dispatch_chunk_v0 z bs off li t = Inr (new, li', msgs) \<Longrightarrow> \<forall>c \<in> set new. (\<forall>l. c = Layer l \<longrightarrow> layer_type (attrs l) AND 1 \<noteq> 1)
       \<and> (\<forall>a. c = LayerGroup a \<longrightarrow> layer_type a AND 1 = 1)"
  by (auto simp add: dispatch_chunk_v0_def bindE_Inr_iff LayerGroupChunk_def
      split: if_splits)

lemma dispatch_chunk_v0_layer_count:
  "dispatch_chunk_v0 z bs off li t = Inr (new, li', msgs) \<Longrightarrow>
     length (filter is_layer new) = (if t = 0x2004 then 1 else 0)"
  by (auto simp add: dispatch_chunk_v0_def bindE_Inr_iff split: if_splits)

lemma parse_chunks_v0_types:
  "parse_chunks_v0 z bs n off li out cs = Inr (off', li', out', cs') \<Longrightarrow>
     \<exists>ts. chunk_types bs n off = Some (ts, off')
       \<and> length (filter is_layer cs') = length (filter is_layer cs) + count_list ts 0x2004"
proof (induction n arbitrary: off li out cs)
  case (Suc n)
  then show ?case
    by (auto simp add: bindE_Inr_iff dest!: dispatch_chunk_v0_layer_count Suc.IH)
qed simp

lemma parse_frames_v0_types:
  "parse_frames_v0 z bs i off li out fs = Inr (off', li', out', fs') \<Longrightarrow>
     \<exists>tss. frame_types bs i off = Some tss
       \<and> map (\<lambda>f. length (filter is_layer (chunks f))) fs'
         = map (\<lambda>f. length (filter is_layer (chunks f))) fs @ map (\<lambda>ts. count_list ts 0x2004) tss"
proof (induction i arbitrary: off li out fs)
  case (Suc i)
  from Suc.prems obtain fr off1 li1 out1 cs where fr: "Frame bs off = Inr fr"
    and ch: "parse_chunks_v0 z bs (nat (num_chunks fr)) (off + frame_size) li out [] = Inr (off1, li1, out1, cs)"
    and rest: "parse_frames_v0 z bs i off1 li1 out1 (fs @ [frame_of fr cs]) = Inr (off', li', out', fs')"
    by (auto simp add: bindE_Inr_iff)
  from parse_chunks_v0_types [OF ch] obtain ts where
    "chunk_types bs (nat (num_chunks fr)) (off + frame_size) = Some (ts, off1)"
    "length (filter is_layer cs) = count_list ts 0x2004" by auto
  with Suc.IH [OF rest] fr show ?case by (auto simp add: frame_of_def)
qed simp

text \<open>C40. The legacy decoder drops no layer chunk: each frame keeps exactly as many
  layers and groups as it has chunks of type 0x2004, so a tileset layer (type 2) is kept
  as a normal layer and an unassigned odd type becomes a group; it classifies them by the
  low bit of their type, every layer having bit 0 clear and every group bit 0 set.\<close>

theorem parse_data_v0_layer_types:
  assumes "parse_data_v0 z bs = Inr (h, frames, out)"
  shows "(\<exists>tss. frame_types bs (nat (num_frames_v0 h)) header_size = Some tss
       \<and> map (\<lambda>f. length (filter is_layer (chunks f))) frames = map (\<lambda>ts. count_list ts 0x2004) tss)
     \<and> (\<forall>f \<in> set frames. \<forall>c \<in> set (chunks f). (\<forall>l. c = Layer l \<longrightarrow> layer_type (attrs l) AND 1 \<noteq> 1)
       \<and> (\<forall>a. c = LayerGroup a \<longrightarrow> layer_type a AND 1 = 1))"
proof -
  obtain off' li' where
    run: "parse_frames_v0 z bs (nat (num_frames_v0 h)) header_size 0 [] [] = Inr (off', li', out, frames)"
    using assms by (auto simp add: parse_data_v0_def bindE_Inr_iff)
  from parse_frames_v0_types [OF run] parse_frames_v0_all [OF dispatch_chunk_v0_layer_types run]
  show ?thesis by simp
qed

theorem parse_data_v0_layer_types_witness:
  "\<exists>h frames out. parse_data_v0 (\<lambda>_. None) ([0, 0, 0, 0, 0xE0, 0xA5, 1, 0] @ replicate 120 0 @
       [92, 0, 0, 0, 0xFA, 0xF1, 3, 0, 100, 0, 0, 0, 0, 0, 0, 0,
        24, 0, 0, 0, 4, 0x20, 0, 0, 1, 0, 0, 0, 0, 0, 0, 0, 0, 0, 255, 0, 0, 0, 0, 0,
        24, 0, 0, 0, 4, 0x20, 0, 0, 0, 0, 1, 0, 0, 0, 0, 0, 0, 0, 255, 0, 0, 0, 0, 0,
        28, 0, 0, 0, 4, 0x20, 0, 0, 2, 0, 0, 0, 0, 0, 0, 0, 0, 0, 255, 0, 0, 0, 0, 0,
        5, 0, 0, 0]) = Inr (h, frames, out)
     \<and> map (\<lambda>f. map (\<lambda>c. case c of Layer l \<Rightarrow> layer_type (attrs l) | LayerGroup a \<Rightarrow> layer_type a
                                | _ \<Rightarrow> -1) (chunks f)) frames = [[1, 0, 2]]
     \<and> (\<exists>tss. frame_types ([0, 0, 0, 0, 0xE0, 0xA5, 1, 0] @ replicate 120 0 @
       [92, 0, 0, 0, 0xFA, 0xF1, 3, 0, 100, 0, 0, 0, 0, 0, 0, 0,
        24, 0, 0, 0, 4, 0x20, 0, 0, 1, 0, 0, 0, 0, 0, 0, 0, 0, 0, 255, 0, 0, 0, 0, 0,
        24, 0, 0, 0, 4, 0x20, 0, 0, 0, 0, 1, 0, 0, 0, 0, 0, 0, 0, 255, 0, 0, 0, 0, 0,
        28, 0, 0, 0, 4, 0x20, 0, 0, 2, 0, 0, 0, 0, 0, 0, 0, 0, 0, 255, 0, 0, 0, 0, 0,
        5, 0, 0, 0]) (nat (num_frames_v0 h)) header_size = Some tss
       \<and> map (\<lambda>f. length (filter is_layer (chunks f))) frames = map (\<lambda>ts. count_list ts 0x2004) tss)
     \<and> (\<forall>f \<in> set frames. \<forall>c \<in> set (chunks f). (\<forall>l. c = Layer l \<longrightarrow> layer_type (attrs l) AND 1 \<noteq> 1)
       \<and> (\<forall>a. c = LayerGroup a \<longrightarrow> layer_type a AND 1 = 1))"
proof -
  have hd: "Header_v0 ([0, 0, 0, 0, 0xE0, 0xA5, 1, 0] @ replicate 120 0 @
       [92, 0, 0, 0, 0xFA, 0xF1, 3, 0, 100, 0, 0, 0, 0, 0, 0, 0,
        24, 0, 0, 0, 4, 0x20, 0, 0, 1, 0, 0, 0, 0, 0, 0, 0, 0, 0, 255, 0, 0, 0, 0, 0,
        24, 0, 0, 0, 4, 0x20, 0, 0, 0, 0, 1, 0, 0, 0, 0, 0, 0, 0, 255, 0, 0, 0, 0, 0,
        28, 0, 0, 0, 4, 0x20, 0, 0, 2, 0, 0, 0, 0, 0, 0, 0, 0, 0, 255, 0, 0, 0, 0, 0,
        5, 0, 0, 0]) 0 =
   Inr \<lparr>filesize_v0 = 0, magic_number_v0 = 0xA5E0, num_frames_v0 = 1, width_v0 = 0, height_v0 = 0,
        color_depth_v0 = 0, flags_v0 = 0, palette_mask_v0 = 0, num_colors_v0 = 0,
        pixel_width_v0 = 0, pixel_height_v0 = 0\<rparr>"
    by (simp add: Header_v0_def unpack_from_def header_format_v0_def calcsize_def)
  have "case parse_frames_v0 (\<lambda>_. None) ([0, 0, 0, 0, 0xE0, 0xA5, 1, 0] @ replicate 120 0 @
       [92, 0, 0, 0, 0xFA, 0xF1, 3, 0, 100, 0, 0, 0, 0, 0, 0, 0,
        24, 0, 0, 0, 4, 0x20, 0, 0, 1, 0, 0, 0, 0, 0, 0, 0, 0, 0, 255, 0, 0, 0, 0, 0,
        24, 0, 0, 0, 4, 0x20, 0, 0, 0, 0, 1, 0, 0, 0, 0, 0, 0, 0, 255, 0, 0, 0, 0, 0,
        28, 0, 0, 0, 4, 0x20, 0, 0, 2, 0, 0, 0, 0, 0, 0, 0, 0, 0, 255, 0, 0, 0, 0, 0,
        5, 0, 0, 0]) 1 128 0 [] [] of
      Inl _ \<Rightarrow> False
    | Inr (off, li, out, frames) \<Rightarrow>
        map (\<lambda>f. map (\<lambda>c. case c of Layer l \<Rightarrow> layer_type (attrs l) | LayerGroup a \<Rightarrow> layer_type a
                                | _ \<Rightarrow> -1) (chunks f)) frames = [[1, 0, 2]]"
    by (simp add: Frame_def Chunk_def unpack_from_def frame_format_def chunk_format_def calcsize_def
      frame_size_def dispatch_chunk_v0_def LayerChunk_v0_def layer_format_def parse_string_def
      unpack_bytes_def py_decode_utf8_def utf8_decode.simps LayerGroupChunk_def frame_of_def
      parse_chunks_v0_numeral)
  then obtain off li out frames where
    run: "parse_frames_v0 (\<lambda>_. None) ([0, 0, 0, 0, 0xE0, 0xA5, 1, 0] @ replicate 120 0 @
       [92, 0, 0, 0, 0xFA, 0xF1, 3, 0, 100, 0, 0, 0, 0, 0, 0, 0,
        24, 0, 0, 0, 4, 0x20, 0, 0, 1, 0, 0, 0, 0, 0, 0, 0, 0, 0, 255, 0, 0, 0, 0, 0,
        24, 0, 0, 0, 4, 0x20, 0, 0, 0, 0, 1, 0, 0, 0, 0, 0, 0, 0, 255, 0, 0, 0, 0, 0,
        28, 0, 0, 0, 4, 0x20, 0, 0, 2, 0, 0, 0, 0, 0, 0, 0, 0, 0, 255, 0, 0, 0, 0, 0,
        5, 0, 0, 0]) 1 128 0 [] [] = Inr (off, li, out, frames)"
    and ty: "map (\<lambda>f. map (\<lambda>c. case c of Layer l \<Rightarrow> layer_type (attrs l) | LayerGroup a \<Rightarrow> layer_type a
                                | _ \<Rightarrow> -1) (chunks f)) frames = [[1, 0, 2]]"
    by (auto split: sum.splits)
  have pd: "parse_data_v0 (\<lambda>_. None) ([0, 0, 0, 0, 0xE0, 0xA5, 1, 0] @ replicate 120 0 @
       [92, 0, 0, 0, 0xFA, 0xF1, 3, 0, 100, 0, 0, 0, 0, 0, 0, 0,
        24, 0, 0, 0, 4, 0x20, 0, 0, 1, 0, 0, 0, 0, 0, 0, 0, 0, 0, 255, 0, 0, 0, 0, 0,
        24, 0, 0, 0, 4, 0x20, 0, 0, 0, 0, 1, 0, 0, 0, 0, 0, 0, 0, 255, 0, 0, 0, 0, 0,
        28, 0, 0, 0, 4, 0x20, 0, 0, 2, 0, 0, 0, 0, 0, 0, 0, 0, 0, 255, 0, 0, 0, 0, 0,
        5, 0, 0, 0]) = Inr (\<lparr>filesize_v0 = 0, magic_number_v0 = 0xA5E0,
        num_frames_v0 = 1, width_v0 = 0, height_v0 = 0, color_depth_v0 = 0, flags_v0 = 0,
        palette_mask_v0 = 0, num_colors_v0 = 0, pixel_width_v0 = 0, pixel_height_v0 = 0\<rparr>,
        frames, out)"
    unfolding parse_data_v0_def hd using run by (simp add: header_size_def)
  show ?thesis
    using parse_data_v0_layer_types [OF pd] pd ty
    by (intro exI [of _ "\<lparr>filesize_v0 = 0, magic_number_v0 = 0xA5E0,
        num_frames_v0 = 1, width_v0 = 0, height_v0 = 0, color_depth_v0 = 0, flags_v0 = 0,
        palette_mask_v0 = 0, num_colors_v0 = 0, pixel_width_v0 = 0, pixel_height_v0 = 0\<rparr>"]
        exI [of _ frames] exI [of _ out]) simp
qed

end
