(* ===== verification/Versions.thy ===== *)
theory Versions
  imports Legacy_Parse
begin

text \<open>
  The current decoder (\<open>src/src/aseprite/__init__.py\<close>) against the legacy one
  (\<open>src/aseprite/__init__.py\<close>). The current loop does not number layers (it
  increments \<open>layer_index\<close> only for a skipped layer type) and drops every layer whose
  type is neither 0 nor 1; on the chunk types both versions decode alike
  (\<open>shared_type\<close>), the two frame loops agree, the legacy one printing only the
  messages that are not \<open>print(vars(chunk))\<close> (\<open>printed_v0\<close>).
\<close>

definition shared_type :: "int \<Rightarrow> bool" where
  "shared_type t \<longleftrightarrow> t \<notin> {0x2004, 0x2005, 0x2006, 0x2007, 0x2019, 0x2020, 0x2023}"

fun printed_v0 :: "diag \<Rightarrow> bool" where
  "printed_v0 (ChunkVars s t) = False"
| "printed_v0 _ = True"

subsection \<open>The layer index of the current decoder\<close>

lemma construct_chunk_not_layer:
  "k \<noteq> LayerChunk_cls \<Longrightarrow> construct_chunk z k bs off = Inr (c, m) \<Longrightarrow> \<not> is_layer c"
  by (cases k) (auto simp add: bindE_Inr_iff)

lemma dispatch_chunk_index:
  "dispatch_chunk z bs off li t = Inr (new, li', msgs) \<Longrightarrow> (\<forall>lt. SkippedLayer lt \<notin> set msgs) \<Longrightarrow>
     li' = li \<and> (\<forall>c \<in> set new. is_layer c \<longrightarrow> layer_idx c = li)"
  by (auto simp add: dispatch_chunk_def bindE_Inr_iff LayerGroupChunk_def
           split: option.splits if_splits
           elim: LayerChunk_unpacked dest: construct_chunk_not_layer)

lemma parse_chunks_out_prefix:
  "parse_chunks z bs n off li out cs = Inr (off', li', out', cs') \<Longrightarrow> \<exists>ms. out' = out @ ms"
proof (induction n arbitrary: off li out cs)
  case (Suc n)
  then show ?case by (fastforce simp add: bindE_Inr_iff)
qed simp

lemma parse_chunks_index:
  "parse_chunks z bs n off li out cs = Inr (off', li', out', cs') \<Longrightarrow>
     (\<forall>lt. SkippedLayer lt \<notin> set out') \<Longrightarrow> (\<forall>c \<in> set cs. is_layer c \<longrightarrow> layer_idx c = li) \<Longrightarrow>
     li' = li \<and> (\<forall>c \<in> set cs'. is_layer c \<longrightarrow> layer_idx c = li)"
proof (induction n arbitrary: off li out cs)
  case (Suc n)
  from Suc.prems(1) obtain ch new li2 msgs where
    "Chunk bs off = Inr ch" and d: "dispatch_chunk z bs off li (chunk_type ch) = Inr (new, li2, msgs)"
    and rest: "parse_chunks z bs n (off + nat (chunk_size ch)) li2
                 (out @ ChunkVars (chunk_size ch) (chunk_type ch) # msgs) (cs @ new)
               = Inr (off', li', out', cs')"
    by (auto simp add: bindE_Inr_iff)
  have "\<forall>lt. SkippedLayer lt \<notin> set msgs"
    using parse_chunks_out_prefix [OF rest] Suc.prems(2) by auto
  with dispatch_chunk_index [OF d] Suc.IH [OF rest] Suc.prems(2,3) show ?case by auto
qed simp

lemma parse_frames_out_prefix:
  "parse_frames z bs i off li out fs = Inr (off', li', out', fs') \<Longrightarrow> \<exists>ms. out' = out @ ms"
proof (induction i arbitrary: off li out fs)
  case (Suc i)
  then show ?case by (fastforce simp add: bindE_Inr_iff dest: parse_chunks_out_prefix)
qed simp

lemma parse_frames_index:
  "parse_frames z bs i off li out fs = Inr (off', li', out', fs') \<Longrightarrow>
     (\<forall>lt. SkippedLayer lt \<notin> set out') \<Longrightarrow>
     (\<forall>f \<in> set fs. \<forall>c \<in> set (chunks f). is_layer c \<longrightarrow> layer_idx c = li) \<Longrightarrow>
     li' = li \<and> (\<forall>f \<in> set fs'. \<forall>c \<in> set (chunks f). is_layer c \<longrightarrow> layer_idx c = li)"
proof (induction i arbitrary: off li out fs)
  case (Suc i)
  from Suc.prems(1) obtain fr off1 li1 out1 cs where
    ch: "parse_chunks z bs (nat (num_chunks fr)) (off + frame_size) li out [] = Inr (off1, li1, out1, cs)"
    and rest: "parse_frames z bs i off1 li1 out1 (fs @ [frame_of fr cs]) = Inr (off', li', out', fs')"
    by (rule parse_frames_Suc_Inr)
  have "\<forall>lt. SkippedLayer lt \<notin> set out1"
    using parse_frames_out_prefix [OF rest] Suc.prems(2) by auto
  from parse_chunks_index [OF ch this] have "li1 = li" "\<forall>c \<in> set cs. is_layer c \<longrightarrow> layer_idx c = li"
    by auto
  with Suc.IH [OF rest] Suc.prems(2,3) show ?case by (auto simp add: frame_of_def)
qed simp

text \<open>C28. The current decoder does not number layers: unless a layer of an unsupported
  type was skipped, every decoded layer and layer group carries \<open>layer_index\<close> 0,
  because the counter is only incremented in the branch that skips a layer.\<close>

theorem parse_data_layer_index_zero:
  "parse_data z bs = Inr (h, frames, out) \<Longrightarrow> (\<forall>lt. SkippedLayer lt \<notin> set out) \<Longrightarrow>
     \<forall>f \<in> set frames. \<forall>c \<in> set (chunks f). is_layer c \<longrightarrow> layer_idx c = 0"
  by (auto simp add: parse_data_def bindE_Inr_iff dest!: parse_frames_index)

theorem parse_data_layer_index_zero_witness:
  "\<exists>h frames out. parse_data (\<lambda>_. None)
      ([0, 0, 0, 0, 0xE0, 0xA5, 1, 0] @ replicate 120 0 @
       [64, 0, 0, 0, 0xFA, 0xF1, 2, 0, 100, 0, 0, 0, 0, 0, 0, 0,
        24, 0, 0, 0, 4, 0x20, 0, 0, 1, 0, 0, 0, 0, 0, 0, 0, 0, 0, 255, 0, 0, 0, 0, 0,
        24, 0, 0, 0, 4, 0x20, 0, 0, 0, 0, 1, 0, 0, 0, 0, 0, 0, 0, 255, 0, 0, 0, 0, 0]) = Inr (h, frames, out)
     \<and> (\<forall>lt. SkippedLayer lt \<notin> set out)
     \<and> map (\<lambda>f. length (filter is_layer (chunks f))) frames = [2]
     \<and> (\<forall>f \<in> set frames. \<forall>c \<in> set (chunks f). is_layer c \<longrightarrow> layer_idx c = 0)"
proof -
  have "case parse_data (\<lambda>_. None)
      ([0, 0, 0, 0, 0xE0, 0xA5, 1, 0] @ replicate 120 0 @
       [64, 0, 0, 0, 0xFA, 0xF1, 2, 0, 100, 0, 0, 0, 0, 0, 0, 0,
        24, 0, 0, 0, 4, 0x20, 0, 0, 1, 0, 0, 0, 0, 0, 0, 0, 0, 0, 255, 0, 0, 0, 0, 0,
        24, 0, 0, 0, 4, 0x20, 0, 0, 0, 0, 1, 0, 0, 0, 0, 0, 0, 0, 255, 0, 0, 0, 0, 0]) of
      Inl _ \<Rightarrow> False
    | Inr (h, frames, out) \<Rightarrow> (\<forall>lt. SkippedLayer lt \<notin> set out)
        \<and> map (\<lambda>f. length (filter is_layer (chunks f))) frames = [2]"
    by (simp add: parse_data_def Header_def header_format_def header_size_def to_signed_def
        Frame_def Chunk_def unpack_from_def frame_format_def chunk_format_def calcsize_def
        frame_size_def dispatch_chunk_def find_chunk_type_def supported_chunks_def
        LayerChunk_def layer_format_def parse_string_def unpack_bytes_def py_decode_utf8_def
        utf8_decode.simps LayerGroupChunk_def frame_of_def parse_chunks_numeral)
  then obtain h frames out where run: "parse_data (\<lambda>_. None)
      ([0, 0, 0, 0, 0xE0, 0xA5, 1, 0] @ replicate 120 0 @
       [64, 0, 0, 0, 0xFA, 0xF1, 2, 0, 100, 0, 0, 0, 0, 0, 0, 0,
        24, 0, 0, 0, 4, 0x20, 0, 0, 1, 0, 0, 0, 0, 0, 0, 0, 0, 0, 255, 0, 0, 0, 0, 0,
        24, 0, 0, 0, 4, 0x20, 0, 0, 0, 0, 1, 0, 0, 0, 0, 0, 0, 0, 255, 0, 0, 0, 0, 0]) = Inr (h, frames, out)"
    and p: "(\<forall>lt. SkippedLayer lt \<notin> set out)
        \<and> map (\<lambda>f. length (filter is_layer (chunks f))) frames = [2]"
    by (auto split: sum.splits)
  show ?thesis
    using parse_data_layer_index_zero [OF run conjunct1 [OF p]] run p
    by (intro exI [of _ h] exI [of _ frames] exI [of _ out]) simp
qed


lemma construct_chunk_no_layer:
  "k \<noteq> LayerChunk_cls \<Longrightarrow> construct_chunk z k bs off \<noteq> Inr (Layer l, m)
     \<and> construct_chunk z k bs off \<noteq> Inr (LayerGroup a, m)"
  using construct_chunk_not_layer by fastforce

lemma dispatch_chunk_layer_types:
  "dispatch_chunk z bs off li t = Inr (new, li', msgs) \<Longrightarrow>
     \<forall>c \<in> set new. (\<forall>l. c = Layer l \<longrightarrow> layer_type (attrs l) = 0)
       \<and> (\<forall>a. c = LayerGroup a \<longrightarrow> layer_type a = 1)"
  by (auto simp add: dispatch_chunk_def bindE_Inr_iff LayerGroupChunk_def construct_chunk_no_layer
           split: option.splits if_splits)

text \<open>C32. The current decoder keeps only normal layers (type 0) and groups (type 1):
  a tileset-backed layer (type 2), which the data model lists as a layer kind, is decoded
  with its tileset index and then dropped from the frame.\<close>

theorem parse_data_layer_types:
  "parse_data z bs = Inr (h, frames, out) \<Longrightarrow>
     \<forall>f \<in> set frames. \<forall>c \<in> set (chunks f). (\<forall>l. c = Layer l \<longrightarrow> layer_type (attrs l) = 0)
       \<and> (\<forall>a. c = LayerGroup a \<longrightarrow> layer_type a = 1)"
  by (rule parse_data_all [OF dispatch_chunk_layer_types])

theorem parse_data_layer_types_witness:
  "\<exists>h frames out. parse_data (\<lambda>_. None)
      ([0, 0, 0, 0, 0xE0, 0xA5, 1, 0] @ replicate 120 0 @
       [92, 0, 0, 0, 0xFA, 0xF1, 3, 0, 100, 0, 0, 0, 0, 0, 0, 0,
        24, 0, 0, 0, 4, 0x20, 0, 0, 1, 0, 0, 0, 0, 0, 0, 0, 0, 0, 255, 0, 0, 0, 0, 0,
        24, 0, 0, 0, 4, 0x20, 0, 0, 0, 0, 1, 0, 0, 0, 0, 0, 0, 0, 255, 0, 0, 0, 0, 0,
        28, 0, 0, 0, 4, 0x20, 0, 0, 2, 0, 0, 0, 0, 0, 0, 0, 0, 0, 255, 0, 0, 0, 0, 0,
        5, 0, 0, 0]) = Inr (h, frames, out)
     \<and> SkippedLayer 2 \<in> set out \<and> map (\<lambda>f. length (chunks f)) frames = [2]
     \<and> (\<forall>f \<in> set frames. \<forall>c \<in> set (chunks f). (\<forall>l. c = Layer l \<longrightarrow> layer_type (attrs l) = 0)
       \<and> (\<forall>a. c = LayerGroup a \<longrightarrow> layer_type a = 1))"
proof -
  have "case parse_data (\<lambda>_. None)
      ([0, 0, 0, 0, 0xE0, 0xA5, 1, 0] @ replicate 120 0 @
       [92, 0, 0, 0, 0xFA, 0xF1, 3, 0, 100, 0, 0, 0, 0, 0, 0, 0,
        24, 0, 0, 0, 4, 0x20, 0, 0, 1, 0, 0, 0, 0, 0, 0, 0, 0, 0, 255, 0, 0, 0, 0, 0,
        24, 0, 0, 0, 4, 0x20, 0, 0, 0, 0, 1, 0, 0, 0, 0, 0, 0, 0, 255, 0, 0, 0, 0, 0,
        28, 0, 0, 0, 4, 0x20, 0, 0, 2, 0, 0, 0, 0, 0, 0, 0, 0, 0, 255, 0, 0, 0, 0, 0,
        5, 0, 0, 0]) of
      Inl _ \<Rightarrow> False
    | Inr (h, frames, out) \<Rightarrow> SkippedLayer 2 \<in> set out \<and> map (\<lambda>f. length (chunks f)) frames = [2]"
    by (simp add: parse_data_def Header_def header_format_def header_size_def to_signed_def
        Frame_def Chunk_def unpack_from_def frame_format_def chunk_format_def calcsize_def
        frame_size_def dispatch_chunk_def find_chunk_type_def supported_chunks_def
        LayerChunk_def layer_format_def layer_tileset_index_format_def parse_string_def
        unpack_bytes_def py_decode_utf8_def utf8_decode.simps LayerGroupChunk_def frame_of_def
        parse_chunks_numeral)
  then obtain h frames out where run: "parse_data (\<lambda>_. None)
      ([0, 0, 0, 0, 0xE0, 0xA5, 1, 0] @ replicate 120 0 @
       [92, 0, 0, 0, 0xFA, 0xF1, 3, 0, 100, 0, 0, 0, 0, 0, 0, 0,
        24, 0, 0, 0, 4, 0x20, 0, 0, 1, 0, 0, 0, 0, 0, 0, 0, 0, 0, 255, 0, 0, 0, 0, 0,
        24, 0, 0, 0, 4, 0x20, 0, 0, 0, 0, 1, 0, 0, 0, 0, 0, 0, 0, 255, 0, 0, 0, 0, 0,
        28, 0, 0, 0, 4, 0x20, 0, 0, 2, 0, 0, 0, 0, 0, 0, 0, 0, 0, 255, 0, 0, 0, 0, 0,
        5, 0, 0, 0]) = Inr (h, frames, out)"
    and p: "SkippedLayer 2 \<in> set out \<and> map (\<lambda>f. length (chunks f)) frames = [2]"
    by (auto split: sum.splits)
  show ?thesis
    using parse_data_layer_types [OF run] run p
    by (intro exI [of _ h] exI [of _ frames] exI [of _ out]) simp
qed

lemma dispatch_chunk_v0_same:
  "shared_type t \<Longrightarrow> dispatch_chunk_v0 z bs off li t = dispatch_chunk z bs off li t"
  by (auto simp add: shared_type_def dispatch_chunk_v0_def dispatch_chunk_def find_chunk_type_def
      supported_chunks_def bindE_assoc)

lemma dispatch_chunk_shared_msgs:
  "shared_type t \<Longrightarrow> dispatch_chunk z bs off li t = Inr (new, li', msgs) \<Longrightarrow>
     li' = li \<and> filter printed_v0 msgs = msgs"
  by (auto simp add: shared_type_def dispatch_chunk_def find_chunk_type_def supported_chunks_def
      bindE_Inr_iff split: if_splits)

lemma parse_chunks_v0_shared:
  "parse_chunks z bs n off li out cs = Inr (off', li', out', cs') \<Longrightarrow>
     (\<forall>s t. ChunkVars s t \<in> set out' \<longrightarrow> shared_type t) \<Longrightarrow>
     parse_chunks_v0 z bs n off li (filter printed_v0 out) cs
       = Inr (off', li', filter printed_v0 out', cs')"
proof (induction n arbitrary: off li out cs)
  case (Suc n)
  from Suc.prems(1) obtain ch new li2 msgs where
    ch: "Chunk bs off = Inr ch"
    and d: "dispatch_chunk z bs off li (chunk_type ch) = Inr (new, li2, msgs)"
    and rest: "parse_chunks z bs n (off + nat (chunk_size ch)) li2
                 (out @ ChunkVars (chunk_size ch) (chunk_type ch) # msgs) (cs @ new)
               = Inr (off', li', out', cs')"
    by (auto simp add: bindE_Inr_iff)
  obtain ms where "out' = (out @ ChunkVars (chunk_size ch) (chunk_type ch) # msgs) @ ms"
    using parse_chunks_out_prefix [OF rest] by blast
  then have sh: "shared_type (chunk_type ch)" using Suc.prems(2) by simp
  have "li2 = li" "filter printed_v0 msgs = msgs"
    using dispatch_chunk_shared_msgs [OF sh d] by simp_all
  with Suc.IH [OF rest Suc.prems(2)] ch d dispatch_chunk_v0_same [OF sh] show ?case
    by simp
qed simp

text \<open>C36. The legacy and current frame loops agree on every run that meets only chunk
  types both versions decode alike (all but layer, cel, cel-extra, colour-profile,
  palette, user-data and tileset, unknown ids included), as read from the preambles the
  current loop prints: the legacy loop returns the same frames, cursor and layer count,
  and prints the current messages without the \<open>vars(chunk)\<close> lines.\<close>

theorem parse_frames_v0_shared:
  "parse_frames z bs i off li out fs = Inr (off', li', out', fs') \<Longrightarrow>
     (\<forall>s t. ChunkVars s t \<in> set out' \<longrightarrow> shared_type t) \<Longrightarrow>
     parse_frames_v0 z bs i off li (filter printed_v0 out) fs
       = Inr (off', li', filter printed_v0 out', fs')"
proof (induction i arbitrary: off li out fs)
  case (Suc i)
  from Suc.prems(1) obtain fr off1 li1 out1 cs where
    fr: "Frame bs off = Inr fr"
    and ch: "parse_chunks z bs (nat (num_chunks fr)) (off + frame_size) li out [] = Inr (off1, li1, out1, cs)"
    and rest: "parse_frames z bs i off1 li1 out1 (fs @ [frame_of fr cs]) = Inr (off', li', out', fs')"
    by (auto simp add: bindE_Inr_iff)
  obtain ms where "out' = out1 @ ms" using parse_frames_out_prefix [OF rest] by blast
  then have "\<forall>s t. ChunkVars s t \<in> set out1 \<longrightarrow> shared_type t" using Suc.prems(2) by simp
  from parse_chunks_v0_shared [OF ch this] Suc.IH [OF rest Suc.prems(2)] fr show ?case
    by simp
qed simp

theorem parse_frames_v0_shared_witness:
  "parse_frames_v0 (\<lambda>_. None)
     [22, 0, 0, 0, 0xFA, 0xF1, 1, 0, 100, 0, 0, 0, 0, 0, 0, 0, 6, 0, 0, 0, 0x99, 0x99] 1 0 0 [] []
   = Inr (22, 0, [Skipped 0x9999],
          [frame_of \<lparr>fsize = 22, fmagic_number = 0xF1FA, num_chunks = 1, frame_duration = 100\<rparr> []])"
proof -
  have fr: "Frame [22, 0, 0, 0, 0xFA, 0xF1, 1, 0, 100, 0, 0, 0, 0, 0, 0, 0, 6, 0, 0, 0, 0x99, 0x99] 0
      = Inr \<lparr>fsize = 22, fmagic_number = 0xF1FA, num_chunks = 1, frame_duration = 100\<rparr>"
    by (simp add: Frame_def unpack_from_def frame_format_def calcsize_def)
  have ch: "Chunk [22, 0, 0, 0, 0xFA, 0xF1, 1, 0, 100, 0, 0, 0, 0, 0, 0, 0, 6, 0, 0, 0, 0x99, 0x99] 16
      = Inr \<lparr>chunk_size = 6, chunk_type = 0x9999\<rparr>"
    by (simp add: Chunk_def unpack_from_def chunk_format_def calcsize_def)
  have run: "parse_frames (\<lambda>_. None)
      [22, 0, 0, 0, 0xFA, 0xF1, 1, 0, 100, 0, 0, 0, 0, 0, 0, 0, 6, 0, 0, 0, 0x99, 0x99] 1 0 0 [] []
    = Inr (22, 0, [ChunkVars 6 0x9999, Skipped 0x9999],
          [frame_of \<lparr>fsize = 22, fmagic_number = 0xF1FA, num_chunks = 1, frame_duration = 100\<rparr> []])"
    using fr ch find_chunk_type_9999 by (simp add: frame_size_def dispatch_chunk_def)
  have "shared_type 0x9999" by (simp add: shared_type_def)
  then show ?thesis using parse_frames_v0_shared [OF run] by simp
qed

end
