(* ===== verification/Resilience.thy ===== *)
theory Resilience
  imports Parse
begin

text \<open>
  The cursor loop of \<open>AsepriteFile.parse_data\<close> (\<open>src/src/aseprite/__init__.py\<close>) on
  files laid out with consistent sizes. \<open>frame_bytes\<close> lays out a frame header and the
  encodings of its chunks; the generic lemmas \<open>parse_chunks_encoded\<close>,
  \<open>parse_frames_encoded\<close> and \<open>parse_data_encoded\<close> run the loops over such a file
  given, for each chunk encoding, its preamble and what the dispatcher returns for it
  wherever it is placed. \<open>chunk_bytes\<close> encodes a chunk of a given type and payload;
  on chunks whose types are outside the class table (\<open>skippable\<close>) the decoder runs to
  completion and returns every frame (liveness of the loop). The other direction of the
  same mechanism: a declared size below the preamble keeps the cursor where it is.
\<close>

definition chunk_bytes :: "int \<times> byte list \<Rightarrow> byte list" where
  "chunk_bytes tp = pack_fields chunk_format [int (6 + length (snd tp)), fst tp] @ snd tp"

definition skippable :: "int \<times> byte list \<Rightarrow> bool" where
  "skippable tp =
     (find_chunk_type (fst tp) = None \<and> 0 \<le> fst tp \<and> fst tp < 2 ^ 16
      \<and> 6 + length (snd tp) < 2 ^ 32)"

definition frame_bytes :: "int \<Rightarrow> byte list list \<Rightarrow> byte list" where
  "frame_bytes d es =
     pack_fields frame_format [int (16 + length (concat es)), 0xF1FA, int (length es), d] @ concat es"

definition frame_ok :: "int \<Rightarrow> byte list list \<Rightarrow> bool" where
  "frame_ok d es =
     (0 \<le> d \<and> d < 2 ^ 16 \<and> length es < 2 ^ 16 \<and> 16 + length (concat es) < 2 ^ 32)"

definition frame_hdr_of :: "int \<Rightarrow> byte list list \<Rightarrow> frame_header" where
  "frame_hdr_of d es =
     \<lparr>fsize = int (16 + length (concat es)), fmagic_number = 0xF1FA,
      num_chunks = int (length es), frame_duration = d\<rparr>"

lemma length_chunk_bytes:
  "skippable tp \<Longrightarrow> length (chunk_bytes tp) = 6 + length (snd tp)"
  by (simp add: chunk_bytes_def skippable_def length_pack_fields fits_def value_fields_def
      chunk_format_def calcsize_def)

lemma Chunk_bytes:
  assumes "skippable tp"
  shows "Chunk (pre @ chunk_bytes tp @ post) (length pre)
           = Inr \<lparr>chunk_size = int (6 + length (snd tp)), chunk_type = fst tp\<rparr>"
proof -
  have "unpack_from chunk_format (pre @ pack_fields chunk_format [int (6 + length (snd tp)), fst tp]
          @ (snd tp @ post)) (length pre) = Inr [int (6 + length (snd tp)), fst tp]"
    using assms
    by (intro unpack_from_pack) (simp_all add: chunk_format_def fits_def value_fields_def skippable_def)
  then show ?thesis by (simp add: Chunk_def chunk_bytes_def)
qed

lemma skippable_decodes:
  "skippable tp \<Longrightarrow>
     Chunk (pre @ chunk_bytes tp @ post) (length pre)
       = Inr \<lparr>chunk_size = int (length (chunk_bytes tp)), chunk_type = fst tp\<rparr>
     \<and> dispatch_chunk z (pre @ chunk_bytes tp @ post) (length pre) li (fst tp)
       = Inr ([], li, [Skipped (fst tp)])"
  by (simp add: Chunk_bytes length_chunk_bytes dispatch_unknown skippable_def)

lemma parse_chunks_encoded:
  assumes "\<forall>x \<in> set xs. \<forall>pre post.
             Chunk (pre @ enc x @ post) (length pre)
               = Inr \<lparr>chunk_size = int (length (enc x)), chunk_type = T x\<rparr>
             \<and> dispatch_chunk z (pre @ enc x @ post) (length pre) li (T x) = Inr (N x, li, M x)"
  shows "parse_chunks z (pre @ concat (map enc xs) @ post) (length xs) (length pre) li out cs
           = Inr (length pre + length (concat (map enc xs)), li,
                  out @ concat (map (\<lambda>x. ChunkVars (int (length (enc x))) (T x) # M x) xs),
                  cs @ concat (map N xs))"
  using assms
proof (induction xs arbitrary: pre out cs)
  case Nil
  then show ?case by simp
next
  case (Cons x xs)
  have ch: "Chunk (pre @ enc x @ concat (map enc xs) @ post) (length pre)
              = Inr \<lparr>chunk_size = int (length (enc x)), chunk_type = T x\<rparr>"
    and d: "dispatch_chunk z (pre @ enc x @ concat (map enc xs) @ post) (length pre) li (T x)
              = Inr (N x, li, M x)"
    using Cons.prems by simp_all
  have "parse_chunks z ((pre @ enc x) @ concat (map enc xs) @ post) (length xs)
          (length (pre @ enc x)) li (out @ ChunkVars (int (length (enc x))) (T x) # M x) (cs @ N x)
        = Inr (length (pre @ enc x) + length (concat (map enc xs)), li,
               (out @ ChunkVars (int (length (enc x))) (T x) # M x)
                 @ concat (map (\<lambda>x. ChunkVars (int (length (enc x))) (T x) # M x) xs),
               (cs @ N x) @ concat (map N xs))"
    using Cons.IH [of "pre @ enc x" "out @ ChunkVars (int (length (enc x))) (T x) # M x" "cs @ N x"]
      Cons.prems by simp
  then show ?case using ch d by simp
qed

lemma frame_bytes_split:
  "frame_bytes d es = pack_fields frame_format (frame_values (frame_hdr_of d es)) @ concat es"
  by (simp add: frame_bytes_def frame_values_def frame_hdr_of_def)

lemma frame_ok_fits:
  "frame_ok d es \<Longrightarrow> fits frame_format (frame_values (frame_hdr_of d es))"
  by (simp add: frame_ok_def fits_def value_fields_def frame_format_def frame_values_def frame_hdr_of_def)

lemma length_frame_header_bytes:
  "frame_ok d es \<Longrightarrow> length (pack_fields frame_format (frame_values (frame_hdr_of d es))) = frame_size"
  by (simp add: length_pack_fields frame_ok_fits frame_format_size)

lemma parse_frames_encoded:
  assumes "\<forall>(d, xs) \<in> set fs. frame_ok d (map enc xs)"
    and "\<forall>(d, xs) \<in> set fs. \<forall>x \<in> set xs. \<forall>pre post.
             Chunk (pre @ enc x @ post) (length pre)
               = Inr \<lparr>chunk_size = int (length (enc x)), chunk_type = T x\<rparr>
             \<and> dispatch_chunk z (pre @ enc x @ post) (length pre) li (T x) = Inr (N x, li, M x)"
  shows "parse_frames z (pre @ concat (map (\<lambda>(d, xs). frame_bytes d (map enc xs)) fs) @ post)
           (length fs) (length pre) li out frs
         = Inr (length pre + length (concat (map (\<lambda>(d, xs). frame_bytes d (map enc xs)) fs)), li,
                out @ concat (map (\<lambda>(d, xs).
                        concat (map (\<lambda>x. ChunkVars (int (length (enc x))) (T x) # M x) xs)) fs),
                frs @ map (\<lambda>(d, xs). frame_of (frame_hdr_of d (map enc xs)) (concat (map N xs))) fs)"
  using assms
proof (induction fs arbitrary: pre out frs)
  case Nil
  then show ?case by simp
next
  case (Cons f fs)
  obtain d xs where f: "f = (d, xs)" by (cases f)
  have ok: "frame_ok d (map enc xs)" using Cons.prems(1) f by simp
  define rest where "rest = concat (map (\<lambda>(d, xs). frame_bytes d (map enc xs)) fs) @ post"
  define hb where "hb = pack_fields frame_format (frame_values (frame_hdr_of d (map enc xs)))"
  have hb: "length hb = frame_size" using ok by (simp add: hb_def length_frame_header_bytes)
  have fb: "frame_bytes d (map enc xs) = hb @ concat (map enc xs)"
    by (simp add: hb_def frame_bytes_split)
  have fr: "Frame (pre @ frame_bytes d (map enc xs) @ rest) (length pre) = Inr (frame_hdr_of d (map enc xs))"
    unfolding frame_bytes_split
    using Frame_roundtrip [OF frame_ok_fits [OF ok], of pre] by (simp add: frame_hdr_of_def)
  have "parse_chunks z ((pre @ hb) @ concat (map enc xs) @ rest) (length xs) (length (pre @ hb)) li out []
        = Inr (length (pre @ hb) + length (concat (map enc xs)), li,
               out @ concat (map (\<lambda>x. ChunkVars (int (length (enc x))) (T x) # M x) xs),
               [] @ concat (map N xs))"
    using Cons.prems(2) f by (intro parse_chunks_encoded) simp
  then have ch: "parse_chunks z (pre @ frame_bytes d (map enc xs) @ rest)
          (nat (num_chunks (frame_hdr_of d (map enc xs)))) (length pre + frame_size) li out []
        = Inr (length (pre @ frame_bytes d (map enc xs)), li,
               out @ concat (map (\<lambda>x. ChunkVars (int (length (enc x))) (T x) # M x) xs),
               concat (map N xs))"
    using hb by (simp add: fb frame_hdr_of_def)
  have "parse_frames z ((pre @ frame_bytes d (map enc xs)) @ concat (map (\<lambda>(d, xs). frame_bytes d (map enc xs)) fs) @ post)
          (length fs) (length (pre @ frame_bytes d (map enc xs))) li
          (out @ concat (map (\<lambda>x. ChunkVars (int (length (enc x))) (T x) # M x) xs))
          (frs @ [frame_of (frame_hdr_of d (map enc xs)) (concat (map N xs))])
        = Inr (length (pre @ frame_bytes d (map enc xs))
                 + length (concat (map (\<lambda>(d, xs). frame_bytes d (map enc xs)) fs)), li,
               (out @ concat (map (\<lambda>x. ChunkVars (int (length (enc x))) (T x) # M x) xs))
                 @ concat (map (\<lambda>(d, xs).
                        concat (map (\<lambda>x. ChunkVars (int (length (enc x))) (T x) # M x) xs)) fs),
               (frs @ [frame_of (frame_hdr_of d (map enc xs)) (concat (map N xs))])
                 @ map (\<lambda>(d, xs). frame_of (frame_hdr_of d (map enc xs)) (concat (map N xs))) fs)"
    using Cons.IH [where pre = "pre @ frame_bytes d (map enc xs)"
        and out = "out @ concat (map (\<lambda>x. ChunkVars (int (length (enc x))) (T x) # M x) xs)"
        and frs = "frs @ [frame_of (frame_hdr_of d (map enc xs)) (concat (map N xs))]"] Cons.prems
    by simp
  then show ?case using fr ch f unfolding rest_def by simp
qed

lemma parse_data_encoded:
  assumes "fits header_format (header_values h)" "magic_number h = 0xA5E0"
    and "num_frames h = int (length fs)"
    and "\<forall>(d, xs) \<in> set fs. frame_ok d (map enc xs)"
    and "\<forall>(d, xs) \<in> set fs. \<forall>x \<in> set xs. \<forall>pre post.
             Chunk (pre @ enc x @ post) (length pre)
               = Inr \<lparr>chunk_size = int (length (enc x)), chunk_type = T x\<rparr>
             \<and> dispatch_chunk z (pre @ enc x @ post) (length pre) 0 (T x) = Inr (N x, 0, M x)"
  shows "parse_data z (pack_fields header_format (header_values h)
                        @ concat (map (\<lambda>(d, xs). frame_bytes d (map enc xs)) fs) @ post)
         = Inr (h, map (\<lambda>(d, xs). frame_of (frame_hdr_of d (map enc xs)) (concat (map N xs))) fs,
                concat (map (\<lambda>(d, xs).
                  concat (map (\<lambda>x. ChunkVars (int (length (enc x))) (T x) # M x) xs)) fs))"
proof -
  define hb where "hb = pack_fields header_format (header_values h)"
  have len: "length hb = header_size"
    using assms(1) by (simp add: hb_def length_pack_fields header_format_size)
  have hd: "Header (hb @ concat (map (\<lambda>(d, xs). frame_bytes d (map enc xs)) fs) @ post) 0 = Inr h"
    using Header_roundtrip [OF assms(1,2), of "[]"] by (simp add: hb_def)
  have "parse_frames z (hb @ concat (map (\<lambda>(d, xs). frame_bytes d (map enc xs)) fs) @ post)
          (length fs) (length hb) 0 [] []
        = Inr (length hb + length (concat (map (\<lambda>(d, xs). frame_bytes d (map enc xs)) fs)), 0,
               [] @ concat (map (\<lambda>(d, xs).
                  concat (map (\<lambda>x. ChunkVars (int (length (enc x))) (T x) # M x) xs)) fs),
               [] @ map (\<lambda>(d, xs). frame_of (frame_hdr_of d (map enc xs)) (concat (map N xs))) fs)"
    using assms(4,5) by (intro parse_frames_encoded) simp_all
  then show ?thesis
    using hd len assms(3) unfolding hb_def [symmetric] by (simp add: parse_data_def)
qed

text \<open>C35. The cursor does not move past a chunk whose declared size is 0: the loop reads
  the same preamble again for each remaining chunk of the frame, skipping it each time,
  and ends where it started. The declared size is never compared with the 6 bytes of the
  preamble.\<close>

theorem parse_chunks_zero_size:
  assumes "Chunk bs off = Inr ch" "chunk_size ch = 0" "find_chunk_type (chunk_type ch) = None"
  shows "parse_chunks z bs n off li out cs
           = Inr (off, li, out @ concat (replicate n [ChunkVars 0 (chunk_type ch), Skipped (chunk_type ch)]), cs)"
proof (induction n arbitrary: out)
  case (Suc n)
  show ?case
    using assms Suc.IH [of "out @ [ChunkVars 0 (chunk_type ch), Skipped (chunk_type ch)]"]
    by (simp add: dispatch_unknown)
qed simp

theorem parse_chunks_zero_size_witness:
  "parse_chunks (\<lambda>_. None) [0, 0, 0, 0, 0x99, 0x99] 3 0 0 [] []
     = Inr (0, 0, [ChunkVars 0 0x9999, Skipped 0x9999, ChunkVars 0 0x9999, Skipped 0x9999,
                   ChunkVars 0 0x9999, Skipped 0x9999], [])"
proof -
  have "Chunk [0, 0, 0, 0, 0x99, 0x99] 0 = Inr \<lparr>chunk_size = 0, chunk_type = 0x9999\<rparr>"
    by (simp add: Chunk_def unpack_from_def chunk_format_def calcsize_def)
  from parse_chunks_zero_size [OF this, of "\<lambda>_. None" 3 0 "[]" "[]"] find_chunk_type_9999 show ?thesis
    by (simp add: numeral_3_eq_3)
qed

end
