(* ===== verification/Layer_File.thy ===== *)
theory Layer_File
  imports Resilience Layer_Tree
begin

text \<open>
  Files made of layer chunks, end to end. \<open>layer_bytes\<close> lays out one layer chunk the
  way \<open>LayerChunk.__init__\<close> (\<open>src/src/aseprite/chunks.py\<close>) reads it: the preamble with
  the chunk's true size, the seven fields of \<open>layer_format\<close> and its three pad bytes,
  the length-prefixed name, and for a tileset layer the 4-byte tileset index. The layer
  codec decodes this layout back to the layer (\<open>LayerChunk_layer_bytes\<close>), and a frame of
  such chunks goes through \<open>parse_data\<close> and \<open>build_layer_tree\<close> to the forest of the
  depth encoding.
\<close>

definition layer_values :: "layer_attrs \<Rightarrow> int list" where
  "layer_values a =
     [lflags a, layer_type a, layer_child_level a, default_width a, default_height a,
      blend_mode a, lopacity a]"

definition layer_body :: "layer_attrs \<Rightarrow> int option \<Rightarrow> byte list" where
  "layer_body a ti =
     pack_fields layer_format (layer_values a) @ encode_string (lname a)
     @ (case ti of None \<Rightarrow> [] | Some t \<Rightarrow> pack_fields layer_tileset_index_format [t])"

definition layer_bytes :: "layer_attrs \<Rightarrow> int option \<Rightarrow> byte list" where
  "layer_bytes a ti =
     pack_fields chunk_format [int (6 + length (layer_body a ti)), 0x2004] @ layer_body a ti"

definition layer_ok :: "layer_attrs \<Rightarrow> int option \<Rightarrow> bool" where
  "layer_ok a ti =
     (fits layer_format (layer_values a) \<and> list_all scalar_value (lname a)
      \<and> length (utf8_encode (lname a)) < 65536 \<and> (layer_type a = 2 \<longleftrightarrow> ti \<noteq> None)
      \<and> pred_option (\<lambda>t. 0 \<le> t \<and> t < 2 ^ 32) ti \<and> 6 + length (layer_body a ti) < 2 ^ 32)"

definition decoded_layer :: "layer_attrs \<Rightarrow> chunk" where
  "decoded_layer a =
     (let l = \<lparr>chunk_size = int (length (layer_bytes a None)), chunk_type = 0x2004, attrs = a,
               tileset_index = None\<rparr>
      in if layer_type a = 1 then LayerGroup (LayerGroupChunk l) else Layer l)"

lemma layer_format_size [layout]: "calcsize layer_format = 16"
  by (simp add: calcsize_def layer_format_def)

lemma length_layer_bytes:
  "layer_ok a ti \<Longrightarrow> length (layer_bytes a ti) = 6 + length (layer_body a ti)"
  by (simp add: layer_bytes_def layer_ok_def length_pack_fields fits_def value_fields_def
      chunk_format_def calcsize_def)

lemma Chunk_layer_bytes:
  assumes "layer_ok a ti"
  shows "Chunk (pre @ layer_bytes a ti @ post) (length pre)
           = Inr \<lparr>chunk_size = int (length (layer_bytes a ti)), chunk_type = 0x2004\<rparr>"
proof -
  have "fits chunk_format [int (6 + length (layer_body a ti)), 0x2004]"
    using assms by (simp add: layer_ok_def fits_def value_fields_def chunk_format_def)
  then have "unpack_from chunk_format (pre @ pack_fields chunk_format
      [int (6 + length (layer_body a ti)), 0x2004] @ (layer_body a ti @ post)) (length pre)
      = Inr [int (6 + length (layer_body a ti)), 0x2004]"
    by (intro unpack_from_pack) (simp_all add: chunk_format_def)
  then show ?thesis
    using length_layer_bytes [OF assms] by (simp add: Chunk_def layer_bytes_def)
qed

lemma LayerChunk_layer_bytes:
  assumes ok: "layer_ok a ti"
  shows "LayerChunk (pre @ layer_bytes a ti @ post) (layer_index a) (length pre)
           = Inr \<lparr>chunk_size = int (length (layer_bytes a ti)), chunk_type = 0x2004, attrs = a,
                  tileset_index = ti\<rparr>"
proof -
  define cb where "cb = pack_fields chunk_format [int (6 + length (layer_body a ti)), 0x2004]"
  define lb where "lb = pack_fields layer_format (layer_values a)"
  define sb where "sb = encode_string (lname a)"
  define tb where "tb = (case ti of None \<Rightarrow> [] | Some t \<Rightarrow> pack_fields layer_tileset_index_format [t])"
  have fl: "fits layer_format (layer_values a)" using ok by (simp add: layer_ok_def)
  have fc: "fits chunk_format [int (6 + length (layer_body a ti)), 0x2004]"
    using ok by (simp add: layer_ok_def fits_def value_fields_def chunk_format_def)
  have lbt: "int (length (layer_bytes a ti)) = 6 + int (length (layer_body a ti))"
    using length_layer_bytes [OF ok] by simp
  have bytes: "layer_bytes a ti = cb @ lb @ sb @ tb"
    by (simp add: layer_bytes_def layer_body_def cb_def lb_def sb_def tb_def)
  have lcb: "length cb = 6" using fc by (simp add: cb_def length_pack_fields chunk_format_size)
  have llb: "length lb = 16" using fl by (simp add: lb_def length_pack_fields layer_format_size)
  have ch: "Chunk (pre @ layer_bytes a ti @ post) (length pre)
              = Inr \<lparr>chunk_size = int (6 + length (layer_body a ti)), chunk_type = 0x2004\<rparr>"
    using Chunk_layer_bytes [OF ok] lbt by simp
  have lv: "unpack_from layer_format (pre @ layer_bytes a ti @ post) (length pre + 6)
              = Inr (layer_values a)"
    using unpack_from_pack [OF wf_layer_format fl, of "pre @ cb" "(sb @ tb) @ post"] lcb
    by (simp add: bytes lb_def)
  have ps0: "parse_string ((pre @ cb @ lb) @ sb @ (tb @ post)) (length (pre @ cb @ lb))
               = Inr (length sb, lname a)"
    using ok unfolding sb_def layer_ok_def by (intro parse_string_encode_string) simp_all
  have o1: "length (pre @ cb @ lb) = length pre + 6 + calcsize layer_format"
    using lcb llb by (simp add: layer_format_size)
  have ps: "parse_string (pre @ layer_bytes a ti @ post) (length pre + 6 + calcsize layer_format)
              = Inr (length sb, lname a)"
    using ps0 unfolding o1 bytes append_assoc .
  have rec: "\<lparr>lflags = lflags a, layer_type = layer_type a, layer_child_level = layer_child_level a,
              default_width = default_width a, default_height = default_height a,
              blend_mode = blend_mode a, lopacity = lopacity a, lname = lname a,
              layer_index = layer_index a\<rparr> = a"
    by (cases a) simp
  show ?thesis
  proof (cases ti)
    case None
    then have "layer_type a \<noteq> 2" using ok by (simp add: layer_ok_def)
    with ch lv ps lbt None show ?thesis
      by (simp add: LayerChunk_def layer_values_def rec)
  next
    case (Some t)
    then have t2: "layer_type a = 2" and "0 \<le> t \<and> t < 2 ^ 32" using ok by (simp_all add: layer_ok_def)
    have o2: "length (pre @ cb @ lb @ sb) = length pre + 6 + calcsize layer_format + length sb"
      using lcb llb by (simp add: layer_format_size)
    have "unpack_from layer_tileset_index_format ((pre @ cb @ lb @ sb) @ pack_fields
            layer_tileset_index_format [t] @ post) (length (pre @ cb @ lb @ sb)) = Inr [t]"
      using t2 \<open>0 \<le> t \<and> t < 2 ^ 32\<close>
      by (intro unpack_from_pack) (simp_all add: layer_tileset_index_format_def fits_def value_fields_def)
    then have "unpack_from layer_tileset_index_format (pre @ layer_bytes a ti @ post)
                 (length pre + 6 + calcsize layer_format + length sb) = Inr [t]"
      unfolding o2 bytes by (simp add: tb_def Some)
    with ch lv ps lbt Some t2 show ?thesis
      by (simp add: LayerChunk_def layer_values_def rec)
  qed
qed

lemma find_chunk_type_layer: "find_chunk_type 0x2004 = Some LayerChunk_cls"
  by (simp add: find_chunk_type_def supported_chunks_def)

lemma layer_decodes:
  assumes "layer_ok a None" "layer_type a \<in> {0, 1}" "layer_index a = li"
  shows "Chunk (pre @ layer_bytes a None @ post) (length pre)
           = Inr \<lparr>chunk_size = int (length (layer_bytes a None)), chunk_type = 0x2004\<rparr>
         \<and> dispatch_chunk z (pre @ layer_bytes a None @ post) (length pre) li 0x2004
           = Inr ([decoded_layer a], li, [])"
  using Chunk_layer_bytes [OF assms(1)] LayerChunk_layer_bytes [OF assms(1), of pre post] assms(2,3)
  by (auto simp add: dispatch_chunk_def find_chunk_type_layer decoded_layer_def LayerGroupChunk_def)

lemma is_layer_decoded [simp]: "is_layer (decoded_layer a)"
  by (simp add: decoded_layer_def Let_def)

lemma parse_data_layer_file:
  assumes "fits header_format (header_values h)" "magic_number h = 0xA5E0" "num_frames h = 1"
    and "frame_ok d (map (\<lambda>a. layer_bytes a None) as)"
    and "\<forall>a \<in> set as. layer_ok a None \<and> layer_type a \<in> {0, 1} \<and> layer_index a = 0"
  shows "parse_data z (pack_fields header_format (header_values h)
                        @ frame_bytes d (map (\<lambda>a. layer_bytes a None) as) @ post)
         = Inr (h, [frame_of (frame_hdr_of d (map (\<lambda>a. layer_bytes a None) as)) (map decoded_layer as)],
                map (\<lambda>a. ChunkVars (int (length (layer_bytes a None))) 0x2004) as)"
proof -
  have "parse_data z (pack_fields header_format (header_values h)
                        @ concat (map (\<lambda>(d, xs). frame_bytes d (map (\<lambda>a. layer_bytes a None) xs))
                                   [(d, as)]) @ post)
        = Inr (h, map (\<lambda>(d, xs). frame_of (frame_hdr_of d (map (\<lambda>a. layer_bytes a None) xs))
                                   (concat (map (\<lambda>a. [decoded_layer a]) xs))) [(d, as)],
               concat (map (\<lambda>(d, xs). concat (map (\<lambda>a.
                 ChunkVars (int (length (layer_bytes a None))) 0x2004 # []) xs)) [(d, as)]))"
  proof (rule parse_data_encoded)
    show "\<forall>(d, xs) \<in> set [(d, as)]. \<forall>x \<in> set xs. \<forall>pre post.
        Chunk (pre @ layer_bytes x None @ post) (length pre)
          = Inr \<lparr>chunk_size = int (length (layer_bytes x None)), chunk_type = 0x2004\<rparr>
        \<and> dispatch_chunk z (pre @ layer_bytes x None @ post) (length pre) 0 0x2004
          = Inr ([decoded_layer x], 0, [])"
      using assms(5) layer_decodes by simp
  qed (use assms in simp_all)
  then show ?thesis by simp
qed

end
