(* ===== verification/Errors.thy ===== *)
theory Errors
  imports Parse
begin

text \<open>
  The exceptions \<open>AsepriteFile.parse_data\<close> (\<open>src/src/aseprite/__init__.py\<close>) can
  raise. \<open>ok_err r\<close> says that \<open>r\<close> is a value or an exception other than
  \<open>IndexError\<close> and \<open>KeyError\<close>; it is closed under \<open>bindE\<close>, and every reader
  and codec the loop calls satisfies it (the only \<open>KeyError\<close> of the code is in
  \<open>unpack_tiles\<close>, which the loop never calls, and the only \<open>IndexError\<close> is in
  \<open>build_layer_tree\<close>). So \<open>parse_data\<close> never raises either.
\<close>

definition ok_err :: "'a result \<Rightarrow> bool" where
  "ok_err r \<longleftrightarrow> (case r of Inl e \<Rightarrow> e \<noteq> IndexError \<and> e \<noteq> KeyError | Inr _ \<Rightarrow> True)"

lemma ok_err_Inr [simp]: "ok_err (Inr x)"
  by (simp add: ok_err_def)

lemma ok_err_Inl [simp]: "ok_err (Inl e) \<longleftrightarrow> e \<noteq> IndexError \<and> e \<noteq> KeyError"
  by (simp add: ok_err_def)

lemma ok_err_bindE [intro!]:
  "ok_err m \<Longrightarrow> (\<And>x. m = Inr x \<Longrightarrow> ok_err (f x)) \<Longrightarrow> ok_err (bindE m f)"
  by (cases m) (simp_all add: ok_err_def)

lemma ok_err_unpack_from [simp]: "ok_err (unpack_from fs bs off)"
  by (simp add: unpack_from_def)

lemma ok_err_unpack_bytes [simp]: "ok_err (unpack_bytes n bs off)"
  by (simp add: unpack_bytes_def)

lemma ok_err_parse_string [simp]: "ok_err (parse_string bs off)"
  by (auto simp add: parse_string_def py_decode_utf8_def split: list.split option.split)

lemma ok_err_py_inflate [simp]: "ok_err (py_inflate z raw)"
  by (simp add: py_inflate_def split: option.split)

lemma ok_err_Chunk [simp]: "ok_err (Chunk bs off)"
  by (auto simp add: Chunk_def split: list.split)

lemma ok_err_old_palette_colors [simp]: "ok_err (old_palette_colors bs k off)"
  by (induction k arbitrary: off) (auto split: list.split)

lemma ok_err_old_palette_packets [simp]: "ok_err (old_palette_packets bs k off)"
  by (induction k arbitrary: off) (auto split: list.split)

lemma ok_err_frame_tag_loop [simp]: "ok_err (frame_tag_loop bs k off)"
  by (induction k arbitrary: off) (auto split: list.split)

lemma ok_err_palette_color_loop [simp]: "ok_err (palette_color_loop bs k off)"
  by (induction k arbitrary: off) (auto simp add: Let_def split: list.split)

lemma ok_err_slice_loop [simp]: "ok_err (slice_loop bs fl k off)"
  by (induction k arbitrary: off) (auto simp add: Let_def split: list.split)

lemma ok_err_construct_chunk [simp]: "ok_err (construct_chunk z k bs off)"
  by (cases k) (auto simp add: OldPaleteChunk_0x0004_def OldPaleteChunk_0x0011_def LayerChunk_def
      CelChunk_def CelExtraChunk_def ColorProfileChunk_def MaskChunk_def FrameTagsChunk_def
      PathChunk_def PaletteChunk_def UserDataChunk_def SliceChunk_def TilesetChunk_def Let_def
      split: list.split)


lemma ok_err_Header [simp]: "ok_err (Header bs off)"
  by (auto simp add: Header_def Let_def split: list.split)

lemma ok_err_Frame [simp]: "ok_err (Frame bs off)"
  by (auto simp add: Frame_def Let_def split: list.split)

lemma ok_err_dispatch_chunk [simp]: "ok_err (dispatch_chunk z bs off li t)"
  by (auto simp add: dispatch_chunk_def LayerChunk_def Let_def split: option.split list.split)

lemma ok_err_parse_chunks [simp]: "ok_err (parse_chunks z bs n off li out cs)"
  by (induction n arbitrary: off li out cs) auto

lemma ok_err_parse_frames [simp]: "ok_err (parse_frames z bs i off li out frs)"
  by (induction i arbitrary: off li out frs) auto

lemma ok_err_parse_data: "ok_err (parse_data z bs)"
  by (auto simp add: parse_data_def)

lemma parse_data_not_IndexError: "parse_data z bs \<noteq> Inl IndexError"
  using ok_err_parse_data [of z bs] by (auto simp add: ok_err_def)

end
