(* ===== verification/Tags_File.thy ===== *)
theory Tags_File
  imports Chunks_Meta
begin

text \<open>
  Frame-tags chunks (0x2018) laid out the way \<open>FrameTagsChunk.__init__\<close>
  (\<open>src/src/aseprite/chunks.py\<close>) reads them: the preamble with the chunk's true size, the
  tag count and eight reserved bytes of \<open>frametag_head_format\<close>, then per tag the 17-byte
  record of \<open>frametag_format\<close> (from, to, loop direction, eight reserved bytes, the RGB
  colour, one reserved byte) followed by its length-prefixed name. The codec decodes
  every such chunk back to its tags, in order (\<open>FrameTagsChunk_roundtrip\<close>): the tag
  loop advances past each name, whatever its length.
\<close>

definition tag_values :: "frame_tag \<Rightarrow> int list" where
  "tag_values t = [tag_from t, tag_to t, tag_loop t, tag_red t, tag_green t, tag_blue t]"

definition tag_bytes :: "frame_tag \<Rightarrow> byte list" where
  "tag_bytes t = pack_fields frametag_format (tag_values t) @ encode_string (tag_name t)"

definition tag_ok :: "frame_tag \<Rightarrow> bool" where
  "tag_ok t =
     (fits frametag_format (tag_values t) \<and> list_all scalar_value (tag_name t)
      \<and> length (utf8_encode (tag_name t)) < 65536)"

definition tags_body :: "frame_tag list \<Rightarrow> byte list" where
  "tags_body ts =
     pack_fields frametag_head_format [int (length ts)] @ concat (map tag_bytes ts)"

definition tags_bytes :: "frame_tag list \<Rightarrow> byte list" where
  "tags_bytes ts =
     pack_fields chunk_format [int (6 + length (tags_body ts)), 0x2018] @ tags_body ts"

definition tags_ok :: "frame_tag list \<Rightarrow> bool" where
  "tags_ok ts =
     (list_all tag_ok ts \<and> length ts < 65536 \<and> 6 + length (tags_body ts) < 2 ^ 32)"

subsection \<open>Lemmas\<close>

lemma frametag_format_size [layout]: "calcsize frametag_format = 17"
  by (simp add: calcsize_def frametag_format_def)

lemma frametag_head_format_size [layout]: "calcsize frametag_head_format = 10"
  by (simp add: calcsize_def frametag_head_format_def)

lemma wf_frametag_format: "list_all wf_field frametag_format"
  by (simp add: frametag_format_def)

lemma frame_tag_record: "\<lparr>tag_from = tag_from t, tag_to = tag_to t, tag_loop = tag_loop t,
    tag_red = tag_red t, tag_green = tag_green t, tag_blue = tag_blue t,
    tag_name = tag_name t\<rparr> = t"
  by (cases t) simp

lemma length_tag_bytes:
  "tag_ok t \<Longrightarrow> length (tag_bytes t) = calcsize frametag_format + length (encode_string (tag_name t))"
  by (simp add: tag_bytes_def tag_ok_def length_pack_fields)

lemma frame_tag_loop_tag_bytes:
  assumes "list_all tag_ok ts"
  shows "frame_tag_loop (pre @ concat (map tag_bytes ts) @ post) (length ts) (length pre)
           = Inr (ts, length pre + length (concat (map tag_bytes ts)))"
  using assms
proof (induction ts arbitrary: pre)
  case (Cons t ts)
  have ok: "tag_ok t" and oks: "list_all tag_ok ts" using Cons.prems by simp_all
  define rest where "rest = concat (map tag_bytes ts) @ post"
  have buf: "pre @ concat (map tag_bytes (t # ts)) @ post
      = pre @ pack_fields frametag_format (tag_values t) @ (encode_string (tag_name t) @ rest)"
    by (simp add: rest_def tag_bytes_def)
  have vs: "unpack_from frametag_format (pre @ concat (map tag_bytes (t # ts)) @ post) (length pre)
      = Inr (tag_values t)"
    unfolding buf using ok by (intro unpack_from_pack wf_frametag_format) (simp add: tag_ok_def)
  have lp: "length (pre @ pack_fields frametag_format (tag_values t)) =
      length pre + calcsize frametag_format"
    using ok by (simp add: tag_ok_def length_pack_fields)
  have ps: "parse_string (pre @ concat (map tag_bytes (t # ts)) @ post)
      (length pre + calcsize frametag_format) = Inr (length (encode_string (tag_name t)), tag_name t)"
    using ok parse_string_encode_string [of "tag_name t" "pre @ pack_fields frametag_format (tag_values t)" rest]
    unfolding buf lp by (simp add: tag_ok_def)
  have ih: "frame_tag_loop (pre @ concat (map tag_bytes (t # ts)) @ post) (length ts)
      (length pre + calcsize frametag_format + length (encode_string (tag_name t)))
      = Inr (ts, length pre + length (concat (map tag_bytes (t # ts))))"
    using Cons.IH [OF oks, of "pre @ tag_bytes t"] length_tag_bytes [OF ok] by (simp add: add.assoc)
  show ?case
    using vs ps ih by (simp add: tag_values_def frame_tag_record)
qed simp

lemma tags_bytes_split:
  assumes "tags_ok ts"
  shows "tags_bytes ts = pack_fields chunk_format [int (length (tags_bytes ts)), 0x2018]
           @ pack_fields frametag_head_format [int (length ts)] @ concat (map tag_bytes ts)
     \<and> length (pack_fields chunk_format [int (length (tags_bytes ts)), 0x2018]) = 6
     \<and> length (pack_fields frametag_head_format [int (length ts)]) = calcsize frametag_head_format
     \<and> fits chunk_format [int (length (tags_bytes ts)), 0x2018]
     \<and> fits frametag_head_format [int (length ts)]"
proof -
  have fc: "fits chunk_format [int (6 + length (tags_body ts)), 0x2018]"
    using assms by (simp add: tags_ok_def fits_def value_fields_def chunk_format_def)
  then have "length (tags_bytes ts) = 6 + length (tags_body ts)"
    by (simp add: tags_bytes_def length_pack_fields chunk_format_def calcsize_def)
  moreover have "fits frametag_head_format [int (length ts)]"
    using assms by (simp add: tags_ok_def fits_def value_fields_def frametag_head_format_def)
  ultimately show ?thesis
    using fc by (simp add: tags_bytes_def tags_body_def length_pack_fields chunk_format_def
        calcsize_def)
qed

lemma tags_bytes_head:
  assumes "tags_ok ts"
  shows "Chunk (pre @ tags_bytes ts @ post) (length pre)
           = Inr \<lparr>chunk_size = int (length (tags_bytes ts)), chunk_type = 0x2018\<rparr>
     \<and> unpack_from frametag_head_format (pre @ tags_bytes ts @ post) (length pre + 6)
           = Inr [int (length ts)]"
proof -
  define cb where "cb = pack_fields chunk_format [int (length (tags_bytes ts)), 0x2018]"
  define hb where "hb = pack_fields frametag_head_format [int (length ts)]"
  define tb where "tb = concat (map tag_bytes ts)"
  have sp: "tags_bytes ts = cb @ hb @ tb" "length cb = 6"
    and fc: "fits chunk_format [int (length (tags_bytes ts)), 0x2018]"
    and fh: "fits frametag_head_format [int (length ts)]"
    using tags_bytes_split [OF assms] by (simp_all add: cb_def hb_def tb_def)
  have "unpack_from chunk_format (pre @ cb @ (hb @ tb @ post)) (length pre)
      = Inr [int (length (tags_bytes ts)), 0x2018]"
    unfolding cb_def using fc by (intro unpack_from_pack) (simp_all add: chunk_format_def)
  moreover have "unpack_from frametag_head_format ((pre @ cb) @ hb @ (tb @ post)) (length (pre @ cb))
      = Inr [int (length ts)]"
    unfolding hb_def using fh by (intro unpack_from_pack) (simp_all add: frametag_head_format_def)
  ultimately show ?thesis using sp by (simp add: Chunk_def)
qed

text \<open>C39. The frame-tags codec decodes every well-formed tags chunk to exactly its tags,
  in order: the count, and for each tag its range, loop direction, colour and name, each
  tag read right after the previous tag's name.\<close>

theorem FrameTagsChunk_roundtrip:
  assumes "tags_ok ts"
  shows "FrameTagsChunk (pre @ tags_bytes ts @ post) (length pre)
           = Inr \<lparr>chunk_size = int (length (tags_bytes ts)), chunk_type = 0x2018, tags = ts\<rparr>"
proof -
  define hdr where "hdr = pack_fields chunk_format [int (length (tags_bytes ts)), 0x2018]
      @ pack_fields frametag_head_format [int (length ts)]"
  have oks: "list_all tag_ok ts" using assms by (simp add: tags_ok_def)
  have sp: "pre @ tags_bytes ts @ post = (pre @ hdr) @ concat (map tag_bytes ts) @ post"
    and lh: "length (pre @ hdr) = length pre + calcsize frametag_head_format + 6"
    using tags_bytes_split [OF assms] by (simp_all add: hdr_def)
  have "frame_tag_loop (pre @ tags_bytes ts @ post) (length ts)
      (length pre + calcsize frametag_head_format + 6) = Inr (ts, length (pre @ hdr) + length (concat (map tag_bytes ts)))"
    using frame_tag_loop_tag_bytes [OF oks, of "pre @ hdr" post] unfolding sp lh by simp
  with tags_bytes_head [OF assms, of pre post] show ?thesis
    by (simp add: FrameTagsChunk_def)
qed

theorem FrameTagsChunk_roundtrip_witness:
  "FrameTagsChunk (tags_bytes [\<lparr>tag_from = 0, tag_to = 3, tag_loop = 0, tag_red = 255,
       tag_green = 0, tag_blue = 0, tag_name = [119, 97, 108, 107]\<rparr>,
     \<lparr>tag_from = 4, tag_to = 7, tag_loop = 1, tag_red = 0, tag_green = 0, tag_blue = 255,
       tag_name = [114, 117, 110]\<rparr>]) 0
   = Inr \<lparr>chunk_size = 61, chunk_type = 0x2018,
          tags = [\<lparr>tag_from = 0, tag_to = 3, tag_loop = 0, tag_red = 255, tag_green = 0,
                   tag_blue = 0, tag_name = [119, 97, 108, 107]\<rparr>,
                  \<lparr>tag_from = 4, tag_to = 7, tag_loop = 1, tag_red = 0, tag_green = 0,
                   tag_blue = 255, tag_name = [114, 117, 110]\<rparr>]\<rparr>"
proof -
  have ok: "tags_ok [\<lparr>tag_from = 0, tag_to = 3, tag_loop = 0, tag_red = 255,
       tag_green = 0, tag_blue = 0, tag_name = [119, 97, 108, 107]\<rparr>,
     \<lparr>tag_from = 4, tag_to = 7, tag_loop = 1, tag_red = 0, tag_green = 0, tag_blue = 255,
       tag_name = [114, 117, 110]\<rparr>]"
    by (simp add: tags_ok_def tag_ok_def tag_values_def fits_def value_fields_def
        frametag_format_def scalar_value_def utf8_encode_def utf8_encode_char_def
        tags_body_def tag_bytes_def encode_string_def length_pack_fields
        frametag_head_format_def calcsize_def)
  have len: "length (tags_bytes [\<lparr>tag_from = 0, tag_to = 3, tag_loop = 0, tag_red = 255,
       tag_green = 0, tag_blue = 0, tag_name = [119, 97, 108, 107]\<rparr>,
     \<lparr>tag_from = 4, tag_to = 7, tag_loop = 1, tag_red = 0, tag_green = 0, tag_blue = 255,
       tag_name = [114, 117, 110]\<rparr>]) = 61"
    by (simp add: tags_bytes_def tags_body_def tag_bytes_def tag_values_def encode_string_def
        utf8_encode_def utf8_encode_char_def length_pack_fields chunk_format_def
        frametag_format_def frametag_head_format_def calcsize_def)
  show ?thesis
    using FrameTagsChunk_roundtrip [OF ok, of "[]" "[]"] len by simp
qed

end
