(* ===== verification/Spec2Isabelle.thy ===== *)
theory Spec2Isabelle
  imports Versions Layer_File Errors Tags_File
begin

text \<open>
  \<^bold>\<open>A verified model of py_aseprite's decoder.\<close>

  The library decodes an Aseprite sprite file held in one byte buffer. The modelled code
  is the current version under \<open>src/src/aseprite/\<close>: \<open>headers.py\<close> (the 128-byte file
  header and the 16-byte frame header), \<open>chunks.py\<close> (the string reader and one codec
  class per chunk type) and \<open>__init__.py\<close> (\<open>AsepriteFile\<close>: the cursor loop
  \<open>parse_data\<close> over frames and chunks and the post-pass \<open>build_layer_tree\<close>).
  Data flows one way: buffer, header, frames, chunks, flat layer list, layer forest.

  \<^bold>\<open>Theories.\<close>
  \<^item> \<open>Prelude\<close>: bytes and buffers (\<open>8 word list\<close>), the exceptions as the datatype
    \<open>error\<close>, results \<open>error + 'a\<close> sequenced by \<open>bindE\<close>, Python slicing
    (\<open>py_slice\<close>, \<open>py_slice_step\<close>), and the Python values the code mixes
    (\<open>pyval\<close>: ints, strings, tuples) with \<open>==\<close>, \<open>range\<close> and \<open>+\<close> on them
    (\<open>py_eq\<close>, \<open>py_range\<close>, \<open>py_add\<close>), where a type mismatch is \<open>TypeError\<close>.
  \<^item> \<open>Struct\<close>: the semantics of Python's \<open>struct\<close> module as the code uses it
    (little-endian formats of pad bytes and 1/2/4-byte signed and unsigned fields), with the
    encoder \<open>pack_fields\<close>: arity and range of unpacked values (\<open>unpack_from_bounds\<close>) and
    the pack/unpack round trip.
  \<^item> \<open>Strings\<close>: \<open>parse_string\<close> and the strict UTF-8 codec it calls
    (\<open>utf8_decode\<close>, CPython's decoder: shortest forms only, no surrogates, nothing above
    U+10FFFF); round trips in both directions for characters, texts and length-prefixed
    strings.
  \<^item> \<open>Headers\<close>: \<open>Header\<close> and \<open>Frame\<close> with their formats; the magic checks, short
    buffers and the encode/decode round trip of both records; the readers
    \<open>read_uint\<close>/\<open>read_sint\<close> of the data model's byte table, against which the header
    layout is checked.
  \<^item> \<open>Chunks_Basic\<close>, \<open>Chunks_Meta\<close>: every chunk class as a record (extending the
    preamble record \<open>chunk_hdr\<close> when the class calls \<open>Chunk.__init__\<close>) and its
    constructor as a function of the buffer and the chunk offset; counted loops as
    recursive functions returning the items and the advanced offset; the variant type
    \<open>chunk\<close>, the class table \<open>supported_chunks\<close> with each \<open>chunk_id\<close>, and the
    generic constructor call \<open>construct_chunk\<close>. \<open>zlib.decompress\<close> is a parameter
    \<open>inflate\<close> (\<open>None\<close> for \<open>zlib.error\<close>), so every codec theorem holds for any
    decompressor; what the code prints is returned as \<open>diag\<close> values.
  \<^item> \<open>Parse\<close>: \<open>parse_data\<close> as \<open>dispatch_chunk\<close> (the body of the chunk loop),
    \<open>parse_chunks\<close> and \<open>parse_frames\<close> (the two \<open>for\<close> loops as recursions on the
    remaining count); \<open>chunk_cursor\<close>/\<open>frame_cursor\<close> walk the declared sizes alone,
    and \<open>frame_types\<close> lists the chunk types that walk meets; \<open>is_skip\<close> picks the
    messages that record a chunk as not decoded.
  \<^item> \<open>Layer_Tree\<close>: \<open>build_layer_tree\<close> over an explicit heap: layers are named by their
    position in \<open>self.layers\<close>, each group's \<open>children\<close> list is a map from positions to
    position lists, \<open>stack\<close> and \<open>layer_tree\<close> hold positions, so the aliasing of group
    objects between the stack and the tree is explicit. Two specifications: the
    depth-encoded forest (\<open>layer_parent\<close>, \<open>forest_upto\<close>) on well-formed depths, and
    the invariant \<open>tree_inv\<close> (stack entries are earlier groups, only groups have
    children, roots and children lists together hold each processed layer once) on any
    nonnegative depths; the multiset \<open>mset\<close> states the last part.
  \<^item> \<open>Resilience\<close>: encoders \<open>chunk_bytes\<close> and \<open>frame_bytes\<close> that lay out chunks and
    frames with consistent declared sizes, and the behaviour of the cursor loop on chunks
    of unknown type (it always gets through them) and on a zero declared size (it stays).
    Its generic lemmas \<open>parse_chunks_encoded\<close>, \<open>parse_frames_encoded\<close> and
    \<open>parse_data_encoded\<close> run the loops over any file whose chunk encodings decode the
    same wherever they are placed.
  \<^item> \<open>Layer_File\<close>: the encoder \<open>layer_bytes\<close> of a layer chunk (preamble, the fields
    of \<open>layer_format\<close>, the length-prefixed name, the tileset index of a tileset layer),
    the round trip of \<open>LayerChunk\<close> on it, and \<open>parse_data\<close> on a frame of layers.
  \<^item> \<open>Tags_File\<close>: the encoder \<open>tags_bytes\<close> of a frame-tags chunk and the round trip
    of \<open>FrameTagsChunk\<close> on it.
  \<^item> \<open>Errors\<close>: the exceptions of the decoding loop: \<open>ok_err\<close> (a value, or an
    exception other than \<open>IndexError\<close> and \<open>KeyError\<close>) holds of every reader and
    codec and is closed under \<open>bindE\<close>.
  \<^item> \<open>Legacy_Classes\<close>, \<open>Legacy_Codecs\<close>, \<open>Legacy_Parse\<close>: the older copy under
    \<open>src/aseprite/\<close>, every part translated from its own lines with the suffix
    \<open>_v0\<close>. \<open>Legacy_Classes\<close> holds the classes that are textually the current ones
    (\<open>parse_string_v0\<close>, \<open>Chunk_v0\<close>, \<open>Frame_v0\<close>, both old palettes, mask, path,
    frame tags, slice, layer group) and the struct formats of the others, each with a
    \<open>[simp]\<close> rule equating it with the current definition. \<open>Legacy_Codecs\<close> holds the
    classes that differ (\<open>Header_v0\<close>, \<open>LayerChunk_v0\<close>, \<open>CelChunk_v0\<close>,
    \<open>CelExtraChunk_v0\<close>, \<open>PaletteChunk_v0\<close>, \<open>UserDataChunk_v0\<close>), and
    \<open>Legacy_Parse\<close> the \<open>if\<close>/\<open>elif\<close> dispatcher \<open>dispatch_chunk_v0\<close> with its
    loops, \<open>parse_data_v0\<close>, the tree builder \<open>build_layer_tree_v0\<close> and
    \<open>AsepriteFile_v0\<close>.
  \<^item> \<open>Versions\<close>: the current decoder against the legacy one: layer numbering, the
    layer types each keeps, and the agreement of the two frame loops on the chunk types
    both decode alike (\<open>shared_type\<close>).
  \<^item> this theory: the document assembler \<open>AsepriteFile\<close>.

  \<^bold>\<open>What is proved.\<close> For the cursor loop: it advances by declared sizes only
  (\<open>parse_frames_cursor\<close>, also for the legacy loop), consumes exactly the declared frame
  sizes when they are consistent, skips unknown chunk types, and fails with the magic-number
  error on a bad header or frame. Accounting: a successful decode returns as many frames
  as the header counts, and every declared chunk is either kept or recorded by a skip
  message (\<open>parse_data_accounting\<close>). For strings: both round trips of the length-prefixed
  UTF-8 reader. For the layer tree: refinement of the depth-encoded forest on well-formed
  input, and that the builder never pops an empty stack on decoded layers. For the codecs:
  the exact behaviour of each, including the defects listed as findings (compressed cels
  never decode, raw cel pixels lose 12 bytes, \<open>unpack_tiles\<close> always returns \<open>None\<close>,
  0x0011 palettes always raise, through \<open>range\<close> of a tuple, ICC data is never read
  although every colour-profile chunk decodes, mask bitmaps are empty, the current decoder
  does not number layers). Layouts: the header decoder reads every field at the offset
  and width of the data model's byte table (\<open>Header_layout\<close>); the frame-tags codec
  decodes every encoded tags chunk to its tags (\<open>FrameTagsChunk_roundtrip\<close>). Between the versions: the headers agree on their common
  fields, the legacy palette swaps green and blue, the legacy cel codec decodes raw and
  compressed cels correctly, and the legacy decoder numbers layers sequentially.
  Termination: the stack-popping loop is total (\<open>pop_while_total\<close>). Safety: the layer
  codec never consults the declared chunk size: a decoded layer was read from at least 24
  bytes, and rewriting its size field to any value decodes the same layer
  (\<open>LayerChunk_reads_past_chunk\<close>), against the spec's rule that decoding stays inside
  offset+size. Type: the current decoder keeps
  only layers of type 0 and groups of type 1 (\<open>parse_data_layer_types\<close>), so tileset
  layers are lost; this and the layer invariants of the tree builder are instances of one
  generic lemma, \<open>parse_data_all\<close>, that lifts a property of the dispatcher's output to
  every chunk of every frame.
  Invariant: whatever the depths, as long as none is negative, the tree builder files
  every layer exactly once (\<open>build_layer_tree_partition\<close>), which settles the spec's
  open question on depth jumps as far as loss and duplication go. Liveness: every file
  of well-formed frames whose chunks have unknown types decodes to the end, through
  \<open>AsepriteFile\<close> (\<open>AsepriteFile_skippable_file\<close>). Safety: a declared chunk size of 0
  keeps the cursor in place (\<open>parse_chunks_zero_size\<close>). Equivalence: the legacy frame
  loop equals the current one on every run that meets only the chunk types both decode
  alike (\<open>parse_frames_v0_shared\<close>).
  End to end: on an encoded file of normal layers and groups with well-formed depths,
  \<open>AsepriteFile\<close> returns exactly the forest of the depth encoding
  (\<open>AsepriteFile_layer_forest\<close>), composing the layer codec round trip, the cursor
  loop and the tree builder. Errors: \<open>AsepriteFile\<close> never raises \<open>KeyError\<close>
  and raises \<open>IndexError\<close> exactly when the file has no frame
  (\<open>AsepriteFile_IndexError_iff\<close>). Legacy layer types: the legacy decoder keeps one
  layer or group per layer chunk of each frame, counted against \<open>frame_types\<close>, and
  makes a group of every odd type (\<open>parse_data_v0_layer_types\<close>).

  \<^bold>\<open>Loops and termination.\<close> Every loop of the code is bounded: the frame and chunk
  loops and the codecs' \<open>range(n)\<close> loops are recursions on the count read from the
  buffer, the UTF-8 decoder is a \<open>function\<close> whose termination is proved by the length
  of the remaining bytes, and the stack-popping \<open>while\<close> loop is a \<open>function\<close> on the
  stack's length. No fuel is needed anywhere.

  \<^bold>\<open>Not modelled.\<close> The \<open>print\<close> calls are kept as returned \<open>diag\<close> values, but the
  output printed before an exception is not (a failing decode returns only the error).
  zlib itself is a parameter: every theorem holds for any decompressor. The \<open>HeaderFlags\<close>
  enumeration of the current \<open>headers.py\<close> is never used by the code. Floating-point
  arithmetic appears once (the mask bitmap size) and is exact there, so it is modelled over
  the naturals. Of the program's lines, only imports, \<open>class\<close> statements, comments,
  \<open>HeaderFlags\<close> and the unused \<open>slice_key_format\<close> attribute of the legacy
  \<open>SliceChunk\<close> are not the translation of some definition.
\<close>

record aseprite_file =
  af_header :: header
  af_frames :: "frame list"
  af_diags :: "diag list"
  af_layers :: "chunk list"
  af_tree :: tree_state

definition AsepriteFile :: "inflate \<Rightarrow> buffer \<Rightarrow> aseprite_file result" where
  "AsepriteFile z data =
     bindE (parse_data z data) (\<lambda>(head, frames, out).
       bindE (build_layer_tree frames) (\<lambda>(layers, st).
         Inr \<lparr>af_header = head, af_frames = frames, af_diags = out, af_layers = layers,
              af_tree = st\<rparr>))"

lemma AsepriteFile_Cons:
  assumes "parse_data z bs = Inr (h, f # fs, out)"
  shows "\<exists>a. AsepriteFile z bs = Inr a"
proof -
  obtain st where "build_layer_tree (f # fs) = Inr (filter is_layer (chunks f), st)"
    using build_layer_tree_Cons parse_data_levels [OF assms] by fastforce
  then show ?thesis using assms by (simp add: AsepriteFile_def)
qed

text \<open>C9. \<open>AsepriteFile\<close> raises only what \<open>parse_data\<close> raises, or \<open>IndexError\<close> when the
  file declares no frames (\<open>self.frames[0]\<close> in \<open>build_layer_tree\<close>): the stack-popping
  loop never pops an empty stack, because every decoded layer has a nonnegative depth.\<close>

theorem AsepriteFile_errors:
  "AsepriteFile z bs = Inl e \<Longrightarrow>
   parse_data z bs = Inl e \<or> (e = IndexError \<and> (\<exists>h out. parse_data z bs = Inr (h, [], out)))"
proof (cases "parse_data z bs")
  case (Inl e')
  then show "AsepriteFile z bs = Inl e \<Longrightarrow> ?thesis" by (simp add: AsepriteFile_def)
next
  case (Inr r)
  obtain h frames out where r: "r = (h, frames, out)" by (cases r) blast
  show "AsepriteFile z bs = Inl e \<Longrightarrow> ?thesis"
  proof (cases frames)
    case Nil
    then show "AsepriteFile z bs = Inl e \<Longrightarrow> ?thesis"
      using Inr r by (simp add: AsepriteFile_def build_layer_tree_def)
  next
    case (Cons f fs)
    then show "AsepriteFile z bs = Inl e \<Longrightarrow> ?thesis"
      using AsepriteFile_Cons [of z bs h f fs out] Inr r by auto
  qed
qed

lemma parse_data_no_frames:
  "parse_data z ([0, 0, 0, 0, 0xE0, 0xA5, 0, 0] @ replicate 120 0) =
   Inr (\<lparr>filesize = 0, magic_number = 0xA5E0, num_frames = 0, width = 0, height = 0,
         color_depth = 0, flags = 0, speed_deprecated = 0, palette_mask = 0, num_colors = 0,
         pixel_width = 0, pixel_height = 0, grid_x_position = 0, grid_y_position = 0,
         grid_width = 0, grid_height = 0\<rparr>, [], [])"
proof -
  have "Header ([0, 0, 0, 0, 0xE0, 0xA5, 0, 0] @ replicate 120 0) 0 =
   Inr \<lparr>filesize = 0, magic_number = 0xA5E0, num_frames = 0, width = 0, height = 0,
        color_depth = 0, flags = 0, speed_deprecated = 0, palette_mask = 0, num_colors = 0,
        pixel_width = 0, pixel_height = 0, grid_x_position = 0, grid_y_position = 0,
        grid_width = 0, grid_height = 0\<rparr>"
    by (simp add: Header_def unpack_from_def header_format_def calcsize_def to_signed_def)
  then show ?thesis by (simp add: parse_data_def)
qed

theorem AsepriteFile_errors_witness:
  "AsepriteFile (\<lambda>_. None) ([0, 0, 0, 0, 0xE0, 0xA5, 0, 0] @ replicate 120 0) = Inl IndexError
   \<and> (\<exists>h out. parse_data (\<lambda>_. None) ([0, 0, 0, 0, 0xE0, 0xA5, 0, 0] @ replicate 120 0)
                = Inr (h, [], out))"
proof -
  have a: "AsepriteFile (\<lambda>_. None) ([0, 0, 0, 0, 0xE0, 0xA5, 0, 0] @ replicate 120 0)
           = Inl IndexError"
    unfolding AsepriteFile_def parse_data_no_frames by (simp add: build_layer_tree_def)
  show ?thesis
    using AsepriteFile_errors [OF a] a unfolding parse_data_no_frames by simp
qed

text \<open>C34. Liveness of the whole decoder: on every file laid out by
  \<open>Resilience.frame_bytes\<close> after a well-formed header, with at least one frame and only
  chunks whose types are outside the class table, \<open>AsepriteFile\<close> runs to the end,
  whatever follows the last frame: it returns the header, one frame per encoded frame
  (with no chunks), the two messages printed per skipped chunk, no layers and an empty
  layer tree.\<close>

theorem AsepriteFile_skippable_file:
  assumes "fits header_format (header_values h)" "magic_number h = 0xA5E0"
    and "num_frames h = int (length fcs)"
    and "\<forall>(d, cs) \<in> set fcs. frame_ok d (map chunk_bytes cs) \<and> (\<forall>tp \<in> set cs. skippable tp)"
    and "fcs \<noteq> []"
  shows "AsepriteFile z (pack_fields header_format (header_values h)
           @ concat (map (\<lambda>(d, cs). frame_bytes d (map chunk_bytes cs)) fcs) @ post)
         = Inr \<lparr>af_header = h,
                af_frames = map (\<lambda>(d, cs). frame_of (frame_hdr_of d (map chunk_bytes cs)) []) fcs,
                af_diags = concat (map (\<lambda>(d, cs). concat (map (\<lambda>tp.
                  [ChunkVars (int (length (chunk_bytes tp))) (fst tp), Skipped (fst tp)]) cs)) fcs),
                af_layers = [], af_tree = tree_init\<rparr>"
proof -
  have run: "parse_data z (pack_fields header_format (header_values h)
           @ concat (map (\<lambda>(d, cs). frame_bytes d (map chunk_bytes cs)) fcs) @ post)
      = Inr (h, map (\<lambda>(d, cs). frame_of (frame_hdr_of d (map chunk_bytes cs))
                                  (concat (map (\<lambda>_. []) cs))) fcs,
             concat (map (\<lambda>(d, cs). concat (map (\<lambda>tp.
               ChunkVars (int (length (chunk_bytes tp))) (fst tp) # [Skipped (fst tp)]) cs)) fcs))"
  proof (rule parse_data_encoded [OF assms(1-3)])
    show "\<forall>(d, cs) \<in> set fcs. frame_ok d (map chunk_bytes cs)" using assms(4) by auto
    have "\<forall>(d, cs) \<in> set fcs. \<forall>tp \<in> set cs. skippable tp" using assms(4) by auto
    then show "\<forall>(d, cs) \<in> set fcs. \<forall>tp \<in> set cs. \<forall>pre post.
        Chunk (pre @ chunk_bytes tp @ post) (length pre)
          = Inr \<lparr>chunk_size = int (length (chunk_bytes tp)), chunk_type = fst tp\<rparr>
        \<and> dispatch_chunk z (pre @ chunk_bytes tp @ post) (length pre) 0 (fst tp)
          = Inr ([], 0, [Skipped (fst tp)])"
      by (auto simp add: split_beta skippable_decodes)
  qed
  obtain fc fcs' where "fcs = fc # fcs'" using assms(5) by (cases fcs) auto
  then show ?thesis
    using run by (cases fc) (simp add: AsepriteFile_def build_layer_tree_def frame_of_def)
qed

theorem AsepriteFile_skippable_file_witness:
  "AsepriteFile (\<lambda>_. None)
     (pack_fields header_format (header_values \<lparr>filesize = 0, magic_number = 0xA5E0, num_frames = 1, width = 0, height = 0,
         color_depth = 0, flags = 0, speed_deprecated = 0, palette_mask = 0, num_colors = 0,
         pixel_width = 0, pixel_height = 0, grid_x_position = 0, grid_y_position = 0,
         grid_width = 0, grid_height = 0\<rparr>)
      @ concat (map (\<lambda>(d, cs). frame_bytes d (map chunk_bytes cs))
                  [(100, [(0x9999, [7]), (0x9999, [])])]) @ [])
     = Inr \<lparr>af_header = \<lparr>filesize = 0, magic_number = 0xA5E0, num_frames = 1, width = 0, height = 0,
         color_depth = 0, flags = 0, speed_deprecated = 0, palette_mask = 0, num_colors = 0,
         pixel_width = 0, pixel_height = 0, grid_x_position = 0, grid_y_position = 0,
         grid_width = 0, grid_height = 0\<rparr>,
            af_frames = [frame_of (frame_hdr_of 100 (map chunk_bytes [(0x9999, [7]), (0x9999, [])])) []],
            af_diags = [ChunkVars 7 0x9999, Skipped 0x9999, ChunkVars 6 0x9999, Skipped 0x9999],
            af_layers = [], af_tree = tree_init\<rparr>"
proof -
  have sk: "skippable (0x9999, [7])" "skippable (0x9999, [])"
    by (simp_all add: skippable_def find_chunk_type_9999)
  have "frame_ok 100 (map chunk_bytes [(0x9999, [7]), (0x9999, [])])"
    using sk by (simp add: frame_ok_def length_chunk_bytes)
  then show ?thesis
    using AsepriteFile_skippable_file [of "\<lparr>filesize = 0, magic_number = 0xA5E0, num_frames = 1, width = 0, height = 0,
         color_depth = 0, flags = 0, speed_deprecated = 0, palette_mask = 0, num_colors = 0,
         pixel_width = 0, pixel_height = 0, grid_x_position = 0, grid_y_position = 0,
         grid_width = 0, grid_height = 0\<rparr>" "[(100, [(0x9999, [7]), (0x9999, [])])]"
        "\<lambda>_. None" "[]"] sk
    by (simp add: fits_def value_fields_def header_format_def header_values_def length_chunk_bytes)
qed

text \<open>C37. End to end, the decoder reconstructs the layer hierarchy of the format: on a file
  of one frame laid out by \<open>Layer_File.layer_bytes\<close>, made of normal layers and groups
  whose depths never exceed the number of groups open before them, \<open>AsepriteFile\<close>
  returns the decoded layers in file order and a tree in which every group's
  \<open>children\<close> list, and the root list, are exactly the layers whose nearest preceding
  layer of smaller depth is that group (or none).\<close>

theorem AsepriteFile_layer_forest:
  assumes "fits header_format (header_values h)" "magic_number h = 0xA5E0" "num_frames h = 1"
    and "frame_ok d (map (\<lambda>a. layer_bytes a None) as)"
    and "\<forall>a \<in> set as. layer_ok a None \<and> layer_type a \<in> {0, 1} \<and> layer_index a = 0"
    and "levels_wf 0 (map decoded_layer as)"
  shows "\<exists>st. AsepriteFile z (pack_fields header_format (header_values h)
                               @ frame_bytes d (map (\<lambda>a. layer_bytes a None) as) @ post)
           = Inr \<lparr>af_header = h,
                  af_frames = [frame_of (frame_hdr_of d (map (\<lambda>a. layer_bytes a None) as))
                                 (map decoded_layer as)],
                  af_diags = map (\<lambda>a. ChunkVars (int (length (layer_bytes a None))) 0x2004) as,
                  af_layers = map decoded_layer as, af_tree = st\<rparr>
         \<and> (\<forall>q. children st q = filter (\<lambda>i. layer_parent (map decoded_layer as) i = Some q) [0..<length as])
         \<and> layer_tree st = filter (\<lambda>i. layer_parent (map decoded_layer as) i = None) [0..<length as]"
proof -
  obtain st where st: "tree_loop tree_init (enumerate 0 (map decoded_layer as)) = Inr st"
    and fo: "forest_upto (map decoded_layer as) (length (map decoded_layer as)) st"
    using tree_loop_init_forest [OF assms(6)] by blast
  have "filter is_layer (map decoded_layer as) = map decoded_layer as" by simp
  then show ?thesis
    using parse_data_layer_file [OF assms(1-5), of z post] st fo
    by (simp add: AsepriteFile_def build_layer_tree_def frame_of_def forest_upto_def)
qed

theorem AsepriteFile_layer_forest_witness:
  "\<exists>r. AsepriteFile (\<lambda>_. None) (pack_fields header_format (header_values \<lparr>filesize = 0, magic_number = 0xA5E0, num_frames = 1, width = 0, height = 0,
         color_depth = 0, flags = 0, speed_deprecated = 0, palette_mask = 0, num_colors = 0,
         pixel_width = 0, pixel_height = 0, grid_x_position = 0, grid_y_position = 0,
         grid_width = 0, grid_height = 0\<rparr>)
         @ frame_bytes 100 (map (\<lambda>a. layer_bytes a None) [\<lparr>lflags = 0, layer_type = 1, layer_child_level = 0, default_width = 0,
          default_height = 0, blend_mode = 0, lopacity = 255, lname = [], layer_index = 0\<rparr>, \<lparr>lflags = 0, layer_type = 0, layer_child_level = 1, default_width = 0,
          default_height = 0, blend_mode = 0, lopacity = 255, lname = [], layer_index = 0\<rparr>]) @ [])
       = Inr r
     \<and> af_layers r = [decoded_layer \<lparr>lflags = 0, layer_type = 1, layer_child_level = 0, default_width = 0,
          default_height = 0, blend_mode = 0, lopacity = 255, lname = [], layer_index = 0\<rparr>, decoded_layer \<lparr>lflags = 0, layer_type = 0, layer_child_level = 1, default_width = 0,
          default_height = 0, blend_mode = 0, lopacity = 255, lname = [], layer_index = 0\<rparr>]
     \<and> children (af_tree r) 0 = [1] \<and> children (af_tree r) 1 = [] \<and> layer_tree (af_tree r) = [0]"
proof -
  define g where "g = \<lparr>lflags = 0, layer_type = 1, layer_child_level = 0, default_width = 0,
          default_height = 0, blend_mode = 0, lopacity = 255, lname = [], layer_index = 0\<rparr>"
  define l where "l = \<lparr>lflags = 0, layer_type = 0, layer_child_level = 1, default_width = 0,
          default_height = 0, blend_mode = 0, lopacity = 255, lname = [], layer_index = 0\<rparr>"
  have ok: "layer_ok g None" "layer_ok l None"
    by (simp_all add: g_def l_def layer_ok_def layer_body_def layer_values_def fits_def
        value_fields_def layer_format_def length_pack_fields calcsize_def encode_string_def
        utf8_encode_def)
  have fr: "frame_ok 100 (map (\<lambda>a. layer_bytes a None) [g, l])"
    using ok by (simp add: frame_ok_def length_layer_bytes layer_body_def g_def l_def
        layer_values_def fits_def value_fields_def layer_format_def length_pack_fields
        calcsize_def encode_string_def utf8_encode_def layer_ok_def)
  have ty: "\<forall>a \<in> set [g, l]. layer_ok a None \<and> layer_type a \<in> {0, 1} \<and> layer_index a = 0"
    using ok by (simp add: g_def l_def)
  have wf: "levels_wf 0 (map decoded_layer [g, l])"
    by (simp add: g_def l_def decoded_layer_def Let_def LayerGroupChunk_def)
  have hf: "fits header_format (header_values \<lparr>filesize = 0, magic_number = 0xA5E0, num_frames = 1, width = 0, height = 0,
         color_depth = 0, flags = 0, speed_deprecated = 0, palette_mask = 0, num_colors = 0,
         pixel_width = 0, pixel_height = 0, grid_x_position = 0, grid_y_position = 0,
         grid_width = 0, grid_height = 0\<rparr>)"
    by (simp add: fits_def value_fields_def header_format_def header_values_def)
  have mg: "magic_number \<lparr>filesize = 0, magic_number = 0xA5E0, num_frames = 1, width = 0, height = 0,
         color_depth = 0, flags = 0, speed_deprecated = 0, palette_mask = 0, num_colors = 0,
         pixel_width = 0, pixel_height = 0, grid_x_position = 0, grid_y_position = 0,
         grid_width = 0, grid_height = 0\<rparr> = 0xA5E0" and nf: "num_frames \<lparr>filesize = 0, magic_number = 0xA5E0, num_frames = 1, width = 0, height = 0,
         color_depth = 0, flags = 0, speed_deprecated = 0, palette_mask = 0, num_colors = 0,
         pixel_width = 0, pixel_height = 0, grid_x_position = 0, grid_y_position = 0,
         grid_width = 0, grid_height = 0\<rparr> = 1" by simp_all
  obtain st where run: "AsepriteFile (\<lambda>_. None) (pack_fields header_format (header_values \<lparr>filesize = 0, magic_number = 0xA5E0, num_frames = 1, width = 0, height = 0,
         color_depth = 0, flags = 0, speed_deprecated = 0, palette_mask = 0, num_colors = 0,
         pixel_width = 0, pixel_height = 0, grid_x_position = 0, grid_y_position = 0,
         grid_width = 0, grid_height = 0\<rparr>)
         @ frame_bytes 100 (map (\<lambda>a. layer_bytes a None) [g, l]) @ [])
       = Inr \<lparr>af_header = \<lparr>filesize = 0, magic_number = 0xA5E0, num_frames = 1, width = 0, height = 0,
         color_depth = 0, flags = 0, speed_deprecated = 0, palette_mask = 0, num_colors = 0,
         pixel_width = 0, pixel_height = 0, grid_x_position = 0, grid_y_position = 0,
         grid_width = 0, grid_height = 0\<rparr>,
              af_frames = [frame_of (frame_hdr_of 100 (map (\<lambda>a. layer_bytes a None) [g, l]))
                             (map decoded_layer [g, l])],
              af_diags = map (\<lambda>a. ChunkVars (int (length (layer_bytes a None))) 0x2004) [g, l],
              af_layers = map decoded_layer [g, l], af_tree = st\<rparr>"
    and ch: "\<forall>q. children st q = filter (\<lambda>i. layer_parent (map decoded_layer [g, l]) i = Some q)
                                      [0..<length [g, l]]"
    and rt: "layer_tree st = filter (\<lambda>i. layer_parent (map decoded_layer [g, l]) i = None)
                                      [0..<length [g, l]]"
    using AsepriteFile_layer_forest [OF hf mg nf fr ty wf, of "\<lambda>_. None" "[]"] by blast
  show ?thesis
    using run ch rt
    by (simp add: g_def l_def decoded_layer_def Let_def LayerGroupChunk_def layer_parent_def upt_rec)
qed

text \<open>C38. \<open>AsepriteFile\<close> never raises \<open>KeyError\<close>, and raises \<open>IndexError\<close> exactly
  when \<open>parse_data\<close> succeeds with no frame: no reader or codec the decoding loop calls
  raises either exception (the only \<open>KeyError\<close> of the code is in \<open>unpack_tiles\<close>,
  which the loop never calls), and the layer-tree builder raises \<open>IndexError\<close> only
  through \<open>self.frames[0]\<close>.\<close>

theorem AsepriteFile_IndexError_iff:
  "AsepriteFile z bs \<noteq> Inl KeyError
   \<and> (AsepriteFile z bs = Inl IndexError \<longleftrightarrow> (\<exists>h out. parse_data z bs = Inr (h, [], out)))"
proof (cases "parse_data z bs")
  case (Inl e)
  then have "AsepriteFile z bs = Inl e" by (simp add: AsepriteFile_def)
  moreover have "e \<noteq> IndexError \<and> e \<noteq> KeyError" using ok_err_parse_data [of z bs] Inl by simp
  ultimately show ?thesis using Inl by auto
next
  case (Inr r)
  obtain h frames out where r: "r = (h, frames, out)" by (cases r) blast
  show ?thesis
  proof (cases frames)
    case Nil
    then show ?thesis using Inr r by (simp add: AsepriteFile_def build_layer_tree_def)
  next
    case (Cons f fs)
    then show ?thesis using AsepriteFile_Cons [of z bs h f fs out] Inr r by auto
  qed
qed

end
